(* ===== verification/Prelude.thy ===== *)
theory Prelude
  imports Complex_Main "HOL-Library.AList"
begin

text \<open>
  Shared vocabulary of the storefront model: the collections of lemmas the component
  theories feed, the model of a JavaScript \<open>Map\<close> (an association list updated in place,
  which keeps insertion order as \<open>Map.prototype.values\<close> does), and generic facts on lists
  and options that several components use.
\<close>

named_theorems model_defs "definitions of the model unfolded when it is run on concrete inputs"
named_theorems inv_intros "one-step preservation facts of the component invariants"

subsection \<open>JavaScript Map as an insertion-ordered association list\<close>

text \<open>
  \<open>new Map()\<close> is \<open>[]\<close>, \<open>m.get(k)\<close> is \<open>map_of m k\<close>, \<open>m.set(k, v)\<close> is
  \<open>AList.update k v m\<close> (an existing key keeps its position, a new key goes last), and
  \<open>Array.from(m.values())\<close> is \<open>map snd m\<close>.
\<close>

type_synonym ('k, 'v) jsmap = "('k \<times> 'v) list"

abbreviation jsmap_values :: "('k, 'v) jsmap \<Rightarrow> 'v list" where
  "jsmap_values m \<equiv> map snd m"

lemma map_snd_update_new:
  "k \<notin> fst ` set m \<Longrightarrow> map snd (AList.update k v m) = map snd m @ [v]"
  by (induction m) auto

lemma map_fst_update_new:
  "k \<notin> fst ` set m \<Longrightarrow> map fst (AList.update k v m) = map fst m @ [k]"
  by (induction m) auto

lemma map_fst_update_old:
  "k \<in> fst ` set m \<Longrightarrow> map fst (AList.update k v m) = map fst m"
  by (induction m) auto

lemma length_update_old:
  "k \<in> fst ` set m \<Longrightarrow> length (AList.update k v m) = length m"
  using map_fst_update_old by (metis length_map)

lemma map_of_update_same [simp]: "map_of (AList.update k v m) k = Some v"
  by (simp add: update_conv')

lemma map_of_update_other [simp]: "k' \<noteq> k \<Longrightarrow> map_of (AList.update k v m) k' = map_of m k'"
  by (simp add: update_conv')

subsection \<open>Rationals\<close>

lemma floor_numeral_div_rat [simp]: "\<lfloor>(numeral a :: rat) / numeral b\<rfloor> = numeral a div numeral b"
  using floor_divide_of_int_eq [of "numeral a" "numeral b", where 'a = rat] by simp

subsection \<open>Lists\<close>

lemma foldl_plus_sum_list:
  fixes f :: "'a \<Rightarrow> 'b::comm_monoid_add"
  shows "foldl (\<lambda>s x. s + f x) a xs = a + sum_list (map f xs)"
  by (induction xs arbitrary: a) (simp_all add: add.assoc)

lemma sum_list_map_cong_eq:
  "(\<And>x. x \<in> set xs \<Longrightarrow> f x = g x) \<Longrightarrow> sum_list (map f xs) = sum_list (map g xs)"
  by (metis map_cong)

lemma sum_list_update_group:
  fixes x :: "'a::ab_group_add"
  shows "k < length xs \<Longrightarrow> sum_list (xs[k := x]) = sum_list xs - xs ! k + x"
  by (induction xs arbitrary: k) (auto split: nat.splits simp: algebra_simps)

lemma map_id_if_not_found:
  "(\<And>x. x \<in> set xs \<Longrightarrow> \<not> P x) \<Longrightarrow> map (\<lambda>x. if P x then f x else x) xs = xs"
  by (induction xs) auto

lemma map_update_distinct:
  "distinct (map f xs) \<Longrightarrow> k < length xs \<Longrightarrow>
     map (\<lambda>i. if f i = f (xs ! k) then g i else i) xs = xs[k := g (xs ! k)]"
proof (induction xs arbitrary: k)
  case (Cons x xs)
  show ?case
  proof (cases k)
    case 0
    with Cons.prems have "\<forall>i\<in>set xs. f i \<noteq> f x" by (auto simp: image_iff)
    with 0 show ?thesis by (simp add: map_idI)
  next
    case (Suc j)
    with Cons.prems have "xs ! j \<in> set xs" by simp
    with Cons.prems have "f x \<noteq> f (xs ! j)" by auto
    with Suc Cons show ?thesis by simp
  qed
qed simp

lemma update_value_listed: "v \<in> snd ` set (AList.update k v m)"
proof -
  have "(k, v) \<in> set (AList.update k v m)" by (rule map_of_SomeD) simp
  then show ?thesis by force
qed

lemma find_append_None: "find P xs = None \<Longrightarrow> find P (xs @ ys) = find P ys"
  by (induction xs) (auto split: if_splits)

end
