(* ===== verification/JsNumber.thy ===== *)
theory JsNumber
  imports Prelude
begin

text \<open>
  JavaScript numbers as the storefront uses them. A finite number is an exact rational
  (\<open>Num\<close>); IEEE-754 rounding is abstracted away, NaN and the two infinities are kept with
  their absorbing behaviour. The theory translates the parts of the ECMAScript number
  semantics the client code calls: \<open>+\<close> and \<open>*\<close> (\<open>js_add\<close>, \<open>js_mul\<close>; \<open>jsnum\<close>
  is an instance of \<open>comm_monoid_add\<close>, so \<open>sum_list\<close> applies), \<open>parseFloat\<close>
  (\<open>parse_float\<close>), \<open>Number.prototype.toString\<close> (\<open>js_to_string\<close>) and
  \<open>Number.prototype.toFixed(2)\<close> (\<open>to_fixed2\<close>).
\<close>

datatype jsnum = Num rat | NaN | PosInf | NegInf

subsection \<open>Arithmetic\<close>

fun js_add :: "jsnum \<Rightarrow> jsnum \<Rightarrow> jsnum" where
  "js_add (Num x) (Num y) = Num (x + y)"
| "js_add NaN y = NaN"
| "js_add x NaN = NaN"
| "js_add PosInf NegInf = NaN"
| "js_add NegInf PosInf = NaN"
| "js_add PosInf y = PosInf"
| "js_add NegInf y = NegInf"
| "js_add (Num x) y = y"

text \<open>Multiplying an infinity of sign \<open>pos\<close> by another number.\<close>

fun scale_inf :: "bool \<Rightarrow> jsnum \<Rightarrow> jsnum" where
  "scale_inf pos (Num r) = (if r = 0 then NaN else if (0 < r) = pos then PosInf else NegInf)"
| "scale_inf pos NaN = NaN"
| "scale_inf pos PosInf = (if pos then PosInf else NegInf)"
| "scale_inf pos NegInf = (if pos then NegInf else PosInf)"

fun js_mul :: "jsnum \<Rightarrow> jsnum \<Rightarrow> jsnum" where
  "js_mul (Num x) (Num y) = Num (x * y)"
| "js_mul NaN y = NaN"
| "js_mul x NaN = NaN"
| "js_mul PosInf y = scale_inf True y"
| "js_mul NegInf y = scale_inf False y"
| "js_mul x PosInf = scale_inf True x"
| "js_mul x NegInf = scale_inf False x"

instantiation jsnum :: comm_monoid_add
begin

definition zero_jsnum :: jsnum where
  "zero_jsnum = Num 0"

definition plus_jsnum :: "jsnum \<Rightarrow> jsnum \<Rightarrow> jsnum" where
  "plus_jsnum = js_add"

instance
proof
  fix a b c :: jsnum
  show "a + b + c = a + (b + c)"
    unfolding plus_jsnum_def by (cases a; cases b; cases c) simp_all
  show "a + b = b + a"
    unfolding plus_jsnum_def by (cases a; cases b) simp_all
  show "0 + a = a"
    unfolding plus_jsnum_def zero_jsnum_def by (cases a) simp_all
qed

end

subsection \<open>Decimal digits\<close>

definition char_code :: "char \<Rightarrow> nat" where
  "char_code c = of_char c"

definition is_digit :: "char \<Rightarrow> bool" where
  "is_digit c \<longleftrightarrow> 48 \<le> char_code c \<and> char_code c \<le> 57"

definition digit_value :: "char \<Rightarrow> nat" where
  "digit_value c = char_code c - 48"

definition digits_nat :: "char list \<Rightarrow> nat" where
  "digits_nat ds = foldl (\<lambda>acc d. 10 * acc + digit_value d) 0 ds"

definition digit_char :: "nat \<Rightarrow> char" where
  "digit_char d = ''0123456789'' ! d"

fun nat_digits :: "nat \<Rightarrow> char list" where
  "nat_digits n = (if n < 10 then [digit_char n] else nat_digits (n div 10) @ [digit_char (n mod 10)])"

declare nat_digits.simps [simp del]

definition pow10 :: "int \<Rightarrow> rat" where
  "pow10 e = (if 0 \<le> e then 10 ^ nat e else 1 / 10 ^ nat (- e))"

subsection \<open>parseFloat\<close>

text \<open>
  \<open>parseFloat(s)\<close> skips leading white space, then reads the longest prefix that is a
  \<open>StrDecimalLiteral\<close>: an optional sign, then \<open>Infinity\<close> or digits with an optional
  fraction and exponent; NaN if there is no such prefix. White space is the ASCII part of
  \<open>StrWhiteSpaceChar\<close> (space, tab, line feed, vertical tab, form feed, carriage return).
\<close>

definition is_str_space :: "char \<Rightarrow> bool" where
  "is_str_space c \<longleftrightarrow> char_code c = 32 \<or> (9 \<le> char_code c \<and> char_code c \<le> 13)"

definition take_sign :: "char list \<Rightarrow> bool \<times> char list" where
  "take_sign s = (case s of
      c # r \<Rightarrow> if c = CHR ''-'' then (True, r) else if c = CHR ''+'' then (False, r) else (False, s)
    | [] \<Rightarrow> (False, []))"

definition exponent_part :: "char list \<Rightarrow> int" where
  "exponent_part s = (case s of
      c # r \<Rightarrow>
        if c = CHR ''e'' \<or> c = CHR ''E'' then
          (let (neg, r') = take_sign r; ds = takeWhile is_digit r' in
           if ds = [] then 0 else if neg then - int (digits_nat ds) else int (digits_nat ds))
        else 0
    | [] \<Rightarrow> 0)"

definition parse_float :: "char list \<Rightarrow> jsnum" where
  "parse_float s =
     (let (neg, u) = take_sign (dropWhile is_str_space s) in
      if take 8 u = ''Infinity'' then (if neg then NegInf else PosInf)
      else
        (let ip = takeWhile is_digit u;
             r1 = dropWhile is_digit u;
             (fp, r2) = (case r1 of
                 c # r \<Rightarrow> if c = CHR ''.'' then (takeWhile is_digit r, dropWhile is_digit r)
                          else ([], r1)
               | [] \<Rightarrow> ([], []))
         in if ip = [] \<and> fp = [] then NaN
            else
              (let v = of_nat (digits_nat (ip @ fp)) / 10 ^ length fp * pow10 (exponent_part r2)
               in Num (if neg then - v else v))))"

subsection \<open>Number.prototype.toString\<close>

text \<open>
  \<open>Number::toString\<close> writes the shortest digit string \<open>s\<close> with
  \<open>x = s \<times> 10^(n-k)\<close>. For a number with a terminating decimal expansion (every double
  has one, with at most 1074 decimal places) those digits are exact; the fuel of 1100
  places covers every double. A rational with no terminating expansion is no double;
  for it the model writes 17 significant digits, as the printing of the nearest double
  would.
\<close>

fun strip_zeros :: "nat \<Rightarrow> nat \<times> nat" where
  "strip_zeros s = (if s \<noteq> 0 \<and> s mod 10 = 0
                     then (let (s', t) = strip_zeros (s div 10) in (s', Suc t)) else (s, 0))"

declare strip_zeros.simps [simp del]

fun dec_places :: "nat \<Rightarrow> rat \<Rightarrow> nat option" where
  "dec_places 0 x = None"
| "dec_places (Suc f) x = (if x = of_int \<lfloor>x\<rfloor> then Some 0 else map_option Suc (dec_places f (10 * x)))"

fun lead_zeros :: "nat \<Rightarrow> rat \<Rightarrow> nat" where
  "lead_zeros 0 x = 0"
| "lead_zeros (Suc f) x = (if 1 \<le> x then 0 else Suc (lead_zeros f (10 * x)))"

definition ilog10 :: "rat \<Rightarrow> int" where
  "ilog10 x = (if 1 \<le> x then int (length (nat_digits (nat \<lfloor>x\<rfloor>))) - 1
               else - int (lead_zeros 1100 x))"

definition sig_decimal :: "rat \<Rightarrow> nat \<times> int" where
  "sig_decimal x = (case dec_places 1100 x of
      Some p \<Rightarrow> (let (s, t) = strip_zeros (nat \<lfloor>x * 10 ^ p\<rfloor>) in (s, int t - int p))
    | None \<Rightarrow> (let e = ilog10 x - 16; (s, t) = strip_zeros (nat \<lfloor>x / pow10 e + 1 / 2\<rfloor>)
               in (s, e + int t)))"

definition exp_suffix :: "int \<Rightarrow> char list" where
  "exp_suffix e = (if e < 0 then ''e-'' else ''e+'') @ nat_digits (nat \<bar>e\<bar>)"

definition pos_to_string :: "rat \<Rightarrow> char list" where
  "pos_to_string x =
     (let (s, e) = sig_decimal x; ds = nat_digits s; k = int (length ds); n = k + e in
      if k \<le> n \<and> n \<le> 21 then ds @ replicate (nat (n - k)) (CHR ''0'')
      else if 0 < n \<and> n \<le> 21 then take (nat n) ds @ ''.'' @ drop (nat n) ds
      else if -6 < n \<and> n \<le> 0 then ''0.'' @ replicate (nat (- n)) (CHR ''0'') @ ds
      else if k = 1 then ds @ exp_suffix (n - 1)
      else [hd ds] @ ''.'' @ tl ds @ exp_suffix (n - 1))"

fun js_to_string :: "jsnum \<Rightarrow> char list" where
  "js_to_string NaN = ''NaN''"
| "js_to_string PosInf = ''Infinity''"
| "js_to_string NegInf = ''-Infinity''"
| "js_to_string (Num x) =
     (if x = 0 then ''0'' else if x < 0 then CHR ''-'' # pos_to_string (- x) else pos_to_string x)"

subsection \<open>Number.prototype.toFixed(2)\<close>

text \<open>
  \<open>toFixed(2)\<close>: not finite or \<open>|x| \<ge> 10^21\<close> gives \<open>toString\<close>; otherwise the sign,
  then the integer \<open>n\<close> nearest to \<open>100 |x|\<close> (the larger one on a tie), written with at
  least three digits and a point before the last two.
\<close>

definition cents_string :: "nat \<Rightarrow> char list" where
  "cents_string n =
     (let m = nat_digits n; m' = replicate (3 - length m) (CHR ''0'') @ m
      in take (length m' - 2) m' @ ''.'' @ drop (length m' - 2) m')"

definition round_cents :: "rat \<Rightarrow> nat" where
  "round_cents x = nat \<lfloor>100 * x + 1 / 2\<rfloor>"

fun to_fixed2 :: "jsnum \<Rightarrow> char list" where
  "to_fixed2 (Num x) =
     (if 10 ^ 21 \<le> \<bar>x\<bar> then js_to_string (Num x)
      else if x < 0 then CHR ''-'' # cents_string (round_cents (- x))
      else cents_string (round_cents x))"
| "to_fixed2 y = js_to_string y"

subsection \<open>Subtraction and comparison\<close>

fun js_neg :: "jsnum \<Rightarrow> jsnum" where
  "js_neg (Num x) = Num (- x)"
| "js_neg NaN = NaN"
| "js_neg PosInf = NegInf"
| "js_neg NegInf = PosInf"

definition js_sub :: "jsnum \<Rightarrow> jsnum \<Rightarrow> jsnum" where
  "js_sub x y = js_add x (js_neg y)"

text \<open>\<open>x <= y\<close> (the abstract relational comparison): false when either side is NaN.\<close>

fun js_le :: "jsnum \<Rightarrow> jsnum \<Rightarrow> bool" where
  "js_le (Num x) (Num y) = (x \<le> y)"
| "js_le NaN y = False"
| "js_le x NaN = False"
| "js_le NegInf y = True"
| "js_le x PosInf = True"
| "js_le x NegInf = False"
| "js_le PosInf y = False"

text \<open>A comparator's result as \<open>Array.prototype.sort\<close> reads it (\<open>SortCompare\<close>): NaN
  counts as \<open>+0\<close>, so only a positive number or \<open>+Infinity\<close> orders the second argument
  first.\<close>

fun js_positive :: "jsnum \<Rightarrow> bool" where
  "js_positive (Num x) = (0 < x)"
| "js_positive PosInf = True"
| "js_positive _ = False"

text \<open>\<open>x < y\<close>: false when either side is NaN, and on equal values.\<close>

definition js_lt :: "jsnum \<Rightarrow> jsnum \<Rightarrow> bool" where
  "js_lt x y \<longleftrightarrow> js_le x y \<and> x \<noteq> y"

subsection \<open>Math.floor and the remainder operator\<close>

fun js_floor :: "jsnum \<Rightarrow> jsnum" where
  "js_floor (Num x) = Num (of_int \<lfloor>x\<rfloor>)"
| "js_floor y = y"

text \<open>
  \<open>n % d\<close> (\<open>Number::remainder\<close>): the result has the sign of the dividend, \<open>n - d * q\<close>
  with \<open>q\<close> the quotient truncated towards zero; NaN for an infinite dividend, a zero
  divisor or a NaN operand; the dividend itself for an infinite divisor.
\<close>

fun js_rem :: "jsnum \<Rightarrow> jsnum \<Rightarrow> jsnum" where
  "js_rem (Num n) (Num d) =
     (if d = 0 then NaN
      else Num (n - d * of_int (if 0 \<le> n / d then \<lfloor>n / d\<rfloor> else \<lceil>n / d\<rceil>)))"
| "js_rem (Num n) PosInf = Num n"
| "js_rem (Num n) NegInf = Num n"
| "js_rem _ _ = NaN"

subsection \<open>Arithmetic facts\<close>

lemma js_num_add [simp]: "Num x + Num y = Num (x + y)"
  by (simp add: plus_jsnum_def)

lemma js_nan_add [simp]: "NaN + y = NaN" "y + NaN = NaN"
  by (simp_all add: plus_jsnum_def) (cases y; simp)

lemma js_zero_Num [simp]: "(0::jsnum) = Num 0"
  by (simp add: zero_jsnum_def)

lemma js_add_Num0 [simp]: "Num 0 + x = x" "x + Num 0 = x"
  using add.left_neutral [of x] add.right_neutral [of x] by simp_all

text \<open>The equations that evaluate \<open>parseFloat\<close> and \<open>toFixed(2)\<close> on literals by \<open>simp\<close>.\<close>

lemmas parse_float_evals = parse_float_def is_str_space_def is_digit_def char_code_def
  take_sign_def digits_nat_def digit_value_def exponent_part_def pow10_def

lemmas to_fixed2_evals = cents_string_def round_cents_def nat_digits.simps digit_char_def

subsection \<open>Integers print as their decimal digits\<close>

lemma strip_zeros_mult: "strip_zeros m = (s, t) \<Longrightarrow> m = s * 10 ^ t"
proof (induction m arbitrary: s t rule: strip_zeros.induct)
  case (1 m)
  then show ?case
    by (subst (asm) strip_zeros.simps) (auto simp: Let_def split: if_splits prod.splits)
qed

lemma strip_zeros_pos: "0 < m \<Longrightarrow> strip_zeros m = (s, t) \<Longrightarrow> 0 < s"
  using strip_zeros_mult by fastforce

lemma nat_digits_times10: "0 < m \<Longrightarrow> nat_digits (m * 10) = nat_digits m @ ''0''"
  by (subst nat_digits.simps) (simp add: digit_char_def)

lemma nat_digits_pow10: "0 < s \<Longrightarrow> nat_digits (s * 10 ^ t) = nat_digits s @ replicate t (CHR ''0'')"
proof (induction t)
  case 0 then show ?case by simp
next
  case (Suc t)
  have "nat_digits (s * 10 ^ Suc t) = nat_digits (s * 10 ^ t * 10)" by (simp add: ac_simps)
  also have "\<dots> = nat_digits (s * 10 ^ t) @ ''0''" using Suc.prems by (simp add: nat_digits_times10)
  finally show ?case using Suc by (simp add: replicate_append_same [symmetric])
qed

lemma length_nat_digits: "m < 10 ^ k \<Longrightarrow> 0 < k \<Longrightarrow> length (nat_digits m) \<le> k"
proof (induction m arbitrary: k rule: nat_digits.induct)
  case (1 n)
  show ?case
  proof (cases "n < 10")
    case True then show ?thesis using "1.prems" by (simp add: nat_digits.simps)
  next
    case False
    obtain k' where k: "k = Suc k'" using "1.prems" by (cases k) auto
    have "0 < k'" using False "1.prems" k by (cases k') auto
    have "n div 10 < 10 ^ k'" using "1.prems"(1) k by (simp add: div_less_iff_less_mult ac_simps)
    with "1.IH" False \<open>0 < k'\<close> have "length (nat_digits (n div 10)) \<le> k'" by simp
    with False k show ?thesis by (subst nat_digits.simps) simp
  qed
qed

lemma js_to_string_nat:
  assumes "0 < m" and "m < 10 ^ 21"
  shows "js_to_string (Num (of_nat m)) = nat_digits m"
proof -
  obtain s t where st: "strip_zeros m = (s, t)" by (cases "strip_zeros m")
  have m: "m = s * 10 ^ t" and s: "0 < s" using strip_zeros_mult [OF st] strip_zeros_pos [OF assms(1) st] by auto
  have dp: "dec_places 1100 (of_nat m) = Some 0" by (simp add: numeral_eq_Suc)
  have sig: "sig_decimal (of_nat m) = (s, int t)" using dp st by (simp add: sig_decimal_def)
  have "length (nat_digits m) \<le> 21" using length_nat_digits [OF assms(2)] by simp
  hence len: "length (nat_digits s) + t \<le> 21" using nat_digits_pow10 [OF s, of t] m by simp
  have ds: "nat_digits m = nat_digits s @ replicate t (CHR ''0'')" using nat_digits_pow10 [OF s, of t] m by simp
  have "pos_to_string (of_nat m) = nat_digits m" using sig len ds by (simp add: pos_to_string_def Let_def)
  then show ?thesis using assms(1) by simp
qed


end
