(* ===== verification/Schema.thy ===== *)
theory Schema
  imports JsNumber
begin

text \<open>
  The data model of \<open>src/shared/schema.ts\<close>: the table rows (users, products, orders,
  order items) as records with their insert shapes, the client-side cart types, the
  static supplier table \<open>SUPPLIERS\<close> and the order statuses \<open>ORDER_STATUSES\<close>.
  Decimal columns (\<open>numeric\<close>) are strings, as drizzle returns them; timestamps are
  natural numbers; nullable columns are options. Field names carry a prefix where two
  tables share a column name.
\<close>

subsection \<open>Users and products\<close>

record user =
  user_id :: int
  username :: string
  password :: string
  user_isAdmin :: "bool option"

text \<open>\<open>InsertUser\<close>: the row without \<open>id\<close>; \<open>isAdmin\<close> optional.\<close>

record insert_user =
  iu_username :: string
  iu_password :: string
  iu_isAdmin :: "bool option"

record product =
  product_id :: int
  product_name :: string
  description :: string
  product_price :: string
  category :: string
  product_image :: string
  rating :: string
  badge :: "string option"
  discountPrice :: "string option"
  product_isService :: "bool option"
  product_createdAt :: nat

text \<open>\<open>InsertProduct\<close>: the row without \<open>id\<close> and \<open>createdAt\<close>.\<close>

record insert_product =
  ins_name :: string
  ins_description :: string
  ins_price :: string
  ins_category :: string
  ins_image :: string
  ins_rating :: string
  ins_badge :: "string option"
  ins_discountPrice :: "string option"
  ins_isService :: "bool option"

definition PRODUCT_CATEGORIES :: "string list" where
  "PRODUCT_CATEGORIES = [''home'', ''licenses'', ''hardware'', ''cloud services'', ''client details'']"

subsection \<open>Suppliers\<close>

record supplier =
  supplier_id :: int
  supplier_name :: string
  supplier_rating :: rat
  deliveryTime :: string
  shippingFee :: rat

definition SUPPLIERS :: "supplier list" where
  "SUPPLIERS =
    [\<lparr>supplier_id = 1, supplier_name = ''Fast Express'', supplier_rating = 4.5,
      deliveryTime = ''1-2 days'', shippingFee = 5.99\<rparr>,
     \<lparr>supplier_id = 2, supplier_name = ''Budget Shipping'', supplier_rating = 3.8,
      deliveryTime = ''3-5 days'', shippingFee = 2.99\<rparr>,
     \<lparr>supplier_id = 3, supplier_name = ''Premium Logistics'', supplier_rating = 4.9,
      deliveryTime = ''Next day'', shippingFee = 9.99\<rparr>,
     \<lparr>supplier_id = 4, supplier_name = ''Standard Delivery'', supplier_rating = 4.2,
      deliveryTime = ''2-3 days'', shippingFee = 4.99\<rparr>]"

subsection \<open>Cart\<close>

text \<open>\<open>CartItem.price\<close> is \<open>string | number\<close>.\<close>

datatype price_val = PriceStr string | PriceNum jsnum

record cart_item =
  item_id :: int
  productId :: int
  item_name :: string
  item_price :: price_val
  quantity :: int
  item_image :: string
  item_isService :: "bool option"
  selectedSupplierId :: "int option"

record cart =
  items :: "cart_item list"
  total :: jsnum

subsection \<open>Checkout form\<close>

datatype payment_method = Credit_card | Cash | Bank_transfer

fun payment_method_str :: "payment_method \<Rightarrow> string" where
  "payment_method_str Credit_card = ''credit_card''"
| "payment_method_str Cash = ''cash''"
| "payment_method_str Bank_transfer = ''bank_transfer''"

datatype document_type = Id_verification | Proof_of_address | Other

record checkout_form =
  firstName :: string
  lastName :: string
  email :: string
  address :: string
  city :: string
  state :: string
  zipCode :: string
  paymentMethod :: payment_method
  documentName :: "string option"
  documentType :: "document_type option"

subsection \<open>Orders\<close>

record order =
  order_id :: int
  order_userId :: int
  totalAmount :: string
  customerName :: string
  customerEmail :: string
  shippingAddress :: string
  order_paymentMethod :: string
  status :: string
  order_createdAt :: nat

record insert_order =
  io_userId :: int
  io_totalAmount :: string
  io_customerName :: string
  io_customerEmail :: string
  io_shippingAddress :: string
  io_paymentMethod :: string
  io_status :: "string option"

record order_item =
  oi_id :: int
  oi_orderId :: int
  oi_productId :: int
  oi_productName :: string
  oi_quantity :: int
  oi_price :: string
  oi_supplierId :: "int option"
  oi_createdAt :: nat

record insert_order_item =
  ioi_orderId :: int
  ioi_productId :: int
  ioi_productName :: string
  ioi_quantity :: int
  ioi_price :: string
  ioi_supplierId :: "int option"

text \<open>\<open>ORDER_STATUSES\<close>, the closed enumeration the client offers.\<close>

definition ORDER_STATUSES :: "string list" where
  "ORDER_STATUSES = [''pending'', ''processing'', ''shipped'', ''delivered'', ''cancelled'']"

end
