(* ===== verification/Cart.thy ===== *)
theory Cart
  imports Schema
begin

text \<open>
  The cart store of \<open>src/client/src/contexts/CartContext.tsx\<close>. The React state
  \<open>cart\<close> is the value threaded through the operations: each of \<open>addToCart\<close>,
  \<open>removeFromCart\<close>, \<open>updateQuantity\<close>, \<open>updateSupplier\<close> and \<open>clearCart\<close> is the
  updater function it hands to \<open>setCart\<close>, so it maps the previous cart to the next one.
  \<open>Date.now()\<close>, the id of a new line, is an argument of \<open>addToCart\<close>. The
  persistence effects (the load on mount and the save after every change) are
  \<open>load_cart\<close>, \<open>save_cart\<close> and \<open>session\<close> at the end, over a codec that stands for
  \<open>JSON.stringify\<close> / \<open>JSON.parse\<close>.
\<close>

subsection \<open>Helpers\<close>

text \<open>\<open>Array.prototype.findIndex\<close>: the first index whose element satisfies the test, -1 if none.\<close>

fun find_index :: "('a \<Rightarrow> bool) \<Rightarrow> 'a list \<Rightarrow> int" where
  "find_index P [] = -1"
| "find_index P (x # xs) = (if P x then 0 else (let i = find_index P xs in if i < 0 then -1 else i + 1))"

text \<open>The price coercion of \<open>calculateTotal\<close>: \<open>parseFloat\<close> for a string, \<open>Number\<close> otherwise.\<close>

fun coerce_price :: "price_val \<Rightarrow> jsnum" where
  "coerce_price (PriceStr s) = parse_float s"
| "coerce_price (PriceNum x) = x"

definition line_amount :: "cart_item \<Rightarrow> jsnum" where
  "line_amount i = js_mul (coerce_price (item_price i)) (Num (of_int (quantity i)))"

definition calculateTotal :: "cart_item list \<Rightarrow> jsnum" where
  "calculateTotal xs = foldl (\<lambda>sum i. sum + line_amount i) (Num 0) xs"

definition itemCount :: "cart \<Rightarrow> int" where
  "itemCount c = foldl (\<lambda>t i. t + quantity i) 0 (items c)"

definition defaultCart :: cart where
  "defaultCart = \<lparr>items = [], total = Num 0\<rparr>"

subsection \<open>Operations\<close>

definition new_cart_item :: "product \<Rightarrow> int \<Rightarrow> int \<Rightarrow> cart_item" where
  "new_cart_item p q now =
     \<lparr>item_id = now, productId = product_id p, item_name = product_name p,
      item_price = PriceStr (product_price p), quantity = q, item_image = product_image p,
      item_isService = Some (product_isService p = Some True), selectedSupplierId = None\<rparr>"

definition addToCart :: "product \<Rightarrow> int \<Rightarrow> int \<Rightarrow> cart \<Rightarrow> cart" where
  "addToCart p q now c =
     (let idx = find_index (\<lambda>i. productId i = product_id p) (items c);
          newItems =
            (if idx \<ge> 0 then
               (items c)[nat idx := (items c ! nat idx)\<lparr>quantity := quantity (items c ! nat idx) + q\<rparr>]
             else items c @ [new_cart_item p q now])
      in \<lparr>items = newItems, total = calculateTotal newItems\<rparr>)"

definition removeFromCart :: "int \<Rightarrow> cart \<Rightarrow> cart" where
  "removeFromCart iid c =
     (let newItems = filter (\<lambda>i. item_id i \<noteq> iid) (items c)
      in \<lparr>items = newItems, total = calculateTotal newItems\<rparr>)"

definition updateQuantity :: "int \<Rightarrow> int \<Rightarrow> cart \<Rightarrow> cart" where
  "updateQuantity iid q c =
     (if q < 1 then c
      else
        (let newItems = map (\<lambda>i. if item_id i = iid then i\<lparr>quantity := q\<rparr> else i) (items c)
         in \<lparr>items = newItems, total = calculateTotal newItems\<rparr>))"

definition updateSupplier :: "int \<Rightarrow> int \<Rightarrow> cart \<Rightarrow> cart" where
  "updateSupplier iid sid c =
     c\<lparr>items := map (\<lambda>i. if item_id i = iid then i\<lparr>selectedSupplierId := Some sid\<rparr> else i) (items c)\<rparr>"

definition clearCart :: "cart \<Rightarrow> cart" where
  "clearCart c = defaultCart"

text \<open>The operations of the \<open>CartContextType\<close> interface, as one step function.\<close>

datatype cart_op =
    AddToCart product int int
  | RemoveFromCart int
  | UpdateQuantity int int
  | UpdateSupplier int int
  | ClearCart

fun cart_step :: "cart \<Rightarrow> cart_op \<Rightarrow> cart" where
  "cart_step c (AddToCart p q now) = addToCart p q now c"
| "cart_step c (RemoveFromCart iid) = removeFromCart iid c"
| "cart_step c (UpdateQuantity iid q) = updateQuantity iid q c"
| "cart_step c (UpdateSupplier iid sid) = updateSupplier iid sid c"
| "cart_step c ClearCart = clearCart c"

fun cart_run :: "cart \<Rightarrow> cart_op list \<Rightarrow> cart" where
  "cart_run c [] = c"
| "cart_run c (op # ops) = cart_run (cart_step c op) ops"

subsection \<open>Persistence\<close>

text \<open>
  The snapshot under the key \<open>"cart"\<close> is a value of type \<open>'j\<close>; \<open>enc\<close> is
  \<open>JSON.stringify\<close> and \<open>dec\<close> is \<open>JSON.parse\<close>, \<open>None\<close> where it throws. On mount
  a snapshot that parses replaces the cart as it is (its \<open>total\<close> is not recomputed); one
  that does not is removed. The save effect then writes the current cart.
\<close>

definition load_cart :: "('j \<Rightarrow> cart option) \<Rightarrow> 'j option \<Rightarrow> cart" where
  "load_cart dec saved =
     (case saved of None \<Rightarrow> defaultCart
      | Some s \<Rightarrow> (case dec s of None \<Rightarrow> defaultCart | Some c \<Rightarrow> c))"

definition save_cart :: "(cart \<Rightarrow> 'j) \<Rightarrow> cart \<Rightarrow> 'j option" where
  "save_cart enc c = Some (enc c)"

text \<open>A session: mount from the stored snapshot, run operations, saving after each.\<close>

definition session :: "(cart \<Rightarrow> 'j) \<Rightarrow> ('j \<Rightarrow> cart option) \<Rightarrow> 'j option \<Rightarrow> cart_op list \<Rightarrow> cart \<times> 'j option" where
  "session enc dec saved ops =
     (let c = cart_run (load_cart dec saved) ops in (c, save_cart enc c))"

text \<open>A catalogue row (the first product \<open>seedProducts\<close> creates) for the examples below.\<close>

definition example_product :: product where
  "example_product =
     \<lparr>product_id = 1, product_name = ''Smartwatch X1'',
      description = ''Premium smartwatch with health tracking and long battery life.'',
      product_price = ''999.99'', category = ''electronics'', product_image = '''',
      rating = ''4.5'', badge = Some ''NEW'', discountPrice = None,
      product_isService = Some False, product_createdAt = 0\<rparr>"

subsection \<open>Invariants\<close>

text \<open>The cart's total is the sum computed from its lines (spec, section 3).\<close>

definition cart_consistent :: "cart \<Rightarrow> bool" where
  "cart_consistent c \<longleftrightarrow> total c = calculateTotal (items c)"

text \<open>At most one line per product.\<close>

definition lines_distinct :: "cart \<Rightarrow> bool" where
  "lines_distinct c \<longleftrightarrow> distinct (map productId (items c))"

definition quantities_positive :: "cart \<Rightarrow> bool" where
  "quantities_positive c \<longleftrightarrow> (\<forall>i\<in>set (items c). 1 \<le> quantity i)"

fun op_positive :: "cart_op \<Rightarrow> bool" where
  "op_positive (AddToCart p q now) = (1 \<le> q)"
| "op_positive op = True"

text \<open>The \<open>Date.now()\<close> values that a sequence of operations stamps on new lines.\<close>

fun add_times :: "cart_op list \<Rightarrow> int list" where
  "add_times [] = []"
| "add_times (AddToCart p q now # ops) = now # add_times ops"
| "add_times (op # ops) = add_times ops"

declare addToCart_def [model_defs] removeFromCart_def [model_defs] updateQuantity_def [model_defs]
  updateSupplier_def [model_defs] clearCart_def [model_defs] defaultCart_def [model_defs]
  new_cart_item_def [model_defs] load_cart_def [model_defs] save_cart_def [model_defs]
  session_def [model_defs] Let_def [model_defs] example_product_def [model_defs]

subsection \<open>Basic facts\<close>

lemma find_index_nonneg_iff: "0 \<le> find_index P xs \<longleftrightarrow> (\<exists>x\<in>set xs. P x)"
  by (induction xs) (auto simp: Let_def)

lemma find_index_found:
  "0 \<le> find_index P xs \<Longrightarrow> nat (find_index P xs) < length xs \<and> P (xs ! nat (find_index P xs))"
proof (induction xs)
  case Nil
  then show ?case by simp
next
  case (Cons x xs)
  show ?case
  proof (cases "P x")
    case True
    then show ?thesis by simp
  next
    case False
    with Cons.prems have ge: "0 \<le> find_index P xs" by (auto simp: Let_def split: if_splits)
    then have "nat (find_index P xs + 1) = Suc (nat (find_index P xs))" by simp
    with False ge Cons.IH show ?thesis by (simp add: Let_def)
  qed
qed

lemma calculateTotal_sum_list: "calculateTotal xs = sum_list (map line_amount xs)"
  unfolding calculateTotal_def using foldl_plus_sum_list [of line_amount "Num 0" xs] by simp

lemma itemCount_sum_list: "itemCount c = sum_list (map quantity (items c))"
  unfolding itemCount_def using foldl_plus_sum_list [of quantity 0 "items c"] by simp

lemma line_amount_supplier [simp]: "line_amount (i\<lparr>selectedSupplierId := s\<rparr>) = line_amount i"
  by (simp add: line_amount_def)

text \<open>Updating one field of one line keeps the other fields of every line.\<close>

lemma map_field_update_quantity:
  "k < length xs \<Longrightarrow> map productId (xs[k := (xs ! k)\<lparr>quantity := v\<rparr>]) = map productId xs"
  "k < length xs \<Longrightarrow> map item_id (xs[k := (xs ! k)\<lparr>quantity := v\<rparr>]) = map item_id xs"
  by (simp_all add: map_update) (metis list_update_id nth_map)+

text \<open>The per-line updates of \<open>updateQuantity\<close> and \<open>updateSupplier\<close> keep the other fields.\<close>

lemma comp_line_update [simp]:
  "productId \<circ> (\<lambda>i. if item_id i = iid then i\<lparr>quantity := q\<rparr> else i) = productId"
  "item_id \<circ> (\<lambda>i. if item_id i = iid then i\<lparr>quantity := q\<rparr> else i) = item_id"
  "productId \<circ> (\<lambda>i. if item_id i = iid then i\<lparr>selectedSupplierId := s\<rparr> else i) = productId"
  "item_id \<circ> (\<lambda>i. if item_id i = iid then i\<lparr>selectedSupplierId := s\<rparr> else i) = item_id"
  "quantity \<circ> (\<lambda>i. if item_id i = iid then i\<lparr>selectedSupplierId := s\<rparr> else i) = quantity"
  "line_amount \<circ> (\<lambda>i. if item_id i = iid then i\<lparr>selectedSupplierId := s\<rparr> else i) = line_amount"
  by (rule ext; simp)+

text \<open>The two branches of \<open>addToCart\<close>.\<close>

lemma addToCart_merge:
  assumes "\<exists>i\<in>set (items c). productId i = product_id p"
  obtains k where "k < length (items c)" and "productId (items c ! k) = product_id p"
    and "\<And>q now. items (addToCart p q now c) =
           (items c)[k := (items c ! k)\<lparr>quantity := quantity (items c ! k) + q\<rparr>]"
proof -
  let ?k = "nat (find_index (\<lambda>i. productId i = product_id p) (items c))"
  have ge: "0 \<le> find_index (\<lambda>i. productId i = product_id p) (items c)"
    using assms by (simp add: find_index_nonneg_iff)
  from find_index_found [OF ge] ge that [of ?k] show ?thesis
    by (simp add: addToCart_def Let_def)
qed

lemma addToCart_append:
  assumes "\<forall>i\<in>set (items c). productId i \<noteq> product_id p"
  shows "items (addToCart p q now c) = items c @ [new_cart_item p q now]"
proof -
  have "\<not> 0 \<le> find_index (\<lambda>i. productId i = product_id p) (items c)"
    using assms by (simp add: find_index_nonneg_iff)
  then show ?thesis by (simp add: addToCart_def Let_def)
qed

lemma new_cart_item_fields [simp]:
  "productId (new_cart_item p q now) = product_id p"
  "item_id (new_cart_item p q now) = now"
  "quantity (new_cart_item p q now) = q"
  by (simp_all add: new_cart_item_def)

subsection \<open>The total invariant\<close>

lemma cart_step_consistent [inv_intros]:
  assumes "cart_consistent c"
  shows "cart_consistent (cart_step c op)"
proof (cases op)
  case (UpdateSupplier iid sid)
  with assms show ?thesis
    by (simp add: cart_consistent_def updateSupplier_def calculateTotal_sum_list)
qed (use assms in \<open>auto simp: cart_consistent_def addToCart_def removeFromCart_def
        updateQuantity_def clearCart_def defaultCart_def Let_def calculateTotal_def\<close>)

lemma cart_run_consistent: "cart_consistent c \<Longrightarrow> cart_consistent (cart_run c ops)"
  by (induction ops arbitrary: c) (simp_all add: cart_step_consistent)

lemma defaultCart_consistent [simp]: "cart_consistent defaultCart"
  by (simp add: cart_consistent_def defaultCart_def calculateTotal_def)

subsection \<open>One line per product\<close>

lemma addToCart_lines_distinct:
  assumes "lines_distinct c"
  shows "lines_distinct (addToCart p q now c)"
proof (cases "\<exists>i\<in>set (items c). productId i = product_id p")
  case True
  then obtain k where "k < length (items c)"
    and "items (addToCart p q now c) = (items c)[k := (items c ! k)\<lparr>quantity := quantity (items c ! k) + q\<rparr>]"
    by (metis addToCart_merge)
  with assms show ?thesis
    by (simp add: lines_distinct_def map_field_update_quantity)
next
  case False
  then have "product_id p \<notin> set (map productId (items c))" by auto
  with addToCart_append [of c p q now] False assms show ?thesis
    by (simp add: lines_distinct_def)
qed

lemma cart_step_lines_distinct [inv_intros]:
  assumes "lines_distinct c"
  shows "lines_distinct (cart_step c op)"
proof (cases op)
  case (AddToCart p q now)
  with assms show ?thesis by (simp add: addToCart_lines_distinct)
qed (use assms in \<open>auto simp: lines_distinct_def removeFromCart_def updateQuantity_def
      updateSupplier_def clearCart_def defaultCart_def Let_def distinct_map_filter\<close>)

lemma cart_run_lines_distinct: "lines_distinct c \<Longrightarrow> lines_distinct (cart_run c ops)"
  by (induction ops arbitrary: c) (simp_all add: cart_step_lines_distinct)

lemma itemCount_addToCart: "itemCount (addToCart p q now c) = itemCount c + q"
proof (cases "\<exists>i\<in>set (items c). productId i = product_id p")
  case True
  then obtain k where k: "k < length (items c)"
    and eq: "items (addToCart p q now c) = (items c)[k := (items c ! k)\<lparr>quantity := quantity (items c ! k) + q\<rparr>]"
    by (metis addToCart_merge)
  from k show ?thesis
    by (simp add: eq itemCount_sum_list map_update sum_list_update_group)
next
  case False
  then show ?thesis by (simp add: addToCart_append itemCount_sum_list)
qed

subsection \<open>Quantities stay positive\<close>

lemma addToCart_quantities_positive:
  assumes "quantities_positive c" and "1 \<le> q"
  shows "quantities_positive (addToCart p q now c)"
proof (cases "\<exists>i\<in>set (items c). productId i = product_id p")
  case True
  then obtain k where k: "k < length (items c)"
    and eq: "items (addToCart p q now c) = (items c)[k := (items c ! k)\<lparr>quantity := quantity (items c ! k) + q\<rparr>]"
    by (metis addToCart_merge)
  from k assms(1) have "1 \<le> quantity (items c ! k)"
    by (simp add: quantities_positive_def)
  with assms show ?thesis
    unfolding quantities_positive_def eq
    using set_update_subset_insert by fastforce
next
  case False
  with assms show ?thesis by (simp add: addToCart_append quantities_positive_def)
qed

lemma cart_step_quantities_positive [inv_intros]:
  assumes "quantities_positive c" and "op_positive op"
  shows "quantities_positive (cart_step c op)"
proof (cases op)
  case (AddToCart p q now)
  with assms show ?thesis by (simp add: addToCart_quantities_positive)
qed (use assms in \<open>auto simp: quantities_positive_def removeFromCart_def updateQuantity_def
      updateSupplier_def clearCart_def defaultCart_def Let_def\<close>)

lemma cart_run_quantities_positive:
  "quantities_positive c \<Longrightarrow> list_all op_positive ops \<Longrightarrow> quantities_positive (cart_run c ops)"
  by (induction ops arbitrary: c) (simp_all add: cart_step_quantities_positive)

subsection \<open>Line ids\<close>

lemma add_times_Cons: "add_times (op # ops) = add_times [op] @ add_times ops"
  by (cases op) simp_all

lemma cart_step_ids:
  "set (map item_id (items (cart_step c op))) \<subseteq> set (map item_id (items c)) \<union> set (add_times [op])"
proof (cases op)
  case (AddToCart p q now)
  show ?thesis
  proof (cases "\<exists>i\<in>set (items c). productId i = product_id p")
    case True
    then obtain k where "k < length (items c)"
      and "items (addToCart p q now c) = (items c)[k := (items c ! k)\<lparr>quantity := quantity (items c ! k) + q\<rparr>]"
      by (metis addToCart_merge)
    with AddToCart show ?thesis
      by (auto simp: map_field_update_quantity)
  next
    case False
    with AddToCart show ?thesis by (simp add: addToCart_append)
  qed
qed (auto simp: removeFromCart_def updateQuantity_def updateSupplier_def clearCart_def
      defaultCart_def Let_def)

lemma cart_step_ids_distinct:
  assumes "distinct (map item_id (items c))"
    and "\<forall>t\<in>set (add_times [op]). \<forall>i\<in>set (items c). item_id i < t"
  shows "distinct (map item_id (items (cart_step c op)))"
proof (cases op)
  case (AddToCart p q now)
  show ?thesis
  proof (cases "\<exists>i\<in>set (items c). productId i = product_id p")
    case True
    then obtain k where "k < length (items c)"
      and "items (addToCart p q now c) = (items c)[k := (items c ! k)\<lparr>quantity := quantity (items c ! k) + q\<rparr>]"
      by (metis addToCart_merge)
    with AddToCart assms(1) show ?thesis
      by (simp add: map_field_update_quantity)
  next
    case False
    from assms(2) AddToCart have "now \<notin> set (map item_id (items c))" by auto
    with False AddToCart assms(1) show ?thesis by (simp add: addToCart_append)
  qed
qed (use assms in \<open>auto simp: removeFromCart_def updateQuantity_def updateSupplier_def
      clearCart_def defaultCart_def Let_def distinct_map_filter\<close>)

lemma cart_run_ids_distinct:
  "distinct (map item_id (items c)) \<Longrightarrow>
   \<forall>t\<in>set (add_times ops). \<forall>i\<in>set (items c). item_id i < t \<Longrightarrow>
   sorted_wrt (<) (add_times ops) \<Longrightarrow>
   distinct (map item_id (items (cart_run c ops)))"
proof (induction ops arbitrary: c)
  case Nil
  then show ?case by simp
next
  case (Cons op ops)
  let ?c' = "cart_step c op"
  have times: "add_times (op # ops) = add_times [op] @ add_times ops" by (rule add_times_Cons)
  from Cons.prems(2) times have below: "\<forall>t\<in>set (add_times [op]). \<forall>i\<in>set (items c). item_id i < t"
    by simp
  from Cons.prems(1) below have dist: "distinct (map item_id (items ?c'))"
    by (rule cart_step_ids_distinct)
  from Cons.prems(3) times have sorted: "sorted_wrt (<) (add_times ops)"
    and later: "\<forall>x\<in>set (add_times [op]). \<forall>y\<in>set (add_times ops). x < y"
    by (simp_all add: sorted_wrt_append)
  have "\<forall>t\<in>set (add_times ops). \<forall>i\<in>set (items ?c'). item_id i < t"
  proof (intro ballI)
    fix t i
    assume t: "t \<in> set (add_times ops)" and i: "i \<in> set (items ?c')"
    then have "item_id i \<in> set (map item_id (items c)) \<union> set (add_times [op])"
      using cart_step_ids [of c op] by auto
    with t later Cons.prems(2) times show "item_id i < t" by auto
  qed
  with dist sorted Cons.IH show ?case by simp
qed

subsection \<open>Persistence\<close>

lemma load_save_roundtrip:
  "(\<And>c. dec (enc c) = Some c) \<Longrightarrow> load_cart dec (save_cart enc c) = c"
  by (simp add: load_cart_def save_cart_def)

subsection \<open>Properties of the cart store\<close>

text \<open>
  C1. Whatever sequence of \<open>addToCart\<close>, \<open>removeFromCart\<close>, \<open>updateQuantity\<close>,
  \<open>updateSupplier\<close> and \<open>clearCart\<close> runs from the empty cart, the cart's \<open>total\<close> is
  the sum over its lines of price times quantity.
\<close>

theorem cart_total_is_sum:
  "total (cart_run defaultCart ops) = sum_list (map line_amount (items (cart_run defaultCart ops)))"
proof -
  have "cart_consistent (cart_run defaultCart ops)"
    by (rule cart_run_consistent) simp
  then show ?thesis by (simp add: cart_consistent_def calculateTotal_sum_list)
qed

text \<open>C2. No sequence of cart operations from the empty cart produces two lines for one product.\<close>

theorem cart_one_line_per_product: "distinct (map productId (items (cart_run defaultCart ops)))"
proof -
  have "lines_distinct (cart_run defaultCart ops)"
    by (rule cart_run_lines_distinct) (simp add: lines_distinct_def defaultCart_def)
  then show ?thesis by (simp add: lines_distinct_def)
qed

text \<open>
  Adding a product that is already in the cart merges into its line: the number of
  lines is unchanged and the cart's item count grows by the added quantity.
\<close>

lemma addToCart_merges_existing_line:
  assumes "\<exists>i\<in>set (items c). productId i = product_id p"
  shows "length (items (addToCart p q now c)) = length (items c) \<and>
         itemCount (addToCart p q now c) = itemCount c + q"
proof -
  from assms obtain k where "k < length (items c)"
    and "items (addToCart p q now c) = (items c)[k := (items c ! k)\<lparr>quantity := quantity (items c ! k) + q\<rparr>]"
    by (metis addToCart_merge)
  then show ?thesis by (simp add: itemCount_addToCart)
qed


theorem addToCart_merges_existing_line_witness:
  "(\<exists>i\<in>set (items (addToCart example_product 1 100 defaultCart)). productId i = product_id example_product) \<and>
   length (items (addToCart example_product 2 200 (addToCart example_product 1 100 defaultCart)))
     = length (items (addToCart example_product 1 100 defaultCart)) \<and>
   itemCount (addToCart example_product 2 200 (addToCart example_product 1 100 defaultCart))
     = itemCount (addToCart example_product 1 100 defaultCart) + 2"
proof -
  have h: "\<exists>i\<in>set (items (addToCart example_product 1 100 defaultCart)). productId i = product_id example_product"
    by (simp add: model_defs)
  show ?thesis by (rule conjI [OF h addToCart_merges_existing_line [OF h]])
qed

text \<open>
  C4. When every \<open>addToCart\<close> adds at least one unit, every line of the cart has
  quantity at least 1: \<open>updateQuantity\<close> ignores a quantity below 1.
\<close>

theorem quantities_stay_positive:
  "list_all op_positive ops \<Longrightarrow> \<forall>i\<in>set (items (cart_run defaultCart ops)). 1 \<le> quantity i"
  using cart_run_quantities_positive [of defaultCart ops]
  by (simp add: quantities_positive_def defaultCart_def)

theorem quantities_stay_positive_witness:
  "list_all op_positive [AddToCart example_product 2 100, UpdateQuantity 100 0, UpdateQuantity 100 3] \<and>
   list_all (\<lambda>i. 1 \<le> quantity i) (items (cart_run defaultCart
      [AddToCart example_product 2 100, UpdateQuantity 100 0, UpdateQuantity 100 3]))"
proof -
  have h: "list_all op_positive [AddToCart example_product 2 100, UpdateQuantity 100 0, UpdateQuantity 100 3]"
    by simp
  have "\<forall>i\<in>set (items (cart_run defaultCart
      [AddToCart example_product 2 100, UpdateQuantity 100 0, UpdateQuantity 100 3])). 1 \<le> quantity i"
    by (rule quantities_stay_positive [OF h])
  with h show ?thesis by (simp only: list_all_iff)
qed

end
