(* ===== verification/Checkout.thy ===== *)
theory Checkout
  imports Cart
begin

text \<open>
  The checkout page \<open>src/client/src/pages/Checkout.tsx\<close>: the shipping aggregator
  \<open>calculateTotalWithShipping\<close> (one fee per distinct supplier chosen across the lines),
  the guards and the payload of \<open>handleSubmit\<close>, and the \<open>onSuccess\<close> / \<open>onError\<close>
  callbacks of the order mutation. The page reads the cart of the cart store and calls its
  \<open>updateSupplier\<close> and \<open>clearCart\<close>.
\<close>

subsection \<open>Shipping aggregator\<close>

text \<open>JavaScript truthiness of \<open>item.selectedSupplierId\<close>: absent and \<open>0\<close> are falsy.\<close>

fun supplier_truthy :: "int option \<Rightarrow> bool" where
  "supplier_truthy None = False"
| "supplier_truthy (Some sid) = (sid \<noteq> 0)"

definition find_supplier :: "int \<Rightarrow> supplier option" where
  "find_supplier sid = find (\<lambda>s. supplier_id s = sid) SUPPLIERS"

text \<open>The \<open>cart.items.forEach\<close> loop with its \<open>Set\<close> of seen supplier ids.\<close>

fun shipping_loop :: "int set \<Rightarrow> jsnum \<Rightarrow> cart_item list \<Rightarrow> jsnum" where
  "shipping_loop seen acc [] = acc"
| "shipping_loop seen acc (i # is) =
     (case selectedSupplierId i of
        Some sid \<Rightarrow>
          if sid \<noteq> 0 \<and> sid \<notin> seen then
            shipping_loop (insert sid seen)
              (case find_supplier sid of Some s \<Rightarrow> acc + Num (shippingFee s) | None \<Rightarrow> acc) is
          else shipping_loop seen acc is
      | None \<Rightarrow> shipping_loop seen acc is)"

record totals =
  subtotal :: jsnum
  shipping :: jsnum
  grand_total :: jsnum

definition calculateTotalWithShipping :: "cart \<Rightarrow> totals" where
  "calculateTotalWithShipping c =
     (let shippingTotal = shipping_loop {} (Num 0) (items c)
      in \<lparr>subtotal = total c, shipping = shippingTotal, grand_total = total c + shippingTotal\<rparr>)"

text \<open>The specification's reading: the fee of each distinct chosen supplier, once.\<close>

definition supplier_fee :: "int \<Rightarrow> rat" where
  "supplier_fee sid = (case find_supplier sid of Some s \<Rightarrow> shippingFee s | None \<Rightarrow> 0)"

definition chosen_suppliers :: "cart_item list \<Rightarrow> int set" where
  "chosen_suppliers xs =
     set (concat (map (\<lambda>i. case selectedSupplierId i of
                               Some sid \<Rightarrow> if sid \<noteq> 0 then [sid] else [] | None \<Rightarrow> []) xs))"

subsection \<open>Submission\<close>

record payload_item =
  pi_productId :: int
  pi_productName :: string
  pi_quantity :: int
  pi_price :: string
  pi_supplierId :: "int option"

record order_payload =
  pl_userId :: int
  pl_totalAmount :: string
  pl_customerName :: string
  pl_customerEmail :: string
  pl_shippingAddress :: string
  pl_paymentMethod :: string
  pl_items :: "payload_item list"

text \<open>What \<open>handleSubmit\<close> reads: the auth state, the cart, the form and the chosen file.\<close>

record submit_env =
  isAuthLoading :: bool
  auth_user :: "user option"
  env_cart :: cart
  formData :: checkout_form
  selectedFile :: "string option"

datatype submit_result = AuthError | SupplierError | DocumentError | Mutate order_payload

fun price_string :: "price_val \<Rightarrow> string" where
  "price_string (PriceStr s) = s"
| "price_string (PriceNum x) = js_to_string x"

definition payload_of_item :: "cart_item \<Rightarrow> payload_item" where
  "payload_of_item i =
     \<lparr>pi_productId = productId i, pi_productName = item_name i, pi_quantity = quantity i,
      pi_price = price_string (item_price i), pi_supplierId = selectedSupplierId i\<rparr>"

definition build_payload :: "user \<Rightarrow> cart \<Rightarrow> checkout_form \<Rightarrow> order_payload" where
  "build_payload u c f =
     \<lparr>pl_userId = user_id u,
      pl_totalAmount = to_fixed2 (grand_total (calculateTotalWithShipping c)),
      pl_customerName = firstName f @ '' '' @ lastName f,
      pl_customerEmail = email f,
      pl_shippingAddress = address f @ '', '' @ city f @ '', '' @ state f @ '' '' @ zipCode f,
      pl_paymentMethod = payment_method_str (paymentMethod f),
      pl_items = map payload_of_item (items c)\<rparr>"

definition handleSubmit :: "submit_env \<Rightarrow> submit_result" where
  "handleSubmit env =
     (case (isAuthLoading env, auth_user env) of
        (True, _) \<Rightarrow> AuthError
      | (False, None) \<Rightarrow> AuthError
      | (False, Some u) \<Rightarrow>
          if list_ex (\<lambda>i. \<not> supplier_truthy (selectedSupplierId i)) (items (env_cart env))
          then SupplierError
          else if documentType (formData env) \<noteq> None \<and> selectedFile env = None then DocumentError
          else Mutate (build_payload u (env_cart env) (formData env)))"

subsection \<open>The order mutation's callbacks\<close>

text \<open>
  The client state the callbacks touch: the cart, whether the cached admin order list is
  stale, the route, and the last notification.
\<close>

record checkout_client =
  cc_cart :: cart
  admin_orders_stale :: bool
  location :: string
  notice :: "string option"

text \<open>The response of \<open>POST /api/orders\<close>: \<open>Inl\<close> the error message, \<open>Inr\<close> the order.\<close>

definition on_order_result :: "checkout_client \<Rightarrow> string + order \<Rightarrow> checkout_client" where
  "on_order_result st r =
     (case r of
        Inr _ \<Rightarrow> st\<lparr>cc_cart := clearCart (cc_cart st), admin_orders_stale := True, location := ''/'',
                  notice := Some ''Order placed successfully!''\<rparr>
      | Inl msg \<Rightarrow> st\<lparr>notice := Some (if msg = [] then ''An unexpected error occurred.'' else msg)\<rparr>)"

definition sample_product :: "int \<Rightarrow> string \<Rightarrow> string \<Rightarrow> product" where
  "sample_product pid nm pr =
     \<lparr>product_id = pid, product_name = nm, description = '''', product_price = pr,
      category = ''home'', product_image = '''', rating = ''4.0'', badge = None,
      discountPrice = None, product_isService = Some False, product_createdAt = 0\<rparr>"

definition example_user :: user where
  "example_user = \<lparr>user_id = 7, username = ''alice'', password = ''hash.salt'', user_isAdmin = Some False\<rparr>"

definition example_form :: checkout_form where
  "example_form =
     \<lparr>firstName = ''Ada'', lastName = ''Lovelace'', email = ''ada@example.com'',
      address = ''1 Main St'', city = ''Coimbatore'', state = ''TN'', zipCode = ''641001'',
      paymentMethod = Credit_card, documentName = None, documentType = None\<rparr>"

declare find_supplier_def [model_defs] calculateTotalWithShipping_def [model_defs]
  supplier_fee_def [model_defs] payload_of_item_def [model_defs] build_payload_def [model_defs]
  handleSubmit_def [model_defs] on_order_result_def [model_defs] sample_product_def [model_defs]
  example_user_def [model_defs] example_form_def [model_defs]

subsection \<open>The aggregator computes one fee per distinct supplier\<close>

lemma chosen_suppliers_Nil [simp]: "chosen_suppliers [] = {}"
  by (simp add: chosen_suppliers_def)

lemma chosen_suppliers_Cons:
  "chosen_suppliers (i # xs) =
     (case selectedSupplierId i of
        Some sid \<Rightarrow> if sid \<noteq> 0 then insert sid (chosen_suppliers xs) else chosen_suppliers xs
      | None \<Rightarrow> chosen_suppliers xs)"
  by (cases "selectedSupplierId i") (simp_all add: chosen_suppliers_def)

lemma finite_chosen_suppliers [simp]: "finite (chosen_suppliers xs)"
  by (induction xs) (simp_all add: chosen_suppliers_Cons split: option.splits)

lemma shipping_acc_fee:
  "(case find_supplier sid of Some s \<Rightarrow> Num a + Num (shippingFee s) | None \<Rightarrow> Num a)
   = Num (a + supplier_fee sid)"
  by (simp add: supplier_fee_def split: option.splits)

lemma shipping_loop_sum:
  "shipping_loop seen (Num a) xs = Num (a + (\<Sum>sid\<in>chosen_suppliers xs - seen. supplier_fee sid))"
proof (induction xs arbitrary: seen a)
  case Nil
  then show ?case by simp
next
  case (Cons i xs)
  let ?C = "chosen_suppliers xs"
  show ?case
  proof (cases "selectedSupplierId i")
    case None
    with Cons.IH show ?thesis by (simp add: chosen_suppliers_Cons)
  next
    case (Some sid)
    show ?thesis
    proof (cases "sid \<noteq> 0 \<and> sid \<notin> seen")
      case True
      have "insert sid ?C - seen = insert sid (?C - insert sid seen)"
        using True by auto
      then have "(\<Sum>x\<in>insert sid ?C - seen. supplier_fee x)
                 = supplier_fee sid + (\<Sum>x\<in>?C - insert sid seen. supplier_fee x)"
        by simp
      with True Some Cons.IH show ?thesis
        by (simp add: chosen_suppliers_Cons shipping_acc_fee algebra_simps)
    next
      case False
      then have "chosen_suppliers (i # xs) - seen = ?C - seen"
        using Some by (auto simp: chosen_suppliers_Cons)
      with False Some Cons.IH show ?thesis by auto
    qed
  qed
qed

subsection \<open>Properties of checkout\<close>

text \<open>
  C5. The shipping total of \<open>calculateTotalWithShipping\<close> is the sum of the shipping fees
  of the distinct suppliers chosen across the cart's lines: each supplier's fee counts once,
  however many lines use it (an unknown supplier id contributes nothing).
\<close>

theorem shipping_one_fee_per_supplier:
  "shipping (calculateTotalWithShipping c) = Num (\<Sum>sid\<in>chosen_suppliers (items c). supplier_fee sid)"
  using shipping_loop_sum [of "{}" 0 "items c"] by (simp add: calculateTotalWithShipping_def)

text \<open>
  C6. For every cart the cart store can reach, the checkout total is the sum of price times
  quantity over the lines plus one shipping fee per distinct chosen supplier.
\<close>

theorem checkout_total_from_lines:
  "grand_total (calculateTotalWithShipping (cart_run defaultCart ops)) =
     calculateTotal (items (cart_run defaultCart ops))
     + Num (\<Sum>sid\<in>chosen_suppliers (items (cart_run defaultCart ops)). supplier_fee sid)"
proof -
  have "cart_consistent (cart_run defaultCart ops)"
    by (rule cart_run_consistent) simp
  then show ?thesis
    using shipping_loop_sum [of "{}" 0 "items (cart_run defaultCart ops)"]
    by (simp add: calculateTotalWithShipping_def cart_consistent_def)
qed

text \<open>
  The specification's example: a line of price 10.00 and quantity 2 and a line of price
  5.00 and quantity 1, both with supplier 1 (fee 5.99), give subtotal 25, shipping 5.99 and
  total 30.99, which the order payload carries as \<open>"30.99"\<close>.
\<close>

lemma checkout_spec_example:
  "calculateTotalWithShipping (cart_run defaultCart
      [AddToCart (sample_product 1 ''Desk lamp'' ''10.00'') 2 1,
       AddToCart (sample_product 2 ''Mug'' ''5.00'') 1 2, UpdateSupplier 1 1, UpdateSupplier 2 1])
     = \<lparr>subtotal = Num 25, shipping = Num 5.99, grand_total = Num 30.99\<rparr> \<and>
   to_fixed2 (Num 30.99) = ''30.99''"
proof
  show "calculateTotalWithShipping (cart_run defaultCart
      [AddToCart (sample_product 1 ''Desk lamp'' ''10.00'') 2 1,
       AddToCart (sample_product 2 ''Mug'' ''5.00'') 1 2, UpdateSupplier 1 1, UpdateSupplier 2 1])
     = \<lparr>subtotal = Num 25, shipping = Num 5.99, grand_total = Num 30.99\<rparr>"
    by (simp add: model_defs calculateTotal_def line_amount_def parse_float_evals SUPPLIERS_def)
  show "to_fixed2 (Num 30.99) = ''30.99''"
    by (simp add: to_fixed2_evals)
qed

text \<open>
  C8. An authenticated submission is rejected before any request when some line has no
  supplier selected.
\<close>

theorem submit_rejects_missing_supplier:
  assumes "\<not> isAuthLoading env" and "auth_user env = Some u"
    and "\<exists>i\<in>set (items (env_cart env)). \<not> supplier_truthy (selectedSupplierId i)"
  shows "handleSubmit env = SupplierError"
  using assms by (simp add: handleSubmit_def list_ex_iff)

theorem submit_rejects_missing_supplier_witness:
  "\<not> isAuthLoading \<lparr>isAuthLoading = False, auth_user = Some example_user,
       env_cart = addToCart example_product 1 100 defaultCart, formData = example_form, selectedFile = None\<rparr> \<and>
   auth_user \<lparr>isAuthLoading = False, auth_user = Some example_user,
       env_cart = addToCart example_product 1 100 defaultCart, formData = example_form, selectedFile = None\<rparr>
     = Some example_user \<and>
   (\<exists>i\<in>set (items (addToCart example_product 1 100 defaultCart)). \<not> supplier_truthy (selectedSupplierId i)) \<and>
   handleSubmit \<lparr>isAuthLoading = False, auth_user = Some example_user,
       env_cart = addToCart example_product 1 100 defaultCart, formData = example_form, selectedFile = None\<rparr>
     = SupplierError"
proof -
  have h1: "\<not> isAuthLoading \<lparr>isAuthLoading = False, auth_user = Some example_user,
       env_cart = addToCart example_product 1 100 defaultCart, formData = example_form, selectedFile = None\<rparr>"
    by simp
  have h2: "auth_user \<lparr>isAuthLoading = False, auth_user = Some example_user,
       env_cart = addToCart example_product 1 100 defaultCart, formData = example_form, selectedFile = None\<rparr>
     = Some example_user"
    by simp
  have h3: "\<exists>i\<in>set (items (env_cart \<lparr>isAuthLoading = False, auth_user = Some example_user,
       env_cart = addToCart example_product 1 100 defaultCart, formData = example_form, selectedFile = None\<rparr>)).
       \<not> supplier_truthy (selectedSupplierId i)"
    by (simp add: model_defs)
  from submit_rejects_missing_supplier [OF h1 h2 h3] h1 h2 h3 show ?thesis by simp
qed

text \<open>
  C9. When \<open>handleSubmit\<close> sends the order, the payload has one entry per cart line in
  order, every entry carries the line's product, quantity and a chosen (truthy) supplier id,
  and \<open>totalAmount\<close> is the checkout total written with \<open>toFixed(2)\<close>.
\<close>

theorem submit_payload:
  assumes "handleSubmit env = Mutate pl"
  shows "map pi_productId (pl_items pl) = map productId (items (env_cart env)) \<and>
         map pi_quantity (pl_items pl) = map quantity (items (env_cart env)) \<and>
         map pi_supplierId (pl_items pl) = map selectedSupplierId (items (env_cart env)) \<and>
         list_all (\<lambda>p. supplier_truthy (pi_supplierId p)) (pl_items pl) \<and>
         pl_totalAmount pl = to_fixed2 (grand_total (calculateTotalWithShipping (env_cart env)))"
  using assms
  by (auto simp: handleSubmit_def build_payload_def payload_of_item_def list_ex_iff list_all_iff
      split: if_splits option.splits bool.splits)

theorem submit_payload_witness:
  "handleSubmit \<lparr>isAuthLoading = False, auth_user = Some example_user,
       env_cart = cart_run defaultCart [AddToCart example_product 1 100, UpdateSupplier 100 1],
       formData = example_form, selectedFile = None\<rparr>
     = Mutate (build_payload example_user
                 (cart_run defaultCart [AddToCart example_product 1 100, UpdateSupplier 100 1]) example_form) \<and>
   map pi_supplierId (pl_items (build_payload example_user
                 (cart_run defaultCart [AddToCart example_product 1 100, UpdateSupplier 100 1]) example_form))
     = map selectedSupplierId (items (cart_run defaultCart [AddToCart example_product 1 100, UpdateSupplier 100 1])) \<and>
   pl_totalAmount (build_payload example_user
                 (cart_run defaultCart [AddToCart example_product 1 100, UpdateSupplier 100 1]) example_form)
     = to_fixed2 (grand_total (calculateTotalWithShipping
                 (cart_run defaultCart [AddToCart example_product 1 100, UpdateSupplier 100 1])))"
proof -
  have h: "handleSubmit \<lparr>isAuthLoading = False, auth_user = Some example_user,
       env_cart = cart_run defaultCart [AddToCart example_product 1 100, UpdateSupplier 100 1],
       formData = example_form, selectedFile = None\<rparr>
     = Mutate (build_payload example_user
                 (cart_run defaultCart [AddToCart example_product 1 100, UpdateSupplier 100 1]) example_form)"
    by (simp add: handleSubmit_def addToCart_def updateSupplier_def defaultCart_def new_cart_item_def
        example_form_def Let_def)
  from submit_payload [OF h] h show ?thesis by simp
qed

text \<open>
  After the order request: on success the cart is emptied and the cached admin order
  list is marked stale; on failure the cart is left as it was, for a retry, and a non-empty
  error message is shown verbatim.
\<close>

lemma order_callbacks:
  assumes "msg \<noteq> []"
  shows "items (cc_cart (on_order_result st (Inr ord))) = [] \<and>
         admin_orders_stale (on_order_result st (Inr ord)) \<and>
         cc_cart (on_order_result st (Inl msg)) = cc_cart st \<and>
         notice (on_order_result st (Inl msg)) = Some msg"
  using assms by (simp add: on_order_result_def clearCart_def defaultCart_def)

theorem order_callbacks_witness:
  "''Failed to create order'' \<noteq> [] \<and>
   items (cc_cart (on_order_result \<lparr>cc_cart = addToCart example_product 1 100 defaultCart,
      admin_orders_stale = False, location = ''/checkout'', notice = None\<rparr>
      (Inr \<lparr>order_id = 1, order_userId = 7, totalAmount = ''1005.98'', customerName = ''Ada Lovelace'',
            customerEmail = ''ada@example.com'', shippingAddress = ''1 Main St'',
            order_paymentMethod = ''credit_card'', status = ''pending'', order_createdAt = 0\<rparr>))) = [] \<and>
   cc_cart (on_order_result \<lparr>cc_cart = addToCart example_product 1 100 defaultCart,
      admin_orders_stale = False, location = ''/checkout'', notice = None\<rparr> (Inl ''Failed to create order''))
     = addToCart example_product 1 100 defaultCart"
proof -
  have h: "''Failed to create order'' \<noteq> []" by simp
  from order_callbacks [OF h, of "\<lparr>cc_cart = addToCart example_product 1 100 defaultCart,
      admin_orders_stale = False, location = ''/checkout'', notice = None\<rparr>"
      "\<lparr>order_id = 1, order_userId = 7, totalAmount = ''1005.98'', customerName = ''Ada Lovelace'',
            customerEmail = ''ada@example.com'', shippingAddress = ''1 Main St'',
            order_paymentMethod = ''credit_card'', status = ''pending'', order_createdAt = 0\<rparr>"]
  show ?thesis by simp
qed

text \<open>What a submission that reaches the mutation carries: the payload of the logged-in
  user, cart and form, every line with a chosen supplier.\<close>

lemma handleSubmit_Mutate:
  "handleSubmit env = Mutate pl \<Longrightarrow>
   \<exists>u. auth_user env = Some u \<and> pl = build_payload u (env_cart env) (formData env)
      \<and> list_all (\<lambda>i. supplier_truthy (selectedSupplierId i)) (items (env_cart env))"
  by (auto simp: handleSubmit_def list_ex_iff list_all_iff split: if_splits option.splits bool.splits)

end
