(* ===== verification/Http.thy ===== *)
theory Http
  imports Schema
begin

text \<open>
  The request side of the API of \<open>src/server/routes.ts\<close> and \<open>src/server/auth.ts\<close>:
  request bodies as JSON values (\<open>json\<close>) with JavaScript truthiness and property
  access, \<open>parseInt\<close> on route parameters (\<open>js_parse_int\<close>, \<open>None\<close> for NaN), and the
  zod insert schemas of \<open>src/shared/schema.ts\<close> (built by \<open>createInsertSchema\<close>) as
  parsers into the insert records, \<open>None\<close> standing for a \<open>ZodError\<close>.
\<close>

subsection \<open>JSON values and JavaScript truthiness\<close>

datatype json = JNull | JBool bool | JNum jsnum | JStr string | JArr "json list"
  | JObj "(string \<times> json) list"

fun js_truthy :: "json \<Rightarrow> bool" where
  "js_truthy JNull = False"
| "js_truthy (JBool b) = b"
| "js_truthy (JNum (Num x)) = (x \<noteq> 0)"
| "js_truthy (JNum NaN) = False"
| "js_truthy (JNum _) = True"
| "js_truthy (JStr s) = (s \<noteq> [])"
| "js_truthy (JArr _) = True"
| "js_truthy (JObj _) = True"

text \<open>Property access on a parsed body: the last occurrence of a key wins, as in \<open>JSON.parse\<close>.\<close>

fun obj_get :: "json \<Rightarrow> string \<Rightarrow> json option" where
  "obj_get (JObj fs) k = map_of (rev fs) k"
| "obj_get _ k = None"

text \<open>The own fields that an object spread \<open>{...v}\<close> copies (only objects are modelled).\<close>

fun obj_fields :: "json \<Rightarrow> (string \<times> json) list" where
  "obj_fields (JObj fs) = fs"
| "obj_fields _ = []"

subsection \<open>parseInt\<close>

definition hex_value :: "char \<Rightarrow> nat option" where
  "hex_value c =
     (let n = char_code c in
      if 48 \<le> n \<and> n \<le> 57 then Some (n - 48)
      else if 97 \<le> n \<and> n \<le> 102 then Some (n - 87)
      else if 65 \<le> n \<and> n \<le> 70 then Some (n - 55) else None)"

definition radix_digit :: "nat \<Rightarrow> char \<Rightarrow> bool" where
  "radix_digit r c = (case hex_value c of Some d \<Rightarrow> d < r | None \<Rightarrow> False)"

definition radix_value :: "nat \<Rightarrow> char list \<Rightarrow> nat" where
  "radix_value r ds = foldl (\<lambda>acc c. r * acc + the (hex_value c)) 0 ds"

text \<open>
  \<open>parseInt(s)\<close> without a radix: skip white space, an optional sign, then radix 16
  after \<open>0x\<close>/\<open>0X\<close> and 10 otherwise, and the longest run of digits of that radix;
  NaN when the run is empty.
\<close>

definition js_parse_int :: "string \<Rightarrow> int option" where
  "js_parse_int s =
     (let (neg, u) = take_sign (dropWhile is_str_space s);
          (r, v) = (if take 2 u = ''0x'' \<or> take 2 u = ''0X'' then (16, drop 2 u) else (10, u));
          ds = takeWhile (radix_digit r) v
      in if ds = [] then None
         else Some (if neg then - int (radix_value r ds) else int (radix_value r ds)))"

subsection \<open>The zod schemas\<close>

definition z_string :: "json option \<Rightarrow> string option" where
  "z_string v = (case v of Some (JStr s) \<Rightarrow> Some s | _ \<Rightarrow> None)"

text \<open>An optional field: absent is fine, a present value must parse.\<close>

definition z_optional :: "(json option \<Rightarrow> 'a option) \<Rightarrow> json option \<Rightarrow> 'a option option" where
  "z_optional p v = (case v of None \<Rightarrow> Some None | Some _ \<Rightarrow> map_option Some (p v))"

text \<open>An optional and nullable field: absent or \<open>null\<close> give \<open>None\<close>.\<close>

definition z_nullish :: "(json option \<Rightarrow> 'a option) \<Rightarrow> json option \<Rightarrow> 'a option option" where
  "z_nullish p v = (case v of None \<Rightarrow> Some None | Some JNull \<Rightarrow> Some None | Some _ \<Rightarrow> map_option Some (p v))"

text \<open>The schema for an \<open>integer\<close> column of drizzle-zod:
  \<open>z.number().int().gte(-2147483648).lte(2147483647)\<close>, a finite number with an integral
  value in the range of a PostgreSQL \<open>integer\<close> (int32).\<close>

definition int32 :: "int \<Rightarrow> bool" where
  "int32 i \<longleftrightarrow> - 2147483648 \<le> i \<and> i \<le> 2147483647"

definition z_int :: "json option \<Rightarrow> int option" where
  "z_int v = (case v of
                Some (JNum (Num x)) \<Rightarrow> if x = of_int \<lfloor>x\<rfloor> \<and> int32 \<lfloor>x\<rfloor> then Some \<lfloor>x\<rfloor> else None
              | _ \<Rightarrow> None)"

definition z_bool :: "json option \<Rightarrow> bool option" where
  "z_bool v = (case v of Some (JBool b) \<Rightarrow> Some b | _ \<Rightarrow> None)"

text \<open>\<open>insertOrderSchema.parse({...req.body, userId: req.user?.id})\<close>.\<close>

definition parse_insert_order :: "json \<Rightarrow> int \<Rightarrow> insert_order option" where
  "parse_insert_order body uid =
     (let ob = JObj (obj_fields body @ [(''userId'', JNum (Num (of_int uid)))]) in
      case (z_int (obj_get ob ''userId''), z_string (obj_get ob ''totalAmount''),
            z_string (obj_get ob ''customerName''), z_string (obj_get ob ''customerEmail''),
            z_string (obj_get ob ''shippingAddress''), z_string (obj_get ob ''paymentMethod''),
            z_optional z_string (obj_get ob ''status'')) of
        (Some u, Some t, Some n, Some e, Some a, Some p, Some st) \<Rightarrow>
          Some \<lparr>io_userId = u, io_totalAmount = t, io_customerName = n, io_customerEmail = e,
                io_shippingAddress = a, io_paymentMethod = p, io_status = st\<rparr>
      | _ \<Rightarrow> None)"

text \<open>\<open>insertOrderItemSchema.parse({...item, orderId: newOrder.id})\<close>.\<close>

definition parse_insert_order_item :: "json \<Rightarrow> int \<Rightarrow> insert_order_item option" where
  "parse_insert_order_item item oid =
     (let ob = JObj (obj_fields item @ [(''orderId'', JNum (Num (of_int oid)))]) in
      case (z_int (obj_get ob ''orderId''), z_int (obj_get ob ''productId''),
            z_string (obj_get ob ''productName''), z_int (obj_get ob ''quantity''),
            z_string (obj_get ob ''price''), z_nullish z_int (obj_get ob ''supplierId'')) of
        (Some oi, Some p, Some n, Some q, Some pr, Some sp) \<Rightarrow>
          Some \<lparr>ioi_orderId = oi, ioi_productId = p, ioi_productName = n, ioi_quantity = q,
                ioi_price = pr, ioi_supplierId = sp\<rparr>
      | _ \<Rightarrow> None)"

text \<open>\<open>insertProductSchema.parse(req.body)\<close>.\<close>

definition parse_insert_product :: "json \<Rightarrow> insert_product option" where
  "parse_insert_product body =
     (case (z_string (obj_get body ''name''), z_string (obj_get body ''description''),
            z_string (obj_get body ''price''), z_string (obj_get body ''category''),
            z_string (obj_get body ''image''), z_string (obj_get body ''rating''),
            z_nullish z_string (obj_get body ''badge''), z_nullish z_string (obj_get body ''discountPrice''),
            z_nullish z_bool (obj_get body ''isService'')) of
        (Some n, Some d, Some p, Some c, Some i, Some r, Some b, Some dp, Some sv) \<Rightarrow>
          Some \<lparr>ins_name = n, ins_description = d, ins_price = p, ins_category = c, ins_image = i,
                ins_rating = r, ins_badge = b, ins_discountPrice = dp, ins_isService = sv\<rparr>
      | _ \<Rightarrow> None)"

subsection \<open>parseInt reads back printed ids\<close>

lemma digit_char_facts:
  assumes "d < 10"
  shows "hex_value (digit_char d) = Some d" "\<not> is_str_space (digit_char d)"
    "digit_char d \<noteq> CHR ''-''" "digit_char d \<noteq> CHR ''+''"
    "digit_char d \<noteq> CHR ''x''" "digit_char d \<noteq> CHR ''X''"
  using assms by (auto simp: less_Suc_eq numeral_eq_Suc digit_char_def hex_value_def is_str_space_def
      char_code_def Let_def)

lemma nat_digits_chars: "c \<in> set (nat_digits m) \<Longrightarrow> \<exists>d<10. c = digit_char d"
  by (induction m rule: nat_digits.induct)
    (subst (asm) nat_digits.simps; auto split: if_splits; metis mod_less_divisor zero_less_numeral)

lemma nat_digits_ne: "nat_digits m \<noteq> []"
  by (subst nat_digits.simps) simp

lemma radix_value_nat_digits: "radix_value 10 (nat_digits m) = m"
proof (induction m rule: nat_digits.induct)
  case (1 n)
  show ?case
  proof (cases "n < 10")
    case True then show ?thesis
      by (subst nat_digits.simps) (simp add: radix_value_def digit_char_facts)
  next
    case False
    then have "radix_value 10 (nat_digits n) = 10 * radix_value 10 (nat_digits (n div 10)) + n mod 10"
      by (subst nat_digits.simps) (simp add: radix_value_def digit_char_facts)
    with "1.IH" False show ?thesis by simp
  qed
qed

lemma js_parse_int_nat_digits: "js_parse_int (nat_digits m) = Some (int m)"
proof -
  let ?u = "nat_digits m"
  have dig: "\<forall>c\<in>set ?u. \<exists>d<10. c = digit_char d" using nat_digits_chars by blast
  obtain c r where cr: "?u = c # r" using nat_digits_ne by (cases ?u) auto
  then obtain d where "d < 10" "c = digit_char d" using dig by auto
  then have hd: "\<not> is_str_space c" "c \<noteq> CHR ''-''" "c \<noteq> CHR ''+''" using digit_char_facts by auto
  have sp: "dropWhile is_str_space ?u = ?u" using cr hd by simp
  have sg: "take_sign ?u = (False, ?u)" using cr hd by (simp add: take_sign_def)
  have "CHR ''x'' \<notin> set ?u" "CHR ''X'' \<notin> set ?u" using dig digit_char_facts by fastforce+
  then have x: "\<not> (take 2 ?u = ''0x'' \<or> take 2 ?u = ''0X'')"
    by (metis in_set_takeD list.set_intros(1) list.set_intros(2))
  have tw: "takeWhile (radix_digit 10) ?u = ?u"
    using dig by (auto simp: takeWhile_eq_all_conv radix_digit_def digit_char_facts)
  show ?thesis unfolding js_parse_int_def sp sg Let_def using x nat_digits_ne
    by (simp add: tw radix_value_nat_digits del: takeWhile_eq_all_conv)
qed

lemma js_parse_int_print:
  "0 < n \<Longrightarrow> n < 10 ^ 21 \<Longrightarrow> js_parse_int (js_to_string (Num (of_int n))) = Some n"
  using js_to_string_nat [of "nat n"] js_parse_int_nat_digits [of "nat n"] by simp

lemma z_int_of_int [simp]: "int32 i \<Longrightarrow> z_int (Some (JNum (Num (of_int i)))) = Some i"
  by (simp add: z_int_def)

subsection \<open>parseFloat reads back printed whole numbers\<close>

lemma hex_value_decimal: "hex_value c = Some d \<Longrightarrow> d < 10 \<Longrightarrow> is_digit c \<and> digit_value c = d"
  by (auto simp: hex_value_def Let_def is_digit_def digit_value_def split: if_splits)

lemma nat_digits_decimal: "c \<in> set (nat_digits m) \<Longrightarrow> is_digit c"
  using nat_digits_chars [of c m] digit_char_facts(1) hex_value_decimal by blast

lemma digits_nat_nat_digits: "digits_nat (nat_digits m) = m"
proof (induction m rule: nat_digits.induct)
  case (1 n)
  have dv: "digit_value (digit_char d) = d" if "d < 10" for d
    using hex_value_decimal [OF digit_char_facts(1) [OF that] that] by simp
  show ?case
  proof (cases "n < 10")
    case True then show ?thesis by (subst nat_digits.simps) (simp add: digits_nat_def dv)
  next
    case False
    then have "digits_nat (nat_digits n) = 10 * digits_nat (nat_digits (n div 10)) + n mod 10"
      by (subst nat_digits.simps) (simp add: digits_nat_def dv)
    with "1.IH" False show ?thesis by simp
  qed
qed

lemma parse_float_nat_digits: "parse_float (nat_digits m) = Num (of_nat m)"
proof -
  let ?u = "nat_digits m"
  have dig: "\<forall>c\<in>set ?u. is_digit c" using nat_digits_decimal by blast
  obtain c r where cr: "?u = c # r" using nat_digits_ne by (cases ?u) auto
  have "is_digit c" using dig cr by simp
  then have hd: "\<not> is_str_space c" "c \<noteq> CHR ''-''" "c \<noteq> CHR ''+''"
    by (auto simp: is_digit_def is_str_space_def char_code_def)
  have sp: "dropWhile is_str_space ?u = ?u" using cr hd by simp
  have sg: "take_sign ?u = (False, ?u)" using cr hd by (simp add: take_sign_def)
  have "\<not> is_digit (CHR ''I'')" by (simp add: is_digit_def char_code_def)
  then have inf: "take 8 ?u \<noteq> ''Infinity''" using dig by (metis in_set_takeD list.set_intros(1))
  have tw: "takeWhile is_digit ?u = ?u" "dropWhile is_digit ?u = []" using dig by simp_all
  show ?thesis unfolding parse_float_def sp sg Let_def using inf nat_digits_ne
    by (simp add: tw digits_nat_nat_digits exponent_part_def pow10_def del: takeWhile_eq_all_conv dropWhile_eq_Nil_conv)
qed


lemma js_to_string_of_nat: "m < 10 ^ 21 \<Longrightarrow> js_to_string (Num (of_nat m)) = nat_digits m"
proof (cases "m = 0")
  case True then show ?thesis by (simp add: nat_digits.simps digit_char_def)
next
  case False then show "m < 10 ^ 21 \<Longrightarrow> ?thesis" using js_to_string_nat [of m] by simp
qed

subsection \<open>parseFloat reads back toFixed(2)\<close>

lemma digits_nat_zeros: "digits_nat (replicate k (CHR ''0'') @ ds) = digits_nat ds"
proof -
  have "foldl (\<lambda>acc d. 10 * acc + digit_value d) 0 (replicate k (CHR ''0'')) = 0"
    by (induction k) (simp_all add: digit_value_def char_code_def)
  then show ?thesis by (simp add: digits_nat_def)
qed

lemma parse_float_cents_string: "parse_float (cents_string n) = Num (of_nat n / 100)"
proof -
  define m' where "m' = replicate (3 - length (nat_digits n)) (CHR ''0'') @ nat_digits n"
  define ip where "ip = take (length m' - 2) m'"
  define fp where "fp = drop (length m' - 2) m'"
  have len: "3 \<le> length m'" by (simp add: m'_def)
  have dig: "\<forall>c\<in>set m'. is_digit c"
    by (auto simp: m'_def is_digit_def char_code_def dest: nat_digits_decimal)
  have ipd: "\<forall>c\<in>set ip. is_digit c" and fpd: "\<forall>c\<in>set fp. is_digit c"
    using dig by (auto simp: ip_def fp_def dest: in_set_takeD in_set_dropD)
  have fpl: "length fp = 2" using len by (simp add: fp_def)
  obtain c r where cr: "ip = c # r" using len by (cases ip) (auto simp: ip_def)
  have ipne: "ip \<noteq> []" using cr by simp
  have "is_digit c" using ipd cr by simp
  then have hd: "\<not> is_str_space c" "c \<noteq> CHR ''-''" "c \<noteq> CHR ''+''" "c \<noteq> CHR ''I''"
    by (auto simp: is_digit_def is_str_space_def char_code_def)
  have dot: "\<not> is_digit (CHR ''.'')" by (simp add: is_digit_def char_code_def)
  have cs: "cents_string n = ip @ CHR ''.'' # fp" by (simp add: cents_string_def Let_def m'_def ip_def fp_def)
  have sp: "dropWhile is_str_space (ip @ CHR ''.'' # fp) = ip @ CHR ''.'' # fp" using cr hd by simp
  have sg: "take_sign (ip @ CHR ''.'' # fp) = (False, ip @ CHR ''.'' # fp)" using cr hd by (simp add: take_sign_def)
  have inf: "take 8 (ip @ CHR ''.'' # fp) \<noteq> ''Infinity''" using cr hd by simp
  have tw: "takeWhile is_digit (ip @ CHR ''.'' # fp) = ip" "dropWhile is_digit (ip @ CHR ''.'' # fp) = CHR ''.'' # fp"
    using ipd dot by (simp_all add: takeWhile_append2 dropWhile_append2)
  have tf: "takeWhile is_digit fp = fp" "dropWhile is_digit fp = []" using fpd by simp_all
  have "ip @ fp = m'" by (simp add: ip_def fp_def)
  then have "digits_nat (ip @ fp) = n" by (simp add: m'_def digits_nat_zeros digits_nat_nat_digits)
  then show ?thesis
    unfolding cs parse_float_def sp sg Let_def using inf fpl ipne
    by (simp add: tw tf exponent_part_def pow10_def del: takeWhile_eq_all_conv dropWhile_eq_Nil_conv)
qed

lemma to_fixed2_cents: "of_nat n / 100 < (10 ^ 21 :: rat) \<Longrightarrow> to_fixed2 (Num (of_nat n / 100)) = cents_string n"
proof -
  assume "of_nat n / 100 < (10 ^ 21 :: rat)"
  moreover have "\<lfloor>of_nat n + 1 / 2 :: rat\<rfloor> = int n" by linarith
  ultimately show ?thesis by (simp add: round_cents_def)
qed

lemma to_fixed2_nonneg:
  assumes "0 \<le> r" and "r < 10 ^ 21"
  shows "to_fixed2 (Num r) = cents_string (round_cents r)"
proof -
  have "\<not> 10 ^ 21 \<le> \<bar>r\<bar>" "\<not> r < 0" using assms by simp_all
  then show ?thesis by (simp only: to_fixed2.simps if_not_P if_False)
qed

lemma parse_float_to_fixed2:
  "0 \<le> r \<Longrightarrow> r < 10 ^ 21 \<Longrightarrow> parse_float (to_fixed2 (Num r)) = Num (of_nat (round_cents r) / 100)"
  by (simp only: to_fixed2_nonneg parse_float_cents_string)

lemma to_fixed2_parse_roundtrip:
  assumes "0 \<le> r" and "r < 10 ^ 20"
  shows "to_fixed2 (parse_float (to_fixed2 (Num r))) = to_fixed2 (Num r)"
proof -
  have r21: "r < 10 ^ 21" using assms(2) by simp
  have "of_nat (round_cents r) \<le> 100 * r + 1 / 2"
    unfolding round_cents_def using assms(1) by linarith
  then have "of_nat (round_cents r) / 100 < (10 ^ 21 :: rat)" using assms(2) by simp
  then have "to_fixed2 (parse_float (to_fixed2 (Num r))) = cents_string (round_cents r)"
    by (simp only: parse_float_to_fixed2 [OF assms(1) r21] to_fixed2_cents)
  also have "\<dots> = to_fixed2 (Num r)" by (rule to_fixed2_nonneg [OF assms(1) r21, symmetric])
  finally show ?thesis .
qed

end
