(* ===== verification/Storage.thy ===== *)
theory Storage
  imports Schema
begin

text \<open>
  The server's in-memory store, class \<open>MemStorage\<close> of \<open>src/server/storage.ts\<close>. Its
  private fields are the record \<open>mem_storage\<close>: four JavaScript \<open>Map\<close>s (insertion-ordered
  association lists, see \<open>Prelude\<close>) and four id counters. Each method takes the store and
  returns its result with the new store; the methods are \<open>async\<close> but never await
  anything, so each runs atomically. \<open>new Date()\<close> is an argument \<open>now\<close>. The
  scrypt hash of the seeded admin password is an argument of \<open>seedAdminUser\<close>.
\<close>

record mem_storage =
  users :: "(int, user) jsmap"
  productsData :: "(int, product) jsmap"
  ordersData :: "(int, order) jsmap"
  orderItemsData :: "(int, order_item) jsmap"
  currentUserId :: int
  currentProductId :: int
  currentOrderId :: int
  currentOrderItemId :: int

subsection \<open>Users\<close>

definition getUser :: "mem_storage \<Rightarrow> int \<Rightarrow> user option" where
  "getUser s uid = map_of (users s) uid"

definition getUserByUsername :: "mem_storage \<Rightarrow> string \<Rightarrow> user option" where
  "getUserByUsername s name = find (\<lambda>u. username u = name) (jsmap_values (users s))"

definition createUser :: "insert_user \<Rightarrow> mem_storage \<Rightarrow> user \<times> mem_storage" where
  "createUser ins s =
     (let uid = currentUserId s;
          u = \<lparr>user_id = uid, username = iu_username ins, password = iu_password ins,
               user_isAdmin = Some (case iu_isAdmin ins of Some b \<Rightarrow> b | None \<Rightarrow> False)\<rparr>
      in (u, s\<lparr>currentUserId := uid + 1, users := AList.update uid u (users s)\<rparr>))"

subsection \<open>Products\<close>

definition getProducts :: "mem_storage \<Rightarrow> product list" where
  "getProducts s = jsmap_values (productsData s)"

definition getProductsByCategory :: "mem_storage \<Rightarrow> string \<Rightarrow> product list" where
  "getProductsByCategory s cat =
     (if cat = ''all'' then getProducts s
      else filter (\<lambda>p. category p = cat) (jsmap_values (productsData s)))"

definition getProduct :: "mem_storage \<Rightarrow> int \<Rightarrow> product option" where
  "getProduct s pid = map_of (productsData s) pid"

text \<open>\<open>x || null\<close> on an optional string: the empty string is falsy too.\<close>

fun or_null :: "string option \<Rightarrow> string option" where
  "or_null (Some v) = (if v = [] then None else Some v)"
| "or_null None = None"

definition createProduct :: "insert_product \<Rightarrow> nat \<Rightarrow> mem_storage \<Rightarrow> product \<times> mem_storage" where
  "createProduct ins now s =
     (let pid = currentProductId s;
          p = \<lparr>product_id = pid, product_name = ins_name ins, description = ins_description ins,
               product_price = ins_price ins, category = ins_category ins,
               product_image = ins_image ins, rating = ins_rating ins,
               badge = or_null (ins_badge ins), discountPrice = or_null (ins_discountPrice ins),
               product_isService = (if ins_isService ins = Some True then Some True else None),
               product_createdAt = now\<rparr>
      in (p, s\<lparr>currentProductId := pid + 1, productsData := AList.update pid p (productsData s)\<rparr>))"

subsection \<open>Orders\<close>

definition getOrders :: "mem_storage \<Rightarrow> order list" where
  "getOrders s = jsmap_values (ordersData s)"

definition getOrderById :: "mem_storage \<Rightarrow> int \<Rightarrow> order option" where
  "getOrderById s oid = map_of (ordersData s) oid"

definition getOrdersByUserId :: "mem_storage \<Rightarrow> int \<Rightarrow> order list" where
  "getOrdersByUserId s uid = filter (\<lambda>od. order_userId od = uid) (jsmap_values (ordersData s))"

definition createOrder :: "insert_order \<Rightarrow> nat \<Rightarrow> mem_storage \<Rightarrow> order \<times> mem_storage" where
  "createOrder ins now s =
     (let oid = currentOrderId s;
          ord = \<lparr>order_id = oid, order_userId = io_userId ins, totalAmount = io_totalAmount ins,
               customerName = io_customerName ins, customerEmail = io_customerEmail ins,
               shippingAddress = io_shippingAddress ins, order_paymentMethod = io_paymentMethod ins,
               status = (case or_null (io_status ins) of Some st \<Rightarrow> st | None \<Rightarrow> ''pending''),
               order_createdAt = now\<rparr>
      in (ord, s\<lparr>currentOrderId := oid + 1, ordersData := AList.update oid ord (ordersData s)\<rparr>))"

definition updateOrderStatus :: "int \<Rightarrow> string \<Rightarrow> mem_storage \<Rightarrow> order option \<times> mem_storage" where
  "updateOrderStatus oid st s =
     (case map_of (ordersData s) oid of
        None \<Rightarrow> (None, s)
      | Some od \<Rightarrow> (let o' = od\<lparr>status := st\<rparr>
                  in (Some o', s\<lparr>ordersData := AList.update oid o' (ordersData s)\<rparr>)))"

subsection \<open>Order items\<close>

definition getOrderItems :: "mem_storage \<Rightarrow> int \<Rightarrow> order_item list" where
  "getOrderItems s oid = filter (\<lambda>i. oi_orderId i = oid) (jsmap_values (orderItemsData s))"

text \<open>\<open>supplierId || null\<close>: a supplier id of 0 is stored as null.\<close>

definition createOrderItem :: "insert_order_item \<Rightarrow> nat \<Rightarrow> mem_storage \<Rightarrow> order_item \<times> mem_storage" where
  "createOrderItem ins now s =
     (let iid = currentOrderItemId s;
          it = \<lparr>oi_id = iid, oi_orderId = ioi_orderId ins, oi_productId = ioi_productId ins,
                oi_productName = ioi_productName ins, oi_quantity = ioi_quantity ins,
                oi_price = ioi_price ins,
                oi_supplierId = (if ioi_supplierId ins = Some 0 then None else ioi_supplierId ins),
                oi_createdAt = now\<rparr>
      in (it, s\<lparr>currentOrderItemId := iid + 1, orderItemsData := AList.update iid it (orderItemsData s)\<rparr>))"

subsection \<open>Construction and seeding\<close>

definition emptyStorage :: mem_storage where
  "emptyStorage =
     \<lparr>users = [], productsData = [], ordersData = [], orderItemsData = [],
      currentUserId = 1, currentProductId = 1, currentOrderId = 1, currentOrderItemId = 1\<rparr>"

definition dummyProducts :: "insert_product list" where
  "dummyProducts =
    [\<lparr>ins_name = ''Smartwatch X1'', ins_description = ''Premium smartwatch with health tracking and long battery life.'', ins_price = ''999.99'', ins_category = ''electronics'',
        ins_image = ''https://images.unsplash.com/photo-1546868871-0f936769675e?auto=format&fit=crop&w=400&h=300'',
        ins_rating = ''4.5'', ins_badge = Some ''NEW'', ins_discountPrice = None, ins_isService = Some False\<rparr>,
     \<lparr>ins_name = ''Wireless Headphones'', ins_description = ''Noise-cancelling headphones with crystal clear sound quality.'', ins_price = ''449.99'', ins_category = ''electronics'',
        ins_image = ''https://images.unsplash.com/photo-1492107376256-4026437926cd?auto=format&fit=crop&w=400&h=300'',
        ins_rating = ''4.8'', ins_badge = Some ''SALE'', ins_discountPrice = Some ''599.99'', ins_isService = Some False\<rparr>,
     \<lparr>ins_name = ''Designer Backpack'', ins_description = ''Stylish and functional backpack with multiple compartments.'', ins_price = ''79.99'', ins_category = ''fashion'',
        ins_image = ''https://images.unsplash.com/photo-1598033129183-c4f50c736f10?auto=format&fit=crop&w=400&h=300'',
        ins_rating = ''4.3'', ins_badge = None, ins_discountPrice = None, ins_isService = Some False\<rparr>,
     \<lparr>ins_name = ''Smart Coffee Maker'', ins_description = ''App-controlled coffee maker with programmable brewing.'', ins_price = ''199.99'', ins_category = ''home'',
        ins_image = ''https://images.unsplash.com/photo-1540574163026-643ea20ade25?auto=format&fit=crop&w=400&h=300'',
        ins_rating = ''4.6'', ins_badge = None, ins_discountPrice = None, ins_isService = Some False\<rparr>,
     \<lparr>ins_name = ''Premium Web Design'', ins_description = ''Professional web design services for your business or personal site.'', ins_price = ''149.00'', ins_category = ''services'',
        ins_image = ''https://images.unsplash.com/photo-1590650046871-92c887180603?auto=format&fit=crop&w=400&h=300'',
        ins_rating = ''4.9'', ins_badge = Some ''POPULAR'', ins_discountPrice = None, ins_isService = Some True\<rparr>,
     \<lparr>ins_name = ''Leather Wallet'', ins_description = ''Handcrafted genuine leather wallet with RFID protection.'', ins_price = ''59.99'', ins_category = ''fashion'',
        ins_image = ''https://images.unsplash.com/photo-1602810318660-d2c46b750f88?auto=format&fit=crop&w=400&h=300'',
        ins_rating = ''4.1'', ins_badge = None, ins_discountPrice = None, ins_isService = Some False\<rparr>,
     \<lparr>ins_name = ''Smart Home Hub'', ins_description = ''Control all your smart home devices from one central hub.'', ins_price = ''299.99'', ins_category = ''home'',
        ins_image = ''https://images.unsplash.com/photo-1579656381226-5fc0f0100c3b?auto=format&fit=crop&w=400&h=300'',
        ins_rating = ''4.4'', ins_badge = None, ins_discountPrice = None, ins_isService = Some False\<rparr>,
     \<lparr>ins_name = ''Ultra Slim Laptop'', ins_description = ''Powerful laptop with all-day battery life and stunning display.'', ins_price = ''1299.99'', ins_category = ''electronics'',
        ins_image = ''https://images.unsplash.com/photo-1593642702909-dec73df255d7?auto=format&fit=crop&w=400&h=300'',
        ins_rating = ''4.7'', ins_badge = Some ''BESTSELLER'', ins_discountPrice = None, ins_isService = Some False\<rparr>,
     \<lparr>ins_name = ''Mobile App Development'', ins_description = ''Custom mobile application development for iOS and Android.'', ins_price = ''89.99'', ins_category = ''services'',
        ins_image = ''https://images.unsplash.com/photo-1551650975-87deedd944c3?auto=format&fit=crop&w=400&h=300'',
        ins_rating = ''4.5'', ins_badge = None, ins_discountPrice = None, ins_isService = Some True\<rparr>,
     \<lparr>ins_name = ''Indoor Plant Set'', ins_description = ''Set of 3 low-maintenance indoor plants with decorative pots.'', ins_price = ''49.99'', ins_category = ''home'',
        ins_image = ''https://images.unsplash.com/photo-1554244933-d876deb6b2ff?auto=format&fit=crop&w=400&h=300'',
        ins_rating = ''4.2'', ins_badge = Some ''SALE'', ins_discountPrice = Some ''69.99'', ins_isService = Some False\<rparr>,
     \<lparr>ins_name = ''Running Shoes'', ins_description = ''Lightweight running shoes with ergonomic design and extra cushioning.'', ins_price = ''129.99'', ins_category = ''fashion'',
        ins_image = ''https://images.unsplash.com/photo-1520639888713-7851133b1ed0?auto=format&fit=crop&w=400&h=300'',
        ins_rating = ''4.3'', ins_badge = None, ins_discountPrice = None, ins_isService = Some False\<rparr>,
     \<lparr>ins_name = ''Smart Security Camera'', ins_description = ''Wireless security camera with motion detection and cloud storage.'', ins_price = ''349.99'', ins_category = ''electronics'',
        ins_image = ''https://images.unsplash.com/photo-1546435770-a3e426bf472b?auto=format&fit=crop&w=400&h=300'',
        ins_rating = ''4.6'', ins_badge = None, ins_discountPrice = None, ins_isService = Some False\<rparr>,
     \<lparr>ins_name = ''Professional Photography'', ins_description = ''Professional photography services for events, portraits, and products.'', ins_price = ''199.99'', ins_category = ''services'',
        ins_image = ''https://images.unsplash.com/photo-1542038784456-1ea8e935640e?auto=format&fit=crop&w=400&h=300'',
        ins_rating = ''4.7'', ins_badge = None, ins_discountPrice = None, ins_isService = Some True\<rparr>,
     \<lparr>ins_name = ''Wireless Earbuds'', ins_description = ''True wireless earbuds with touch controls and noise isolation.'', ins_price = ''129.99'', ins_category = ''electronics'',
        ins_image = ''https://images.unsplash.com/photo-1588423771073-b8903fbb85b5?auto=format&fit=crop&w=400&h=300'',
        ins_rating = ''4.3'', ins_badge = None, ins_discountPrice = None, ins_isService = Some False\<rparr>,
     \<lparr>ins_name = ''Stylish Sunglasses'', ins_description = ''Polarized sunglasses with UV protection and durable frame.'', ins_price = ''89.99'', ins_category = ''fashion'',
        ins_image = ''https://images.unsplash.com/photo-1577803645773-f96470509666?auto=format&fit=crop&w=400&h=300'',
        ins_rating = ''4.2'', ins_badge = None, ins_discountPrice = None, ins_isService = Some False\<rparr>]"

definition seedProducts :: "nat \<Rightarrow> mem_storage \<Rightarrow> mem_storage" where
  "seedProducts now s =
     (if length (productsData s) > 0 then s
      else foldl (\<lambda>st p. snd (createProduct p now st)) s dummyProducts)"

definition seedAdminUser :: "string \<Rightarrow> mem_storage \<Rightarrow> mem_storage" where
  "seedAdminUser hashedPassword s =
     (case getUserByUsername s ''admin'' of
        Some _ \<Rightarrow> s
      | None \<Rightarrow> snd (createUser \<lparr>iu_username = ''admin'', iu_password = hashedPassword,
                                  iu_isAdmin = Some True\<rparr> s))"

text \<open>The constructor: empty maps, counters at 1, the products, then the admin user.\<close>

definition newMemStorage :: "string \<Rightarrow> nat \<Rightarrow> mem_storage" where
  "newMemStorage hashedPassword now = seedAdminUser hashedPassword (seedProducts now emptyStorage)"

subsection \<open>Operations as data\<close>

text \<open>The writing methods of \<open>IStorage\<close>, as one step function on the store.\<close>

datatype storage_op =
    CreateUser insert_user
  | CreateProduct insert_product nat
  | CreateOrder insert_order nat
  | UpdateOrderStatus int string
  | CreateOrderItem insert_order_item nat

fun storage_step :: "mem_storage \<Rightarrow> storage_op \<Rightarrow> mem_storage" where
  "storage_step s (CreateUser u) = snd (createUser u s)"
| "storage_step s (CreateProduct p now) = snd (createProduct p now s)"
| "storage_step s (CreateOrder io now) = snd (createOrder io now s)"
| "storage_step s (UpdateOrderStatus oid st) = snd (updateOrderStatus oid st s)"
| "storage_step s (CreateOrderItem i now) = snd (createOrderItem i now s)"

fun storage_run :: "mem_storage \<Rightarrow> storage_op list \<Rightarrow> mem_storage" where
  "storage_run s [] = s"
| "storage_run s (op # ops) = storage_run (storage_step s op) ops"

subsection \<open>Well-formed tables\<close>

text \<open>
  A table is well formed when its keys are distinct, every row's id is its key, and every
  key lies between 1 and the table's counter (exclusive).
\<close>

definition table_wf :: "('v \<Rightarrow> int) \<Rightarrow> int \<Rightarrow> (int, 'v) jsmap \<Rightarrow> bool" where
  "table_wf idf c m \<longleftrightarrow>
     distinct (map fst m) \<and> 1 \<le> c \<and> list_all (\<lambda>(k, v). idf v = k \<and> 1 \<le> k \<and> k < c) m"

definition storage_wf :: "mem_storage \<Rightarrow> bool" where
  "storage_wf s \<longleftrightarrow>
     table_wf user_id (currentUserId s) (users s) \<and>
     table_wf product_id (currentProductId s) (productsData s) \<and>
     table_wf order_id (currentOrderId s) (ordersData s) \<and>
     table_wf oi_id (currentOrderItemId s) (orderItemsData s)"

text \<open>An order row as \<open>POST /api/orders\<close> inserts it, for the examples.\<close>

definition example_insert_order :: insert_order where
  "example_insert_order =
     \<lparr>io_userId = 2, io_totalAmount = ''1005.98'', io_customerName = ''Ada Lovelace'',
      io_customerEmail = ''ada@example.com'', io_shippingAddress = ''1 Main St, Coimbatore, TN 641001'',
      io_paymentMethod = ''credit_card'', io_status = None\<rparr>"

declare getUser_def [model_defs] getUserByUsername_def [model_defs] createUser_def [model_defs]
  getProducts_def [model_defs] getProductsByCategory_def [model_defs] getProduct_def [model_defs]
  createProduct_def [model_defs] getOrders_def [model_defs] getOrderById_def [model_defs]
  getOrdersByUserId_def [model_defs] createOrder_def [model_defs] updateOrderStatus_def [model_defs]
  getOrderItems_def [model_defs] createOrderItem_def [model_defs] emptyStorage_def [model_defs]
  seedProducts_def [model_defs] seedAdminUser_def [model_defs] newMemStorage_def [model_defs] example_insert_order_def [model_defs]

subsection \<open>Table lemmas\<close>

lemma table_wf_lookup:
  "table_wf idf c m \<Longrightarrow> map_of m k = Some v \<Longrightarrow> idf v = k \<and> 1 \<le> k \<and> k < c"
  by (auto simp: table_wf_def list_all_iff dest: map_of_SomeD)

lemma table_wf_fresh: "table_wf idf c m \<Longrightarrow> c \<notin> fst ` set m"
  by (fastforce simp: table_wf_def list_all_iff)

lemma table_wf_fresh_lookup: "table_wf idf c m \<Longrightarrow> map_of m c = None"
  by (simp add: map_of_eq_None_iff table_wf_fresh)

lemma list_all_update_new:
  "k \<notin> fst ` set m \<Longrightarrow> list_all P (AList.update k v m) \<longleftrightarrow> list_all P m \<and> P (k, v)"
  by (induction m) auto

lemma list_all_update_old:
  "list_all P m \<Longrightarrow> P (k, v) \<Longrightarrow> list_all P (AList.update k v m)"
  by (induction m) auto

lemma createProduct_listed:
  "createProduct ip now s = (p, s') \<Longrightarrow> p \<in> set (getProducts s') \<and> rating p = ins_rating ip"
  by (auto simp: createProduct_def getProducts_def Let_def update_value_listed)

lemma table_wf_insert:
  assumes "table_wf idf c m" and "idf v = c"
  shows "table_wf idf (c + 1) (AList.update c v m)"
proof -
  from assms(1) have fresh: "c \<notin> fst ` set m" by (rule table_wf_fresh)
  from assms(1) have "list_all (\<lambda>(k, v). idf v = k \<and> 1 \<le> k \<and> k < c + 1) m"
    by (auto simp: table_wf_def list_all_iff)
  with fresh assms show ?thesis
    by (auto simp: table_wf_def list_all_update_new distinct_update)
qed

lemma table_wf_replace:
  assumes "table_wf idf c m" and "map_of m k = Some v" and "idf v' = k"
  shows "table_wf idf c (AList.update k v' m)"
proof -
  from table_wf_lookup [OF assms(1,2)] assms(3) have "idf v' = k \<and> 1 \<le> k \<and> k < c" by simp
  with assms(1) show ?thesis
    by (auto simp: table_wf_def distinct_update intro: list_all_update_old)
qed

text \<open>Replacing the row found under a key by one with the same value of \<open>f\<close> keeps \<open>f\<close> along the map.\<close>

lemma map_update_same_field:
  "map_of m k = Some v \<Longrightarrow> f (g v) = f v \<Longrightarrow> map (f \<circ> snd) (AList.update k (g v) m) = map (f \<circ> snd) m"
  by (induction m) (auto split: if_splits)

lemma table_wf_empty [simp]: "table_wf idf 1 []"
  by (simp add: table_wf_def)

subsection \<open>Each operation keeps the store well formed\<close>

lemma createUser_wf [inv_intros]: "storage_wf s \<Longrightarrow> storage_wf (snd (createUser u s))"
  by (simp add: storage_wf_def createUser_def Let_def table_wf_insert)

lemma createProduct_wf [inv_intros]: "storage_wf s \<Longrightarrow> storage_wf (snd (createProduct p now s))"
  by (simp add: storage_wf_def createProduct_def Let_def table_wf_insert)

lemma createOrder_wf [inv_intros]: "storage_wf s \<Longrightarrow> storage_wf (snd (createOrder io now s))"
  by (simp add: storage_wf_def createOrder_def Let_def table_wf_insert)

lemma createOrderItem_wf [inv_intros]: "storage_wf s \<Longrightarrow> storage_wf (snd (createOrderItem i now s))"
  by (simp add: storage_wf_def createOrderItem_def Let_def table_wf_insert)

lemma updateOrderStatus_wf [inv_intros]:
  assumes "storage_wf s"
  shows "storage_wf (snd (updateOrderStatus oid st s))"
proof (cases "map_of (ordersData s) oid")
  case None
  with assms show ?thesis by (simp add: updateOrderStatus_def)
next
  case (Some od)
  from assms have "table_wf order_id (currentOrderId s) (ordersData s)" by (simp add: storage_wf_def)
  from table_wf_lookup [OF this Some] table_wf_replace [OF this Some, of "od\<lparr>status := st\<rparr>"]
  have "table_wf order_id (currentOrderId s) (AList.update oid (od\<lparr>status := st\<rparr>) (ordersData s))"
    by simp
  with assms Some show ?thesis by (simp add: updateOrderStatus_def storage_wf_def Let_def)
qed

lemma storage_step_wf [inv_intros]: "storage_wf s \<Longrightarrow> storage_wf (storage_step s op)"
  by (cases op) (simp_all add: inv_intros)

lemma storage_run_wf: "storage_wf s \<Longrightarrow> storage_wf (storage_run s ops)"
  by (induction ops arbitrary: s) (simp_all add: storage_step_wf)

lemma emptyStorage_wf [simp]: "storage_wf emptyStorage"
  by (simp add: storage_wf_def emptyStorage_def)

lemma foldl_createProduct_wf:
  "storage_wf s \<Longrightarrow> storage_wf (foldl (\<lambda>st p. snd (createProduct p now st)) s ps)"
  by (induction ps arbitrary: s) (simp_all add: createProduct_wf)

lemma newMemStorage_wf [simp]: "storage_wf (newMemStorage h now)"
  by (simp add: newMemStorage_def seedAdminUser_def seedProducts_def foldl_createProduct_wf
      createUser_wf split: option.splits)

lemma users_seedProducts [simp]: "users (seedProducts now s) = users s"
proof -
  have "\<And>t. users (foldl (\<lambda>st p. snd (createProduct p now st)) t ps) = users t" for ps
    by (induction ps) (simp_all add: createProduct_def Let_def)
  then show ?thesis by (simp add: seedProducts_def)
qed

lemma currentUserId_seedProducts [simp]: "currentUserId (seedProducts now s) = currentUserId s"
proof -
  have "\<And>t. currentUserId (foldl (\<lambda>st p. snd (createProduct p now st)) t ps) = currentUserId t" for ps
    by (induction ps) (simp_all add: createProduct_def Let_def)
  then show ?thesis by (simp add: seedProducts_def)
qed

lemma newMemStorage_admin:
  "getUserByUsername (newMemStorage h now) ''admin'' =
     Some \<lparr>user_id = 1, username = ''admin'', password = h, user_isAdmin = Some True\<rparr>"
  by (simp add: newMemStorage_def seedAdminUser_def getUserByUsername_def createUser_def
      emptyStorage_def Let_def)

text \<open>In a well-formed table every row is found under its own id; in particular the user
  found by name is the one the session lookup by id finds.\<close>

lemma table_wf_value_lookup:
  "table_wf idf c m \<Longrightarrow> v \<in> set (map snd m) \<Longrightarrow> map_of m (idf v) = Some v"
  by (auto simp: table_wf_def list_all_iff intro: map_of_is_SomeI)

lemma getUserByUsername_getUser:
  "storage_wf s \<Longrightarrow> getUserByUsername s n = Some u \<Longrightarrow> getUser s (user_id u) = Some u \<and> username u = n"
  by (auto simp: storage_wf_def getUserByUsername_def getUser_def find_Some_iff
      intro!: table_wf_value_lookup)

lemma getUserByUsername_createUser:
  assumes "storage_wf s" and "getUserByUsername s (iu_username iu) = None"
  shows "getUserByUsername (snd (createUser iu s)) (iu_username iu) = Some (fst (createUser iu s))"
proof -
  have "currentUserId s \<notin> fst ` set (users s)"
    using assms(1) table_wf_fresh by (auto simp: storage_wf_def)
  then have "jsmap_values (users (snd (createUser iu s))) = jsmap_values (users s) @ [fst (createUser iu s)]"
    by (simp add: createUser_def Let_def map_snd_update_new)
  with assms(2) show ?thesis
    by (simp add: getUserByUsername_def find_append_None createUser_def Let_def)
qed

text \<open>Replacing a row of a well-formed table replaces it in the listing, in place.\<close>

lemma map_snd_update_ids:
  "list_all (\<lambda>(k, v). idf v = k) m \<Longrightarrow> distinct (map fst m) \<Longrightarrow> map_of m k = Some v \<Longrightarrow>
   map snd (AList.update k (g v) m) = map (\<lambda>x. if idf x = k then g x else x) (map snd m)"
proof (induction m)
  case (Cons a m)
  obtain k' v' where a: "a = (k', v')" by (cases a)
  show ?case
  proof (cases "k' = k")
    case True
    with Cons.prems a have v: "v' = v" and fresh: "k \<notin> fst ` set m" by auto
    have "idf x \<noteq> k" if x: "x \<in> set (map snd m)" for x
    proof -
      from x obtain k2 where k2: "(k2, x) \<in> set m" by auto
      then have "idf x = k2" using Cons.prems(1) by (auto simp: list_all_iff)
      moreover have "k2 \<noteq> k" using k2 fresh by force
      ultimately show ?thesis by simp
    qed
    then have "map (\<lambda>x. if idf x = k then g x else x) (map snd m) = map snd m"
      by (rule map_id_if_not_found)
    then show ?thesis using Cons.prems a True v by simp
  next
    case False
    then show ?thesis using Cons a by simp
  qed
qed simp

lemma getOrders_updateOrderStatus:
  "storage_wf s \<Longrightarrow> getOrderById s oid = Some od \<Longrightarrow>
   getOrders (snd (updateOrderStatus oid st s))
     = map (\<lambda>x. if order_id x = oid then x\<lparr>status := st\<rparr> else x) (getOrders s)"
  using map_snd_update_ids [of order_id "ordersData s" oid od "\<lambda>x. x\<lparr>status := st\<rparr>"]
  by (auto simp: storage_wf_def table_wf_def getOrders_def getOrderById_def updateOrderStatus_def Let_def
      list_all_iff split: prod.splits)

subsection \<open>Properties of the store\<close>

text \<open>
  C11. From its construction on, through any sequence of writes, the store stays well
  formed: in each of its four maps the keys are distinct, every row's id is its key, and
  every key is below the table's next id, so a new row never overwrites an old one.
\<close>

theorem storage_stays_wf: "storage_wf (storage_run (newMemStorage h now) ops)"
  by (rule storage_run_wf) simp

text \<open>
  C12. In a well-formed store, \<open>createOrder\<close> gives the new order the next id, which no
  order had before; afterwards \<open>getOrderById\<close> finds it, every other order is unchanged,
  and \<open>getOrders\<close> lists it last.
\<close>

theorem createOrder_roundtrip:
  assumes "storage_wf s" and "createOrder ins now s = (ord, s')"
  shows "order_id ord = currentOrderId s \<and> getOrderById s (order_id ord) = None \<and>
         getOrderById s' (order_id ord) = Some ord \<and>
         (\<forall>k. k \<noteq> order_id ord \<longrightarrow> getOrderById s' k = getOrderById s k) \<and>
         getOrders s' = getOrders s @ [ord]"
proof -
  from assms(1) have wf: "table_wf order_id (currentOrderId s) (ordersData s)"
    by (simp add: storage_wf_def)
  have fresh: "currentOrderId s \<notin> fst ` set (ordersData s)" by (rule table_wf_fresh [OF wf])
  from assms(2) have ord: "order_id ord = currentOrderId s"
    and s': "ordersData s' = AList.update (currentOrderId s) ord (ordersData s)"
    by (auto simp: createOrder_def Let_def)
  show ?thesis
    using ord s' fresh table_wf_fresh_lookup [OF wf]
    by (simp add: getOrderById_def getOrders_def map_snd_update_new)
qed

theorem createOrder_roundtrip_witness:
  "storage_wf (newMemStorage ''h.s'' 0) \<and>
   createOrder example_insert_order 5 (newMemStorage ''h.s'' 0)
     = (fst (createOrder example_insert_order 5 (newMemStorage ''h.s'' 0)),
        snd (createOrder example_insert_order 5 (newMemStorage ''h.s'' 0))) \<and>
   getOrders (snd (createOrder example_insert_order 5 (newMemStorage ''h.s'' 0)))
     = getOrders (newMemStorage ''h.s'' 0) @ [fst (createOrder example_insert_order 5 (newMemStorage ''h.s'' 0))]"
proof -
  have h1: "storage_wf (newMemStorage ''h.s'' 0)" by simp
  have h2: "createOrder example_insert_order 5 (newMemStorage ''h.s'' 0)
     = (fst (createOrder example_insert_order 5 (newMemStorage ''h.s'' 0)),
        snd (createOrder example_insert_order 5 (newMemStorage ''h.s'' 0)))" by simp
  from createOrder_roundtrip [OF h1 h2] h1 h2 show ?thesis by simp
qed

text \<open>
  \<open>updateOrderStatus\<close> on a missing id returns nothing and leaves the store as it
  was; on an existing id it returns the order with the new status, stores it under the same
  id, leaves every other order as it was, and keeps the order of \<open>getOrders\<close>.
\<close>

lemma updateOrderStatus_spec:
  assumes "updateOrderStatus oid st s = (r, s')"
  shows "(case getOrderById s oid of
            None \<Rightarrow> r = None \<and> s' = s
          | Some od \<Rightarrow> r = Some (od\<lparr>status := st\<rparr>) \<and> getOrderById s' oid = r \<and>
                       (\<forall>k. k \<noteq> oid \<longrightarrow> getOrderById s' k = getOrderById s k) \<and>
                       map order_id (getOrders s') = map order_id (getOrders s))"
proof (cases "map_of (ordersData s) oid")
  case None
  with assms show ?thesis by (simp add: updateOrderStatus_def getOrderById_def)
next
  case (Some od)
  from Some assms have r: "r = Some (od\<lparr>status := st\<rparr>)"
    and s': "s' = s\<lparr>ordersData := AList.update oid (od\<lparr>status := st\<rparr>) (ordersData s)\<rparr>"
    by (simp_all add: updateOrderStatus_def Let_def)
  from Some r s' map_update_same_field [OF Some, of order_id "\<lambda>v. v\<lparr>status := st\<rparr>"] show ?thesis
    by (simp add: getOrderById_def getOrders_def)
qed

theorem updateOrderStatus_spec_witness:
  "updateOrderStatus 1 ''shipped'' (snd (createOrder example_insert_order 5 emptyStorage))
     = (fst (updateOrderStatus 1 ''shipped'' (snd (createOrder example_insert_order 5 emptyStorage))),
        snd (updateOrderStatus 1 ''shipped'' (snd (createOrder example_insert_order 5 emptyStorage)))) \<and>
   fst (updateOrderStatus 1 ''shipped'' (snd (createOrder example_insert_order 5 emptyStorage)))
     = Some ((fst (createOrder example_insert_order 5 emptyStorage))\<lparr>status := ''shipped''\<rparr>)"
proof -
  have h: "updateOrderStatus 1 ''shipped'' (snd (createOrder example_insert_order 5 emptyStorage))
     = (fst (updateOrderStatus 1 ''shipped'' (snd (createOrder example_insert_order 5 emptyStorage))),
        snd (updateOrderStatus 1 ''shipped'' (snd (createOrder example_insert_order 5 emptyStorage))))"
    by simp
  have look: "getOrderById (snd (createOrder example_insert_order 5 emptyStorage)) 1
      = Some (fst (createOrder example_insert_order 5 emptyStorage))"
    by (simp add: createOrder_def getOrderById_def emptyStorage_def Let_def)
  from updateOrderStatus_spec [OF h] look h show ?thesis by simp
qed

end
