(* ===== verification/Auth.thy ===== *)
theory Auth
  imports Http Storage
begin

text \<open>
  The authentication part of the server (\<open>src/server/auth.ts\<close>). The server state is the
  store and the session of the client making the requests: the user id that
  \<open>passport.serializeUser\<close> keeps, or nothing. \<open>deserializeUser\<close> looks that id up again on
  every request (\<open>session_user\<close>); a request is authenticated when the lookup finds a
  user. A handler returns a response (status code and body) and the next state. The
  scrypt hash of a new password (\<open>hashPassword\<close>, whose salt is random) and the password
  check (\<open>comparePasswords\<close>) are arguments \<open>hash\<close> and \<open>check\<close>. The register body's
  \<open>username\<close> and \<open>password\<close> are strings when present; other JSON values there are not
  modelled.
\<close>

subsection \<open>Responses and server state\<close>

text \<open>Response bodies; \<open>RUser\<close> is a user with the password omitted, \<open>RStatus\<close> a bare
  \<open>sendStatus\<close>.\<close>

datatype resp_body = RMessage string | RProducts "product list" | RProduct product
  | ROrder order | ROrders "order list" | ROrderDetail order "order_item list"
  | RUser int string "bool option" | RStatus

type_synonym response = "nat \<times> resp_body"

record server =
  srv_store :: mem_storage
  srv_session :: "int option"

definition session_user :: "server \<Rightarrow> user option" where
  "session_user srv = (case srv_session srv of Some uid \<Rightarrow> getUser (srv_store srv) uid | None \<Rightarrow> None)"

text \<open>\<open>req.isAuthenticated() && req.user?.isAdmin\<close>.\<close>

definition admin_session :: "server \<Rightarrow> bool" where
  "admin_session srv = (case session_user srv of Some u \<Rightarrow> user_isAdmin u = Some True | None \<Rightarrow> False)"

definition public_user :: "user \<Rightarrow> resp_body" where
  "public_user u = RUser (user_id u) (username u) (user_isAdmin u)"

subsection \<open>Handlers\<close>

record reg_body =
  rb_username :: "string option"
  rb_password :: "string option"
  rb_isAdmin :: "json option"

text \<open>
  The \<open>isAdmin\<close> that \<open>{...req.body}\<close> passes on to \<open>createUser\<close>, which stores
  \<open>isAdmin ?? false\<close>; the code only ever reads its truthiness.
\<close>

definition reg_isAdmin :: "json option \<Rightarrow> bool option" where
  "reg_isAdmin v = (case v of None \<Rightarrow> None | Some JNull \<Rightarrow> None | Some j \<Rightarrow> Some (js_truthy j))"

text \<open>\<open>POST /api/register\<close>.\<close>

definition register :: "(string \<Rightarrow> string) \<Rightarrow> reg_body \<Rightarrow> server \<Rightarrow> response \<times> server" where
  "register hash rb srv =
     (case (rb_username rb, rb_password rb) of
        (Some un, Some pw) \<Rightarrow>
          if un = [] \<or> pw = [] then ((400, RMessage ''Username and password are required''), srv)
          else if getUserByUsername (srv_store srv) un \<noteq> None
          then ((400, RMessage ''Username already exists''), srv)
          else
            (let (u, s') = createUser \<lparr>iu_username = un, iu_password = hash pw,
                                        iu_isAdmin = reg_isAdmin (rb_isAdmin rb)\<rparr> (srv_store srv)
             in ((201, public_user u), srv\<lparr>srv_store := s', srv_session := Some (user_id u)\<rparr>))
      | _ \<Rightarrow> ((400, RMessage ''Username and password are required''), srv))"

text \<open>
  \<open>POST /api/login\<close>: the local strategy (missing fields fail with passport-local's
  \<open>Missing credentials\<close>), then the callback of \<open>passport.authenticate\<close>.
\<close>

text \<open>The verify callback of the \<open>LocalStrategy\<close>: the user, or \<open>done(null, false)\<close>
  (\<open>None\<close>) for an unknown username or a password that does not match.\<close>

definition local_strategy :: "(string \<Rightarrow> string \<Rightarrow> bool) \<Rightarrow> string \<Rightarrow> string \<Rightarrow> mem_storage \<Rightarrow> user option" where
  "local_strategy check n p s =
     (case getUserByUsername s n of
        Some u \<Rightarrow> if check p (password u) then Some u else None
      | None \<Rightarrow> None)"

definition login :: "(string \<Rightarrow> string \<Rightarrow> bool) \<Rightarrow> string option \<Rightarrow> string option \<Rightarrow> server \<Rightarrow> response \<times> server" where
  "login check un pw srv =
     (case (un, pw) of
        (Some n, Some p) \<Rightarrow>
          if n = [] \<or> p = [] then ((401, RMessage ''Missing credentials''), srv)
          else (case local_strategy check n p (srv_store srv) of
                  Some u \<Rightarrow> ((200, public_user u), srv\<lparr>srv_session := Some (user_id u)\<rparr>)
                | None \<Rightarrow> ((401, RMessage ''Invalid username or password''), srv))
      | _ \<Rightarrow> ((401, RMessage ''Missing credentials''), srv))"

definition logout :: "server \<Rightarrow> response \<times> server" where
  "logout srv = ((200, RStatus), srv\<lparr>srv_session := None\<rparr>)"

definition get_user :: "server \<Rightarrow> response" where
  "get_user srv = (case session_user srv of Some u \<Rightarrow> (200, public_user u) | None \<Rightarrow> (401, RStatus))"

text \<open>A store with one customer, \<open>alice\<close>, who is logged in; for the examples.\<close>

definition customer_server :: server where
  "customer_server =
     \<lparr>srv_store = snd (createUser \<lparr>iu_username = ''alice'', iu_password = ''h'', iu_isAdmin = None\<rparr> emptyStorage),
      srv_session = Some 1\<rparr>"

declare js_parse_int_def [model_defs] hex_value_def [model_defs] radix_digit_def [model_defs]
  radix_value_def [model_defs] z_string_def [model_defs] z_optional_def [model_defs]
  z_nullish_def [model_defs] z_int_def [model_defs] int32_def [model_defs] z_bool_def [model_defs]
  parse_insert_order_def [model_defs] parse_insert_order_item_def [model_defs]
  parse_insert_product_def [model_defs] session_user_def [model_defs] admin_session_def [model_defs]
  public_user_def [model_defs] reg_isAdmin_def [model_defs] register_def [model_defs]
  local_strategy_def [model_defs] login_def [model_defs] logout_def [model_defs] get_user_def [model_defs]
  customer_server_def [model_defs] Let_def [model_defs]

subsection \<open>Properties of registration and login\<close>

lemma session_user_store:
  "users s' = users (srv_store srv) \<Longrightarrow> session_user (srv\<lparr>srv_store := s'\<rparr>) = session_user srv"
  by (simp add: session_user_def getUser_def split: option.splits)

lemma register_rejected:
  "400 \<le> fst (fst (register hash rb srv)) \<Longrightarrow> snd (register hash rb srv) = srv"
  by (auto simp: register_def split: option.splits prod.splits if_splits)

lemma login_rejected:
  "400 \<le> fst (fst (login check un pw srv)) \<Longrightarrow> snd (login check un pw srv) = srv"
  by (auto simp: login_def local_strategy_def split: option.splits prod.splits if_splits)

lemma register_new:
  "getUserByUsername (srv_store srv) un = None \<Longrightarrow> un \<noteq> [] \<Longrightarrow> pw \<noteq> [] \<Longrightarrow>
   register hash \<lparr>rb_username = Some un, rb_password = Some pw, rb_isAdmin = a\<rparr> srv =
     (let (u, s') = createUser \<lparr>iu_username = un, iu_password = hash pw, iu_isAdmin = reg_isAdmin a\<rparr>
                      (srv_store srv)
      in ((201, public_user u), srv\<lparr>srv_store := s', srv_session := Some (user_id u)\<rparr>))"
  by (simp add: register_def)

lemma login_found:
  "getUserByUsername (srv_store srv) n = Some u \<Longrightarrow> n \<noteq> [] \<Longrightarrow> p \<noteq> [] \<Longrightarrow>
   login check (Some n) (Some p) srv =
     (if check p (password u) then ((200, public_user u), srv\<lparr>srv_session := Some (user_id u)\<rparr>)
      else ((401, RMessage ''Invalid username or password''), srv))"
  by (simp add: login_def local_strategy_def)

text \<open>
  C20. Registration lets the client choose its own privileges: \<open>POST /api/register\<close>
  spreads the request body into \<open>createUser\<close>, so a body with \<open>isAdmin: true\<close> and a new
  username creates an administrator, answers 201 with \<open>isAdmin = true\<close>, and leaves the
  client logged in with an admin session, which passes the \<open>isAdmin\<close> middleware.
\<close>

theorem register_grants_admin:
  assumes "getUserByUsername (srv_store srv) un = None" and "un \<noteq> []" and "pw \<noteq> []"
  shows "fst (register hash \<lparr>rb_username = Some un, rb_password = Some pw, rb_isAdmin = Some (JBool True)\<rparr> srv)
           = (201, RUser (currentUserId (srv_store srv)) un (Some True))
    \<and> admin_session (snd (register hash \<lparr>rb_username = Some un, rb_password = Some pw, rb_isAdmin = Some (JBool True)\<rparr> srv))"
  using assms by (simp add: register_def createUser_def reg_isAdmin_def public_user_def admin_session_def
      session_user_def getUser_def Let_def)

theorem register_grants_admin_witness:
  "fst (register (\<lambda>p. p) \<lparr>rb_username = Some ''mallory'', rb_password = Some ''pw'', rb_isAdmin = Some (JBool True)\<rparr>
          (customer_server\<lparr>srv_session := None\<rparr>)) = (201, RUser 2 ''mallory'' (Some True))
   \<and> admin_session (snd (register (\<lambda>p. p) \<lparr>rb_username = Some ''mallory'', rb_password = Some ''pw'', rb_isAdmin = Some (JBool True)\<rparr>
          (customer_server\<lparr>srv_session := None\<rparr>)))"
proof -
  have h1: "getUserByUsername (srv_store (customer_server\<lparr>srv_session := None\<rparr>)) ''mallory'' = None"
    by (simp add: model_defs)
  have h2: "currentUserId (srv_store (customer_server\<lparr>srv_session := None\<rparr>)) = 2"
    by (simp add: model_defs)
  from register_grants_admin [OF h1, where hash = "\<lambda>p. p" and pw = "''pw''"] h2 show ?thesis by simp
qed

text \<open>
  C21. Login over a well-formed store: for a known username and non-empty credentials,
  \<open>POST /api/login\<close> answers 200 with the user (password omitted) and binds the session to
  that user exactly when the password check succeeds, and answers 401 with the state
  unchanged otherwise; the session it binds finds the same user again.
\<close>

theorem login_spec:
  assumes "storage_wf (srv_store srv)" and "getUserByUsername (srv_store srv) n = Some u"
    and "n \<noteq> []" and "p \<noteq> []"
  shows "login check (Some n) (Some p) srv =
           (if check p (password u) then ((200, public_user u), srv\<lparr>srv_session := Some (user_id u)\<rparr>)
            else ((401, RMessage ''Invalid username or password''), srv))
    \<and> session_user (srv\<lparr>srv_session := Some (user_id u)\<rparr>) = Some u"
  using login_found [OF assms(2-4)] getUserByUsername_getUser [OF assms(1,2)]
  by (simp add: session_user_def)

theorem login_spec_witness:
  "login (\<lambda>p h. p = h) (Some ''alice'') (Some ''h'') customer_server
     = ((200, RUser 1 ''alice'' (Some False)), customer_server)
   \<and> fst (fst (login (\<lambda>p h. p = h) (Some ''alice'') (Some ''x'') customer_server)) = 401"
proof -
  have h1: "storage_wf (srv_store customer_server)"
    by (simp add: customer_server_def createUser_wf)
  have h2: "getUserByUsername (srv_store customer_server) ''alice''
      = Some \<lparr>user_id = 1, username = ''alice'', password = ''h'', user_isAdmin = Some False\<rparr>"
    by (simp add: model_defs)
  have h3: "customer_server\<lparr>srv_session := Some 1\<rparr> = customer_server" by (simp add: customer_server_def)
  from login_spec [OF h1 h2, where p = "''h''" and check = "\<lambda>p h. p = h"]
       login_spec [OF h1 h2, where p = "''x''" and check = "\<lambda>p h. p = h"] h3
  show ?thesis by (simp add: public_user_def)
qed

end
