(* ===== verification/Routes.thy ===== *)
theory Routes
  imports Auth
begin

text \<open>
  The route handlers of \<open>src/server/routes.ts\<close> over the server state of \<open>Auth\<close>. Each
  handler is the body after its middleware; \<open>handle\<close> runs the middleware
  (\<open>isAuthenticated\<close>: 401, \<open>isAdmin\<close>: 403) and dispatches a \<open>request\<close>, the route with
  its parameters and body. \<open>Date.now()\<close> of the store is the argument \<open>now\<close>. No handler
  throws over \<open>MemStorage\<close>, so the 500 branches of the \<open>catch\<close> blocks are unreachable.
\<close>

subsection \<open>Product routes\<close>

definition get_product :: "string \<Rightarrow> mem_storage \<Rightarrow> response" where
  "get_product pid s =
     (case js_parse_int pid of
        None \<Rightarrow> (400, RMessage ''Invalid product ID'')
      | Some i \<Rightarrow> (case getProduct s i of
                    None \<Rightarrow> (404, RMessage ''Product not found'')
                  | Some p \<Rightarrow> (200, RProduct p)))"

definition post_product :: "json \<Rightarrow> nat \<Rightarrow> mem_storage \<Rightarrow> response \<times> mem_storage" where
  "post_product body now s =
     (case parse_insert_product body of
        None \<Rightarrow> ((400, RMessage ''Invalid product data''), s)
      | Some ip \<Rightarrow> (let (p, s') = createProduct ip now s in ((201, RProduct p), s')))"

subsection \<open>Order routes\<close>

text \<open>The loop over \<open>req.body.items\<close>: each item is parsed and stored in turn; the first
  item that fails to parse throws, leaving the items before it stored.\<close>

fun create_items :: "int \<Rightarrow> nat \<Rightarrow> json list \<Rightarrow> mem_storage \<Rightarrow> bool \<times> mem_storage" where
  "create_items oid now [] s = (True, s)"
| "create_items oid now (it # its) s =
     (case parse_insert_order_item it oid of
        None \<Rightarrow> (False, s)
      | Some ii \<Rightarrow> create_items oid now its (snd (createOrderItem ii now s)))"

definition post_order :: "user \<Rightarrow> json \<Rightarrow> nat \<Rightarrow> mem_storage \<Rightarrow> response \<times> mem_storage" where
  "post_order u body now s =
     (case parse_insert_order body (user_id u) of
        None \<Rightarrow> ((400, RMessage ''Invalid order data''), s)
      | Some io \<Rightarrow>
          (let (od, s1) = createOrder io now s in
           case obj_get body ''items'' of
             Some (JArr its) \<Rightarrow>
               (let (ok, s2) = create_items (order_id od) now its s1 in
                if ok then ((201, ROrder od), s2) else ((400, RMessage ''Invalid order data''), s2))
           | _ \<Rightarrow> ((201, ROrder od), s1)))"

definition get_my_orders :: "user \<Rightarrow> mem_storage \<Rightarrow> response" where
  "get_my_orders u s =
     (if user_id u = 0 then (400, RMessage ''User ID not found'')
      else (200, ROrders (getOrdersByUserId s (user_id u))))"

definition get_admin_order :: "string \<Rightarrow> mem_storage \<Rightarrow> response" where
  "get_admin_order oid s =
     (case js_parse_int oid of
        None \<Rightarrow> (400, RMessage ''Invalid order ID'')
      | Some i \<Rightarrow> (case getOrderById s i of
                    None \<Rightarrow> (404, RMessage ''Order not found'')
                  | Some od \<Rightarrow> (200, ROrderDetail od (getOrderItems s (order_id od)))))"

definition patch_order_status :: "string \<Rightarrow> json \<Rightarrow> mem_storage \<Rightarrow> response \<times> mem_storage" where
  "patch_order_status oid body s =
     (case js_parse_int oid of
        None \<Rightarrow> ((400, RMessage ''Invalid order ID''), s)
      | Some i \<Rightarrow>
          (case obj_get body ''status'' of
             Some (JStr st) \<Rightarrow>
               if st = [] then ((400, RMessage ''Status is required''), s)
               else (case updateOrderStatus i st s of
                       (None, s') \<Rightarrow> ((404, RMessage ''Order not found''), s')
                     | (Some od, s') \<Rightarrow> ((200, ROrder od), s'))
           | _ \<Rightarrow> ((400, RMessage ''Status is required''), s)))"

subsection \<open>Dispatch\<close>

datatype request =
    GetProducts
  | GetProductsByCategory string
  | GetProduct string
  | PostProduct json
  | PostOrder json
  | GetMyOrders
  | GetAdminOrders
  | GetAdminOrder string
  | PatchOrderStatus string json
  | Register reg_body
  | Login "string option" "string option"
  | Logout
  | GetUser

definition on_store :: "(mem_storage \<Rightarrow> response \<times> mem_storage) \<Rightarrow> server \<Rightarrow> response \<times> server" where
  "on_store f srv = (let (r, s') = f (srv_store srv) in (r, srv\<lparr>srv_store := s'\<rparr>))"

definition authenticated :: "(user \<Rightarrow> server \<Rightarrow> response \<times> server) \<Rightarrow> server \<Rightarrow> response \<times> server" where
  "authenticated f srv = (case session_user srv of
      Some u \<Rightarrow> f u srv
    | None \<Rightarrow> ((401, RMessage ''You must be logged in''), srv))"

definition admin_only :: "(server \<Rightarrow> response \<times> server) \<Rightarrow> server \<Rightarrow> response \<times> server" where
  "admin_only f srv = (if admin_session srv then f srv else ((403, RMessage ''Admin access required''), srv))"

fun handle :: "(string \<Rightarrow> string) \<Rightarrow> (string \<Rightarrow> string \<Rightarrow> bool) \<Rightarrow> nat \<Rightarrow> server \<Rightarrow> request \<Rightarrow> response \<times> server" where
  "handle hash check now srv GetProducts = ((200, RProducts (getProducts (srv_store srv))), srv)"
| "handle hash check now srv (GetProductsByCategory c) =
     ((200, RProducts (getProductsByCategory (srv_store srv) c)), srv)"
| "handle hash check now srv (GetProduct pid) = (get_product pid (srv_store srv), srv)"
| "handle hash check now srv (PostProduct b) = on_store (post_product b now) srv"
| "handle hash check now srv (PostOrder b) = authenticated (\<lambda>u. on_store (post_order u b now)) srv"
| "handle hash check now srv GetMyOrders = authenticated (\<lambda>u srv. (get_my_orders u (srv_store srv), srv)) srv"
| "handle hash check now srv GetAdminOrders = admin_only (\<lambda>srv. ((200, ROrders (getOrders (srv_store srv))), srv)) srv"
| "handle hash check now srv (GetAdminOrder oid) = admin_only (\<lambda>srv. (get_admin_order oid (srv_store srv), srv)) srv"
| "handle hash check now srv (PatchOrderStatus oid b) = admin_only (on_store (patch_order_status oid b)) srv"
| "handle hash check now srv (Register rb) = register hash rb srv"
| "handle hash check now srv (Login un pw) = login check un pw srv"
| "handle hash check now srv Logout = logout srv"
| "handle hash check now srv GetUser = (get_user srv, srv)"

text \<open>A sequence of requests, each with the clock reading at which it arrives.\<close>

fun serve :: "(string \<Rightarrow> string) \<Rightarrow> (string \<Rightarrow> string \<Rightarrow> bool) \<Rightarrow> server \<Rightarrow> (nat \<times> request) list \<Rightarrow> response list \<times> server" where
  "serve hash check srv [] = ([], srv)"
| "serve hash check srv ((now, rq) # rqs) =
     (let (r, srv') = handle hash check now srv rq; (rs, srv'') = serve hash check srv' rqs in (r # rs, srv''))"

subsection \<open>Examples\<close>

text \<open>An order body as the checkout page posts it, with the given items, and one item.\<close>

definition order_body :: "json list \<Rightarrow> json" where
  "order_body its =
     JObj [(''totalAmount'', JStr ''30.99''), (''customerName'', JStr ''Ada Lovelace''),
           (''customerEmail'', JStr ''ada@example.com''),
           (''shippingAddress'', JStr ''1 Main St, Springfield, IL 62701''),
           (''paymentMethod'', JStr ''cash''), (''items'', JArr its)]"

definition item_body :: "int \<Rightarrow> json" where
  "item_body q =
     JObj [(''productId'', JNum (Num 3)), (''productName'', JStr ''Smartwatch X1''),
           (''quantity'', JNum (Num (of_int q))), (''price'', JStr ''25.00''), (''supplierId'', JNum (Num 1))]"

text \<open>A store with an administrator, who is logged in, and one order.\<close>

definition admin_server :: server where
  "admin_server =
     \<lparr>srv_store = snd (createOrder example_insert_order 5
        (snd (createUser \<lparr>iu_username = ''admin'', iu_password = ''h'', iu_isAdmin = Some True\<rparr> emptyStorage))),
      srv_session = Some 1\<rparr>"

text \<open>A stored order item without its id and timestamp: what the order route writes.\<close>

definition item_row :: "order_item \<Rightarrow> int \<times> int \<times> string \<times> int \<times> string \<times> int option" where
  "item_row i = (oi_orderId i, oi_productId i, oi_productName i, oi_quantity i, oi_price i, oi_supplierId i)"

declare get_product_def [model_defs] post_product_def [model_defs] post_order_def [model_defs]
  get_my_orders_def [model_defs] get_admin_order_def [model_defs] patch_order_status_def [model_defs]
  on_store_def [model_defs] authenticated_def [model_defs] admin_only_def [model_defs]
  order_body_def [model_defs] item_body_def [model_defs] admin_server_def [model_defs]

subsection \<open>Lemmas on the order handler\<close>

lemma create_items_keeps [simp]:
  "ordersData (snd (create_items oid now its s)) = ordersData s"
  "users (snd (create_items oid now its s)) = users s"
  "currentOrderId (snd (create_items oid now its s)) = currentOrderId s"
  by (induction its arbitrary: s) (auto simp: createOrderItem_def Let_def split: option.splits)

lemma create_items_pair:
  "create_items oid now its s = (ok, s2) \<Longrightarrow> ordersData s2 = ordersData s \<and> users s2 = users s"
  by (metis create_items_keeps(1,2) snd_conv)

lemma create_items_fails:
  "list_ex (\<lambda>it. parse_insert_order_item it oid = None) its \<Longrightarrow> fst (create_items oid now its s) = False"
  by (induction its arbitrary: s) (auto split: option.splits)

lemma parse_insert_order_userId:
  "parse_insert_order b uid = Some io \<Longrightarrow> io_userId io = uid"
  by (auto simp: parse_insert_order_def Let_def z_int_def split: option.splits if_splits)

lemma post_order_created:
  assumes "post_order u b now s = ((201, ROrder od), s')"
  shows "\<exists>io. parse_insert_order b (user_id u) = Some io \<and> od = fst (createOrder io now s)
           \<and> ordersData s' = ordersData (snd (createOrder io now s))
           \<and> users s' = users s"
proof -
  obtain io where io: "parse_insert_order b (user_id u) = Some io"
    using assms by (auto simp: post_order_def split: option.splits)
  obtain od1 s1 where co: "createOrder io now s = (od1, s1)" by (cases "createOrder io now s")
  have "users s1 = users s" using co by (auto simp: createOrder_def Let_def)
  moreover have "od = od1 \<and> ordersData s' = ordersData s1 \<and> users s' = users s1"
    using assms io co by (auto simp: post_order_def dest: create_items_pair
        split: json.splits option.splits prod.splits if_splits)
  ultimately show ?thesis using io co by simp
qed

subsection \<open>A rejected request changes nothing, per handler\<close>

lemma post_product_rejected:
  "400 \<le> fst (fst (post_product b now s)) \<Longrightarrow> snd (post_product b now s) = s"
  by (auto simp: post_product_def split: option.splits prod.splits)

lemma patch_order_status_rejected:
  "400 \<le> fst (fst (patch_order_status oid b s)) \<Longrightarrow> snd (patch_order_status oid b s) = s"
  by (auto simp: patch_order_status_def updateOrderStatus_def Let_def
      split: option.splits json.splits prod.splits if_splits)

lemma on_store_rejected:
  "(400 \<le> fst (fst (f (srv_store srv))) \<Longrightarrow> snd (f (srv_store srv)) = srv_store srv) \<Longrightarrow>
   400 \<le> fst (fst (on_store f srv)) \<Longrightarrow> snd (on_store f srv) = srv"
  by (auto simp: on_store_def split: prod.splits)

subsection \<open>The status route and the item loop on their success paths\<close>

lemma handle_patch_ok:
  assumes "admin_session srv" and "js_parse_int p = Some i"
    and "obj_get b ''status'' = Some (JStr st)" and "st \<noteq> []"
    and "getOrderById (srv_store srv) i = Some od"
  shows "handle hash check now srv (PatchOrderStatus p b)
           = ((200, ROrder (od\<lparr>status := st\<rparr>)), srv\<lparr>srv_store := snd (updateOrderStatus i st (srv_store srv))\<rparr>)"
  using assms by (simp add: admin_only_def on_store_def patch_order_status_def updateOrderStatus_def
      getOrderById_def Let_def)

lemma item_row_createOrderItem:
  "item_row (fst (createOrderItem ii now s)) = item_row (fst (createOrderItem ii now s'))"
  by (simp add: item_row_def createOrderItem_def Let_def)

lemma createOrderItem_table_wf:
  "table_wf oi_id (currentOrderItemId s) (orderItemsData s) \<Longrightarrow>
   table_wf oi_id (currentOrderItemId (snd (createOrderItem ii now s))) (orderItemsData (snd (createOrderItem ii now s)))"
  by (simp add: createOrderItem_def Let_def table_wf_insert)

text \<open>When every item parses, the loop stores one row per item, appended in order.\<close>

lemma create_items_rows:
  assumes "table_wf oi_id (currentOrderItemId s) (orderItemsData s)"
    and "list_all (\<lambda>it. parse_insert_order_item it oid \<noteq> None) its"
  shows "fst (create_items oid now its s) \<and>
    map item_row (map snd (orderItemsData (snd (create_items oid now its s)))) =
    map item_row (map snd (orderItemsData s))
      @ map (\<lambda>it. item_row (fst (createOrderItem (the (parse_insert_order_item it oid)) now s))) its"
  using assms
proof (induction its arbitrary: s)
  case (Cons it its)
  obtain ii where ii: "parse_insert_order_item it oid = Some ii" using Cons.prems(2) by auto
  let ?s1 = "snd (createOrderItem ii now s)"
  have wf1: "table_wf oi_id (currentOrderItemId ?s1) (orderItemsData ?s1)"
    using Cons.prems(1) by (rule createOrderItem_table_wf)
  have fresh: "currentOrderItemId s \<notin> fst ` set (orderItemsData s)"
    using Cons.prems(1) by (rule table_wf_fresh)
  have "map snd (orderItemsData ?s1) = map snd (orderItemsData s) @ [fst (createOrderItem ii now s)]"
    using fresh by (simp add: createOrderItem_def Let_def map_snd_update_new)
  with Cons.IH [OF wf1] Cons.prems(2) ii show ?case
    by (simp add: item_row_createOrderItem [of _ now ?s1 s])
qed simp

subsection \<open>Properties of the API\<close>

text \<open>
  C14. The admin routes are closed to everyone but administrators: when the session is
  not an admin session (no session, an unknown user, or a user whose \<open>isAdmin\<close> is not
  true), \<open>GET /api/admin/orders\<close>, \<open>GET /api/admin/orders/:id\<close> and
  \<open>PATCH /api/admin/orders/:id/status\<close> answer 403 and change nothing.
\<close>

theorem admin_routes_require_admin:
  assumes "\<not> admin_session srv"
  shows "handle hash check now srv GetAdminOrders = ((403, RMessage ''Admin access required''), srv)
    \<and> handle hash check now srv (GetAdminOrder oid) = ((403, RMessage ''Admin access required''), srv)
    \<and> handle hash check now srv (PatchOrderStatus oid b) = ((403, RMessage ''Admin access required''), srv)"
  using assms by (simp add: admin_only_def)

theorem admin_routes_require_admin_witness:
  "\<not> admin_session customer_server \<and>
   handle (\<lambda>p. p) (\<lambda>p h. False) 0 customer_server (PatchOrderStatus ''1'' (JObj [(''status'', JStr ''shipped'')]))
     = ((403, RMessage ''Admin access required''), customer_server)"
proof -
  have h: "\<not> admin_session customer_server" by (simp add: model_defs)
  from admin_routes_require_admin [OF h] h show ?thesis by simp
qed

text \<open>
  C15. Placing an order and listing one's orders need a login: without an authenticated
  session, \<open>POST /api/orders\<close> and \<open>GET /api/orders/my-orders\<close> answer 401 and change
  nothing.
\<close>

theorem order_routes_require_login:
  assumes "session_user srv = None"
  shows "handle hash check now srv (PostOrder b) = ((401, RMessage ''You must be logged in''), srv)
    \<and> handle hash check now srv GetMyOrders = ((401, RMessage ''You must be logged in''), srv)"
  using assms by (simp add: authenticated_def)

theorem order_routes_require_login_witness:
  "handle (\<lambda>p. p) (\<lambda>p h. False) 0 (customer_server\<lparr>srv_session := None\<rparr>) (PostOrder (order_body [item_body 1]))
     = ((401, RMessage ''You must be logged in''), customer_server\<lparr>srv_session := None\<rparr>)"
proof -
  have h: "session_user (customer_server\<lparr>srv_session := None\<rparr>) = None" by (simp add: model_defs)
  from order_routes_require_login [OF h] show ?thesis by simp
qed

text \<open>
  C16. An order is always filed under the logged-in user: when \<open>POST /api/orders\<close>
  answers 201 with an order, that order's \<open>userId\<close> is the session user's id, whatever
  \<open>userId\<close> the body carried; the order is stored under its id, and the session is kept.
\<close>

theorem post_order_owner:
  assumes "session_user srv = Some u"
    and "handle hash check now srv (PostOrder b) = ((201, ROrder od), srv')"
  shows "order_userId od = user_id u \<and> getOrderById (srv_store srv') (order_id od) = Some od
    \<and> session_user srv' = Some u"
proof -
  obtain s' where po: "post_order u b now (srv_store srv) = ((201, ROrder od), s')"
    and srv': "srv' = srv\<lparr>srv_store := s'\<rparr>"
    using assms by (auto simp: authenticated_def on_store_def split: prod.splits)
  from post_order_created [OF po] obtain io where
    io: "parse_insert_order b (user_id u) = Some io" "od = fst (createOrder io now (srv_store srv))"
    and st: "ordersData s' = ordersData (snd (createOrder io now (srv_store srv)))"
      "users s' = users (srv_store srv)"
    by blast
  show ?thesis
    using io st assms(1) parse_insert_order_userId [OF io(1)]
    by (simp add: srv' session_user_store getOrderById_def createOrder_def Let_def)
qed

theorem post_order_owner_witness:
  "handle (\<lambda>p. p) (\<lambda>p h. False) 7 customer_server
      (PostOrder (JObj ((''userId'', JNum (Num 99)) # obj_fields (order_body [item_body 2]))))
     = ((201, ROrder \<lparr>order_id = 1, order_userId = 1, totalAmount = ''30.99'', customerName = ''Ada Lovelace'',
           customerEmail = ''ada@example.com'', shippingAddress = ''1 Main St, Springfield, IL 62701'',
           order_paymentMethod = ''cash'', status = ''pending'', order_createdAt = 7\<rparr>),
        snd (handle (\<lambda>p. p) (\<lambda>p h. False) 7 customer_server
          (PostOrder (JObj ((''userId'', JNum (Num 99)) # obj_fields (order_body [item_body 2]))))))
   \<and> session_user (snd (handle (\<lambda>p. p) (\<lambda>p h. False) 7 customer_server
          (PostOrder (JObj ((''userId'', JNum (Num 99)) # obj_fields (order_body [item_body 2]))))))
     = session_user customer_server"
proof -
  have h1: "session_user customer_server
      = Some \<lparr>user_id = 1, username = ''alice'', password = ''h'', user_isAdmin = Some False\<rparr>"
    by (simp add: model_defs)
  have h2: "handle (\<lambda>p. p) (\<lambda>p h. False) 7 customer_server
      (PostOrder (JObj ((''userId'', JNum (Num 99)) # obj_fields (order_body [item_body 2]))))
     = ((201, ROrder \<lparr>order_id = 1, order_userId = 1, totalAmount = ''30.99'', customerName = ''Ada Lovelace'',
           customerEmail = ''ada@example.com'', shippingAddress = ''1 Main St, Springfield, IL 62701'',
           order_paymentMethod = ''cash'', status = ''pending'', order_createdAt = 7\<rparr>),
        snd (handle (\<lambda>p. p) (\<lambda>p h. False) 7 customer_server
          (PostOrder (JObj ((''userId'', JNum (Num 99)) # obj_fields (order_body [item_body 2]))))))"
    by (simp add: model_defs)
  from post_order_owner [OF h1 h2] h1 h2 show ?thesis by simp
qed

text \<open>
  C17. Order creation is not atomic: when the order fields are valid but one of the
  \<open>items\<close> fails \<open>insertOrderItemSchema\<close>, \<open>POST /api/orders\<close> answers 400
  \<open>Invalid order data\<close>, yet the order it created before the item loop stays in the store
  (with every item before the failing one).
\<close>

theorem post_order_not_atomic:
  assumes "session_user srv = Some u"
    and "parse_insert_order b (user_id u) = Some io"
    and "obj_get b ''items'' = Some (JArr its)"
    and "list_ex (\<lambda>it. parse_insert_order_item it (currentOrderId (srv_store srv)) = None) its"
  shows "fst (handle hash check now srv (PostOrder b)) = (400, RMessage ''Invalid order data'')
    \<and> getOrderById (srv_store (snd (handle hash check now srv (PostOrder b)))) (currentOrderId (srv_store srv))
          = Some (fst (createOrder io now (srv_store srv)))"
proof -
  obtain od s1 where co: "createOrder io now (srv_store srv) = (od, s1)"
    by (cases "createOrder io now (srv_store srv)")
  have oid: "order_id od = currentOrderId (srv_store srv)"
    and st: "map_of (ordersData s1) (currentOrderId (srv_store srv)) = Some od"
    using co by (auto simp: createOrder_def Let_def)
  obtain ok s2 where ci: "create_items (order_id od) now its s1 = (ok, s2)"
    by (cases "create_items (order_id od) now its s1")
  have "ok = False" using create_items_fails [OF assms(4), of now s1] ci oid by simp
  moreover have "ordersData s2 = ordersData s1" using create_items_pair [OF ci] by simp
  ultimately show ?thesis
    using assms(1-3) co ci st
    by (simp add: authenticated_def on_store_def post_order_def getOrderById_def)
qed

theorem post_order_not_atomic_witness:
  "fst (handle (\<lambda>p. p) (\<lambda>p h. False) 7 customer_server (PostOrder (order_body [item_body 2, JObj []])))
     = (400, RMessage ''Invalid order data'')
   \<and> getOrderById (srv_store (snd (handle (\<lambda>p. p) (\<lambda>p h. False) 7 customer_server
        (PostOrder (order_body [item_body 2, JObj []]))))) 1 \<noteq> None"
proof -
  have h1: "session_user customer_server
      = Some \<lparr>user_id = 1, username = ''alice'', password = ''h'', user_isAdmin = Some False\<rparr>"
    by (simp add: model_defs)
  have h2: "parse_insert_order (order_body [item_body 2, JObj []])
        (user_id \<lparr>user_id = 1, username = ''alice'', password = ''h'', user_isAdmin = Some False\<rparr>)
      = Some \<lparr>io_userId = 1, io_totalAmount = ''30.99'', io_customerName = ''Ada Lovelace'',
           io_customerEmail = ''ada@example.com'', io_shippingAddress = ''1 Main St, Springfield, IL 62701'',
           io_paymentMethod = ''cash'', io_status = None\<rparr>"
    by (simp add: model_defs)
  have h3: "obj_get (order_body [item_body 2, JObj []]) ''items'' = Some (JArr [item_body 2, JObj []])"
    by (simp add: model_defs)
  have h4: "list_ex (\<lambda>it. parse_insert_order_item it (currentOrderId (srv_store customer_server)) = None)
      [item_body 2, JObj []]"
    by (simp add: model_defs)
  have h5: "currentOrderId (srv_store customer_server) = 1" by (simp add: model_defs)
  from post_order_not_atomic [OF h1 h2 h3 h4, where hash = "\<lambda>p. p" and check = "\<lambda>p h. False" and now = 7] h5
  show ?thesis by simp
qed

text \<open>
  C18. The server accepts any status: for an admin, a numeric order id that exists, and a
  non-empty string \<open>status\<close>, \<open>PATCH /api/admin/orders/:id/status\<close> answers 200 with the
  order carrying that status and stores it, whether or not the string is one of
  \<open>ORDER_STATUSES\<close>; the \<open>as OrderStatus\<close> cast checks nothing.
\<close>

theorem patch_status_any_string:
  assumes "admin_session srv" and "js_parse_int oid = Some i"
    and "obj_get b ''status'' = Some (JStr st)" and "st \<noteq> []"
    and "getOrderById (srv_store srv) i = Some od"
  shows "handle hash check now srv (PatchOrderStatus oid b)
           = ((200, ROrder (od\<lparr>status := st\<rparr>)), srv\<lparr>srv_store := snd (updateOrderStatus i st (srv_store srv))\<rparr>)
    \<and> getOrderById (snd (updateOrderStatus i st (srv_store srv))) i = Some (od\<lparr>status := st\<rparr>)"
  using handle_patch_ok [OF assms] assms(5)
  by (simp add: updateOrderStatus_def getOrderById_def Let_def)

theorem patch_status_any_string_witness:
  "fst (handle (\<lambda>p. p) (\<lambda>p h. False) 9 admin_server
        (PatchOrderStatus ''1'' (JObj [(''status'', JStr ''teleported'')])))
     = (200, ROrder ((the (getOrderById (srv_store admin_server) 1))\<lparr>status := ''teleported''\<rparr>))
   \<and> ''teleported'' \<notin> set ORDER_STATUSES"
proof -
  have h1: "admin_session admin_server" by (simp add: model_defs)
  have h2: "js_parse_int ''1'' = Some 1" by (simp add: model_defs parse_float_evals)
  have h3: "obj_get (JObj [(''status'', JStr ''teleported'')]) ''status'' = Some (JStr ''teleported'')" by simp
  have h4: "''teleported'' \<noteq> []" by simp
  have h5: "getOrderById (srv_store admin_server) 1 = Some (the (getOrderById (srv_store admin_server) 1))"
    by (simp add: model_defs)
  from patch_status_any_string [OF h1 h2 h3 h4 h5, where hash = "\<lambda>p. p" and check = "\<lambda>p h. False" and now = 9]
  show ?thesis by (simp add: ORDER_STATUSES_def)
qed

text \<open>
  C19. Every rejection other than that of \<open>POST /api/orders\<close> is free of effects: a
  request to any other route that is answered with a 4xx code leaves the store and the
  session as they were. (C17 shows that the order route breaks this.)
\<close>

theorem rejected_requests_no_effect:
  assumes "\<forall>b. rq \<noteq> PostOrder b"
    and "400 \<le> fst (fst (handle hash check now srv rq))"
  shows "snd (handle hash check now srv rq) = srv"
  using assms
  by (cases rq) (auto simp: admin_only_def authenticated_def logout_def split: if_splits option.splits
      intro: on_store_rejected post_product_rejected patch_order_status_rejected
        register_rejected login_rejected)

theorem rejected_requests_no_effect_witness:
  "fst (handle (\<lambda>p. p) (\<lambda>p h. False) 9 admin_server (PatchOrderStatus ''1'' (JObj [(''status'', JNull)])))
     = (400, RMessage ''Status is required'')
   \<and> snd (handle (\<lambda>p. p) (\<lambda>p h. False) 9 admin_server (PatchOrderStatus ''1'' (JObj [(''status'', JNull)])))
     = admin_server"
proof -
  have h1: "\<forall>b. PatchOrderStatus ''1'' (JObj [(''status'', JNull)]) \<noteq> PostOrder b" by simp
  have h2: "fst (handle (\<lambda>p. p) (\<lambda>p h. False) 9 admin_server
        (PatchOrderStatus ''1'' (JObj [(''status'', JNull)]))) = (400, RMessage ''Status is required'')"
    by (simp add: model_defs parse_float_evals)
  from rejected_requests_no_effect [OF h1] h2 show ?thesis by simp
qed

text \<open>
  C22. Route ids round-trip: the client writes an order id into the URL with
  \<open>`${id}`\<close> (\<open>Number::toString\<close>) and the route reads it back with \<open>parseInt\<close>; for
  every positive id below \<open>10^21\<close> (where \<open>toString\<close> switches to exponent notation)
  \<open>GET /api/admin/orders/:id\<close> looks up exactly that id, answering 200 with the order and
  its items, or 404.
\<close>

theorem admin_order_route_id_roundtrip:
  assumes "0 < oid" and "oid < 10 ^ 21"
  shows "get_admin_order (js_to_string (Num (of_int oid))) s =
           (case getOrderById s oid of
              None \<Rightarrow> (404, RMessage ''Order not found'')
            | Some od \<Rightarrow> (200, ROrderDetail od (getOrderItems s (order_id od))))"
  using js_parse_int_print [OF assms] by (simp add: get_admin_order_def del: js_to_string.simps)

theorem admin_order_route_id_roundtrip_witness:
  "get_admin_order (js_to_string (Num (of_int 1))) (srv_store admin_server)
     = (200, ROrderDetail (the (getOrderById (srv_store admin_server) 1)) [])"
proof -
  have h1: "0 < (1::int)" and h2: "(1::int) < 10 ^ 21" by simp_all
  from admin_order_route_id_roundtrip [OF h1 h2, of "srv_store admin_server"]
  show ?thesis by (simp add: model_defs)
qed

end
