(* ===== verification/JsString.thy ===== *)
theory JsString
  imports JsNumber "HOL-Library.Sublist"
begin

text \<open>
  The string methods of the JavaScript runtime that the client code calls:
  \<open>String.prototype.toLowerCase\<close> and \<open>toUpperCase\<close> on ASCII letters (\<open>js_lower\<close>,
  \<open>js_upper_char\<close>; the storefront's data is ASCII) and \<open>String.prototype.includes\<close>
  (\<open>js_includes\<close>), a scan for the needle at each position of the haystack.
  The lemmas relate \<open>js_includes\<close> to the library's \<open>sublist\<close>, show that lowercasing is
  idempotent, and that lowercasing a needle does not change whether it occurs in a
  haystack without ASCII letters.
\<close>

definition js_lower_char :: "char \<Rightarrow> char" where
  "js_lower_char c = (if 65 \<le> char_code c \<and> char_code c \<le> 90 then char_of (char_code c + 32) else c)"

definition js_lower :: "string \<Rightarrow> string" where
  "js_lower s = map js_lower_char s"

text \<open>\<open>String.prototype.toUpperCase\<close> on one ASCII character.\<close>

definition js_upper_char :: "char \<Rightarrow> char" where
  "js_upper_char c = (if 97 \<le> char_code c \<and> char_code c \<le> 122 then char_of (char_code c - 32) else c)"

text \<open>\<open>haystack.includes(needle)\<close>: the needle occurs at some position of the haystack.\<close>

fun js_includes :: "string \<Rightarrow> string \<Rightarrow> bool" where
  "js_includes [] n = (n = [])"
| "js_includes (c # h) n = (take (length n) (c # h) = n \<or> js_includes h n)"

lemma prefix_take_iff: "take (length n) h = n \<longleftrightarrow> prefix n h"
proof
  assume "take (length n) h = n"
  then have "h = n @ drop (length n) h" by (metis append_take_drop_id)
  then show "prefix n h" by (rule prefixI)
next
  assume "prefix n h"
  then obtain zs where "h = n @ zs" by (auto simp: prefix_def)
  then show "take (length n) h = n" by simp
qed

lemma js_includes_sublist: "js_includes h n \<longleftrightarrow> sublist n h"
  by (induction h) (simp_all add: prefix_take_iff sublist_Cons_right)

lemma js_includes_Nil [simp]: "js_includes h []"
  by (simp add: js_includes_sublist)

lemma js_lower_char_idem [simp]: "js_lower_char (js_lower_char c) = js_lower_char c"
proof (cases "65 \<le> char_code c \<and> char_code c \<le> 90")
  case True
  then have "char_code (char_of (char_code c + 32)) = char_code c + 32"
    by (simp add: char_code_def of_char_of)
  with True show ?thesis by (simp add: js_lower_char_def)
next
  case False
  then have "js_lower_char c = c" by (auto simp: js_lower_char_def)
  then show ?thesis by simp
qed

lemma js_lower_idem [simp]: "js_lower (js_lower s) = js_lower s"
  by (simp add: js_lower_def comp_def)

lemma js_lower_Nil [simp]: "js_lower s = [] \<longleftrightarrow> s = []"
  by (simp add: js_lower_def)

lemma js_lower_append [simp]: "js_lower (s @ t) = js_lower s @ js_lower t"
  by (simp add: js_lower_def)

text \<open>A character outside the code range of the ASCII letters (65 to 122).\<close>

definition non_letter :: "char \<Rightarrow> bool" where
  "non_letter c \<longleftrightarrow> \<not> (65 \<le> char_code c \<and> char_code c \<le> 122)"

lemma js_lower_char_eq_non_letter:
  assumes "non_letter c"
  shows "js_lower_char x = c \<longleftrightarrow> x = c"
proof (cases "65 \<le> char_code x \<and> char_code x \<le> 90")
  case True
  then have "char_code (js_lower_char x) = char_code x + 32"
    by (simp add: js_lower_char_def char_code_def of_char_of)
  then have "js_lower_char x \<noteq> c" "x \<noteq> c" using True assms by (auto simp: non_letter_def)
  then show ?thesis by simp
qed (auto simp: js_lower_char_def)

lemma js_lower_of_non_letters:
  "\<forall>c\<in>set d. non_letter c \<Longrightarrow> set (js_lower t) \<subseteq> set d \<or> set t \<subseteq> set d \<Longrightarrow> js_lower t = t"
  unfolding js_lower_def
  by (rule map_idI) (use js_lower_char_eq_non_letter in fastforce)

lemma sublist_lower_non_letters:
  assumes "\<forall>c\<in>set d. non_letter c"
  shows "sublist (js_lower t) d \<longleftrightarrow> sublist t d"
  using js_lower_of_non_letters [OF assms] set_mono_sublist by metis

lemma sublist_append_left_sublist: "sublist (t @ u) d \<Longrightarrow> sublist t d"
  by (meson sublist_append_rightI sublist_order.order.trans)

end
