(* ===== verification/Admin.thy ===== *)
theory Admin
  imports JsString Http
begin

text \<open>
  The admin dashboard (\<open>src/client/src/pages/AdminDashboard.tsx\<close>). Its state is the
  react-query cache it reads and writes: the order list under \<open>['/api/admin/orders']\<close>
  and one order-detail entry per id under \<open>['/api/admin/orders/<id>']\<close>, plus the last
  toast. \<open>handleStatusChange\<close> either sends a PATCH request or nothing; the mutation's
  \<open>onSuccess\<close> and \<open>onError\<close> are functions on that state. The page guard, the
  search filter (\<open>filteredOrders\<close>) and the badge variant (\<open>getStatusVariant\<close>) are
  functions of their inputs; they use the string methods of \<open>JsString\<close>.
\<close>

subsection \<open>Page guard\<close>

datatype admin_view = Spinner | AccessDenied | Dashboard

text \<open>The early returns of the component, and the redirect of its \<open>useEffect\<close>.\<close>

definition admin_view :: "bool \<Rightarrow> user option \<Rightarrow> admin_view" where
  "admin_view authLoading u =
     (if authLoading then Spinner
      else case u of Some v \<Rightarrow> if user_isAdmin v = Some True then Dashboard else AccessDenied
                   | None \<Rightarrow> AccessDenied)"

definition redirects_home :: "bool \<Rightarrow> user option \<Rightarrow> bool" where
  "redirects_home authLoading u =
     (\<not> authLoading \<and> (case u of None \<Rightarrow> True | Some v \<Rightarrow> user_isAdmin v \<noteq> Some True))"

subsection \<open>Order list and badges\<close>

definition filteredOrders :: "order list option \<Rightarrow> string \<Rightarrow> order list" where
  "filteredOrders orders searchTerm =
     (case orders of
        None \<Rightarrow> []
      | Some os \<Rightarrow> filter (\<lambda>od. js_includes (js_lower (customerName od)) (js_lower searchTerm)
                               \<or> js_includes (js_lower (customerEmail od)) (js_lower searchTerm)
                               \<or> js_includes (js_to_string (Num (of_int (order_id od)))) searchTerm) os)"

datatype badge_variant = Default | Secondary | Destructive | Outline

definition getStatusVariant :: "string \<Rightarrow> badge_variant" where
  "getStatusVariant st =
     (let l = js_lower st in
      if l = ''pending'' then Secondary
      else if l = ''processing'' then Default
      else if l = ''shipped'' then Outline
      else if l = ''delivered'' then Default
      else if l = ''cancelled'' then Destructive
      else Secondary)"

subsection \<open>Status changes and the query cache\<close>

text \<open>A cached order detail: the order and its \<open>items\<close> field, absent when the cached
  value is an order without one.\<close>

type_synonym order_detail = "order \<times> order_item list option"

record admin_cache =
  list_cache :: "order list option"
  detail_cache :: "int \<Rightarrow> order_detail option"
  toast :: "(string \<times> string) option"

datatype admin_action = NoRequest | SendPatch int string

definition handleStatusChange :: "int \<Rightarrow> string \<Rightarrow> admin_action" where
  "handleStatusChange oid st = (if st \<in> set ORDER_STATUSES then SendPatch oid st else NoRequest)"

text \<open>\<open>onSuccess(updatedOrder, {orderId, status})\<close>: the toast, the detail entry replaced by
  the PATCH response (an order, without \<open>items\<close>), and the list entry's status updated;
  an absent list becomes \<open>[]\<close>.\<close>

definition on_status_success :: "int \<Rightarrow> string \<Rightarrow> order \<Rightarrow> admin_cache \<Rightarrow> admin_cache" where
  "on_status_success oid st updated c =
     c\<lparr>toast := Some (''Order updated'', ''Order #'' @ js_to_string (Num (of_int oid)) @ '' status changed to '' @ st @ ''.''),
       detail_cache := (detail_cache c)(oid \<mapsto> (updated, None)),
       list_cache := Some (case list_cache c of
                             Some os \<Rightarrow> map (\<lambda>od. if order_id od = oid then od\<lparr>status := st\<rparr> else od) os
                           | None \<Rightarrow> [])\<rparr>"

definition on_status_error :: "string \<Rightarrow> admin_cache \<Rightarrow> admin_cache" where
  "on_status_error msg c = c\<lparr>toast := Some (''Update failed'', msg)\<rparr>"

text \<open>The item rows the detail panel shows: \<open>items && items.length > 0\<close>, else the
  \<open>No items found for this order.\<close> text (no rows).\<close>

definition shown_items :: "order_detail \<Rightarrow> order_item list" where
  "shown_items d = (case snd d of Some its \<Rightarrow> its | None \<Rightarrow> [])"

subsection \<open>Formatting and the order detail panel\<close>

text \<open>\<open>formatCurrency\<close>: \<open>"$NaN"\<close> for \<open>undefined\<close>/\<open>null\<close> (\<open>None\<close>) and for an amount that
  parses to NaN; otherwise \<open>"$"\<close> and \<open>toFixed(2)\<close> of \<open>parseFloat\<close> of a string or of the
  number itself.\<close>

definition formatCurrency :: "price_val option \<Rightarrow> string" where
  "formatCurrency a =
     (case a of
        None \<Rightarrow> ''$NaN''
      | Some p \<Rightarrow>
          (let n = (case p of PriceStr s \<Rightarrow> parse_float s | PriceNum x \<Rightarrow> x)
           in if n = NaN then ''$NaN'' else ''$'' @ to_fixed2 n))"

text \<open>The supplier column of an item row: \<open>'N/A'\<close> for a falsy id, else the supplier's name,
  else \<open>"ID: " + id\<close>.\<close>

definition supplier_label :: "int option \<Rightarrow> string" where
  "supplier_label sid =
     (case sid of
        None \<Rightarrow> ''N/A''
      | Some i \<Rightarrow> if i = 0 then ''N/A''
                  else (case find (\<lambda>s. supplier_id s = i) SUPPLIERS of
                          Some s \<Rightarrow> supplier_name s
                        | None \<Rightarrow> ''ID: '' @ js_to_string (Num (of_int i))))"

text \<open>The line total of an item row: \<open>formatCurrency(parseFloat(item.price) * item.quantity)\<close>.\<close>

definition item_line_total :: "order_item \<Rightarrow> string" where
  "item_line_total it = formatCurrency (Some (PriceNum (js_mul (parse_float (oi_price it)) (Num (of_int (oi_quantity it))))))"

text \<open>\<open>selectedOrderId\<close> is \<open>null\<close> (\<open>None\<close>) or a number; \<open>!!selectedOrderId\<close> is false for
  \<open>null\<close> and \<open>0\<close>. The detail query is enabled for a truthy id and an admin user; its key
  is the URL \<open>/api/admin/orders/\<close> followed by the id as \<open>toString\<close> writes it.\<close>

definition order_selected :: "int option \<Rightarrow> bool" where
  "order_selected sel \<longleftrightarrow> sel \<noteq> None \<and> sel \<noteq> Some 0"

definition detail_query :: "int option \<Rightarrow> user option \<Rightarrow> string option" where
  "detail_query sel u =
     (case (sel, u) of
        (Some i, Some usr) \<Rightarrow>
          if order_selected sel \<and> user_isAdmin usr = Some True
          then Some (''/api/admin/orders/'' @ js_to_string (Num (of_int i))) else None
      | _ \<Rightarrow> None)"

definition detail_title :: "int option \<Rightarrow> string" where
  "detail_title sel =
     (case sel of
        Some i \<Rightarrow> if i \<noteq> 0 then ''Order #'' @ js_to_string (Num (of_int i)) @ '' Details'' else ''Select an order''
      | None \<Rightarrow> ''Select an order'')"

text \<open>The detail panel, by the cascade of conditions in the page: no selection, the spinner
  while loading, the error message, \<open>Order details not found.\<close>, or the order with the
  item rows of \<open>shown_items\<close>.\<close>

datatype detail_panel = SelectPrompt | DetailSpinner | DetailFailed string | DetailMissing
  | DetailOf order "order_item list"

definition detail_panel :: "int option \<Rightarrow> bool \<Rightarrow> string option \<Rightarrow> order_detail option \<Rightarrow> detail_panel" where
  "detail_panel sel loading err det =
     (if \<not> order_selected sel then SelectPrompt
      else if loading then DetailSpinner
      else case err of
             Some m \<Rightarrow> DetailFailed m
           | None \<Rightarrow> (case det of None \<Rightarrow> DetailMissing | Some d \<Rightarrow> DetailOf (fst d) (shown_items d)))"

definition example_admin_order :: order where
  "example_admin_order =
     \<lparr>order_id = 1, order_userId = 1, totalAmount = ''30.99'', customerName = ''Ada Lovelace'',
      customerEmail = ''ada@example.com'', shippingAddress = ''1 Main St'', order_paymentMethod = ''cash'',
      status = ''pending'', order_createdAt = 0\<rparr>"

subsection \<open>Properties of the dashboard\<close>

lemma status_variants:
  "map getStatusVariant ORDER_STATUSES = [Secondary, Default, Outline, Default, Destructive]"
  by (simp add: getStatusVariant_def Let_def ORDER_STATUSES_def js_lower_def js_lower_char_def char_code_def)

text \<open>The order search, read through the library: a filter, in list order, by substring
  (\<open>sublist\<close>) of the lowercased term in the lowercased name or e-mail, or of the term in
  the decimal id; without a loaded list it is empty.\<close>

lemma filteredOrders_spec:
  "filteredOrders orders t =
     (case orders of None \<Rightarrow> []
      | Some os \<Rightarrow> filter (\<lambda>od. sublist (js_lower t) (js_lower (customerName od))
                            \<or> sublist (js_lower t) (js_lower (customerEmail od))
                            \<or> sublist t (js_to_string (Num (of_int (order_id od))))) os)"
  by (simp only: filteredOrders_def js_includes_sublist)

lemma order_id_non_letters:
  assumes "0 \<le> i" and "i < 10 ^ 21"
  shows "\<forall>c\<in>set (js_to_string (Num (of_int i))). non_letter c"
proof -
  have "nat i < 10 ^ 21" using assms by (simp add: nat_less_iff)
  then have "js_to_string (Num (of_int i)) = nat_digits (nat i)"
    using js_to_string_of_nat [of "nat i"] assms(1) by simp
  moreover have "non_letter c" if "c \<in> set (nat_digits (nat i))" for c
    using nat_digits_decimal [OF that] by (simp add: is_digit_def non_letter_def)
  ultimately show ?thesis by (simp del: js_to_string.simps)
qed

lemma subseq_filter_mono: "(\<And>x. x \<in> set xs \<Longrightarrow> P x \<Longrightarrow> Q x) \<Longrightarrow> subseq (filter P xs) (filter Q xs)"
  by (induction xs) auto



text \<open>
  The status badge ignores case: a status and its lowercase form get the same
  variant, and the five statuses get secondary, default, outline, default and
  destructive.
\<close>

lemma status_variant_case_insensitive:
  "getStatusVariant (js_lower st) = getStatusVariant st
   \<and> map getStatusVariant ORDER_STATUSES = [Secondary, Default, Outline, Default, Destructive]"
proof
  show "getStatusVariant (js_lower st) = getStatusVariant st" unfolding getStatusVariant_def by simp
qed (rule status_variants)

text \<open>
  The dashboard renders only for a loaded admin user; in every other state once
  auth has loaded, the redirect effect sends the browser home, so the guard and the
  redirect agree.
\<close>

lemma admin_view_guard:
  "(admin_view loading u = Dashboard \<longleftrightarrow> \<not> loading \<and> (\<exists>v. u = Some v \<and> user_isAdmin v = Some True))
   \<and> (redirects_home loading u \<longleftrightarrow> \<not> loading \<and> admin_view loading u \<noteq> Dashboard)"
  by (auto simp: admin_view_def redirects_home_def split: option.splits)

end
