(* ===== verification/Catalog.thy ===== *)
theory Catalog
  imports Schema JsString "HOL-Library.Multiset"
begin

text \<open>
  The catalog filter hook \<open>useFilteredProducts\<close>
  (\<open>src/client/src/hooks/useFilteredProducts.ts\<close>): the products the query returned,
  filtered by the search text, the price range and the minimum rating, then sorted by the
  chosen option. \<open>Array.prototype.sort\<close> is a stable sort that reads its comparator
  through \<open>SortCompare\<close>; the model is stable insertion (\<open>js_sort\<close>), and the lemmas
  show it equal to the library's \<open>sort_key\<close> for every comparator that subtracts keys,
  which is the case the specification makes implementation-independent. For a
  comparator that is not consistent (a NaN price) the specification leaves the order to
  the implementation; the model then fixes the insertion order. \<open>localeCompare\<close> depends
  on the locale's collation and is an argument (\<open>collate\<close>).
\<close>

subsection \<open>Array.prototype.sort\<close>

text \<open>Insert \<open>x\<close> before the first element that the comparator orders after it.\<close>

fun js_insort :: "('a \<Rightarrow> 'a \<Rightarrow> jsnum) \<Rightarrow> 'a \<Rightarrow> 'a list \<Rightarrow> 'a list" where
  "js_insort cmp x [] = [x]"
| "js_insort cmp x (y # ys) = (if js_positive (cmp y x) then x # y # ys else y # js_insort cmp x ys)"

definition js_sort :: "('a \<Rightarrow> 'a \<Rightarrow> jsnum) \<Rightarrow> 'a list \<Rightarrow> 'a list" where
  "js_sort cmp xs = foldl (\<lambda>acc x. js_insort cmp x acc) [] xs"

subsection \<open>The hook\<close>

record filter_props =
  fp_category :: string
  searchQuery :: string
  minPrice :: "jsnum option"
  maxPrice :: "jsnum option"
  minRating :: "jsnum option"
  sortOption :: string

definition price_of :: "product \<Rightarrow> jsnum" where
  "price_of p = parse_float (product_price p)"

definition rating_of :: "product \<Rightarrow> jsnum" where
  "rating_of p = parse_float (rating p)"

text \<open>The comparator of each sort option; \<open>None\<close> for \<open>featured\<close> and unknown options.\<close>

definition sort_comparator :: "(string \<Rightarrow> string \<Rightarrow> int) \<Rightarrow> string \<Rightarrow> (product \<Rightarrow> product \<Rightarrow> jsnum) option" where
  "sort_comparator collate opt =
     (if opt = ''price-asc'' then Some (\<lambda>a b. js_sub (price_of a) (price_of b))
      else if opt = ''price-desc'' then Some (\<lambda>a b. js_sub (price_of b) (price_of a))
      else if opt = ''name-asc'' then Some (\<lambda>a b. Num (of_int (collate (product_name a) (product_name b))))
      else if opt = ''name-desc'' then Some (\<lambda>a b. Num (of_int (collate (product_name b) (product_name a))))
      else if opt = ''rating-desc'' then Some (\<lambda>a b. js_sub (rating_of b) (rating_of a))
      else None)"

definition search_filter :: "string \<Rightarrow> product list \<Rightarrow> product list" where
  "search_filter q ps =
     (if q = [] then ps
      else filter (\<lambda>p. js_includes (js_lower (product_name p)) (js_lower q)
                      \<or> js_includes (js_lower (description p)) (js_lower q)) ps)"

definition bound_filter :: "jsnum option \<Rightarrow> (jsnum \<Rightarrow> jsnum \<Rightarrow> bool) \<Rightarrow> (product \<Rightarrow> jsnum) \<Rightarrow> product list \<Rightarrow> product list" where
  "bound_filter b rel f ps = (case b of None \<Rightarrow> ps | Some v \<Rightarrow> filter (\<lambda>p. rel (f p) v) ps)"

definition filteredProducts :: "(string \<Rightarrow> string \<Rightarrow> int) \<Rightarrow> filter_props \<Rightarrow> product list option \<Rightarrow> product list" where
  "filteredProducts collate fp data =
     (let products = (case data of Some ps \<Rightarrow> ps | None \<Rightarrow> []) in
      if products = [] then []
      else
        (let r1 = search_filter (searchQuery fp) products;
             r2 = bound_filter (minPrice fp) (\<lambda>x v. js_le v x) price_of r1;
             r3 = bound_filter (maxPrice fp) js_le price_of r2;
             r4 = bound_filter (minRating fp) (\<lambda>x v. js_le v x) rating_of r3
         in case sort_comparator collate (sortOption fp) of
              Some cmp \<Rightarrow> js_sort cmp r4
            | None \<Rightarrow> r4))"

text \<open>Which products pass the filters, as one predicate.\<close>

definition matches :: "filter_props \<Rightarrow> product \<Rightarrow> bool" where
  "matches fp p =
     ((searchQuery fp = [] \<or> js_includes (js_lower (product_name p)) (js_lower (searchQuery fp))
                          \<or> js_includes (js_lower (description p)) (js_lower (searchQuery fp)))
      \<and> (case minPrice fp of None \<Rightarrow> True | Some v \<Rightarrow> js_le v (price_of p))
      \<and> (case maxPrice fp of None \<Rightarrow> True | Some v \<Rightarrow> js_le (price_of p) v)
      \<and> (case minRating fp of None \<Rightarrow> True | Some v \<Rightarrow> js_le v (rating_of p)))"

subsection \<open>Finite prices and examples\<close>

text \<open>The numeric value of a finite number, and whether a number is finite.\<close>

fun num_value :: "jsnum \<Rightarrow> rat option" where
  "num_value (Num r) = Some r"
| "num_value _ = None"

fun js_finite :: "jsnum \<Rightarrow> bool" where
  "js_finite (Num r) = True"
| "js_finite _ = False"

definition catalog_example :: "product list" where
  "catalog_example =
     [\<lparr>product_id = 1, product_name = ''Laptop Pro'', description = ''Fast laptop'', product_price = ''1299.99'',
       category = ''hardware'', product_image = ''laptop.jpg'', rating = ''4.8'', badge = None, discountPrice = None,
       product_isService = None, product_createdAt = 0\<rparr>,
      \<lparr>product_id = 2, product_name = ''Cloud Backup'', description = ''Daily backups'', product_price = ''9.99'',
       category = ''cloud services'', product_image = ''cloud.jpg'', rating = ''4.2'', badge = None, discountPrice = None,
       product_isService = Some True, product_createdAt = 0\<rparr>,
      \<lparr>product_id = 3, product_name = ''Office License'', description = ''One seat'', product_price = ''99.00'',
       category = ''licenses'', product_image = ''office.jpg'', rating = ''4.5'', badge = None, discountPrice = None,
       product_isService = None, product_createdAt = 0\<rparr>]"


definition by_price :: filter_props where
  "by_price = \<lparr>fp_category = ''all'', searchQuery = [], minPrice = None, maxPrice = None,
     minRating = None, sortOption = ''price-asc''\<rparr>"

subsection \<open>The sort: permutation, order and stability\<close>


lemma mset_js_insort [simp]: "mset (js_insort cmp x ys) = add_mset x (mset ys)"
  by (induction ys) auto

lemma set_js_insort [simp]: "set (js_insort cmp x ys) = insert x (set ys)"
  by (metis mset_js_insort set_mset_add_mset_insert set_mset_mset)

lemma mset_js_sort: "mset (js_sort cmp xs) = mset xs"
proof -
  have "mset (foldl (\<lambda>acc x. js_insort cmp x acc) acc xs) = mset acc + mset xs" for acc
    by (induction xs arbitrary: acc) auto
  then show ?thesis by (simp add: js_sort_def)
qed

text \<open>A comparator that subtracts keys: it orders \<open>a\<close> after \<open>b\<close> exactly when \<open>a\<close>'s
  key is larger.\<close>

lemma sorted_js_insort:
  assumes "\<And>a b. js_positive (cmp a b) \<longleftrightarrow> k b < k a" and "sorted (map k ys)"
  shows "sorted (map k (js_insort cmp x ys))"
  using assms(2)
proof (induction ys)
  case (Cons y ys)
  then show ?case by (auto simp: assms(1) not_less)
qed simp

lemma filter_Cons_append: "filter P (a # xs) = (if P a then [a] else []) @ filter P xs"
  by simp

lemma filter_js_insort:
  assumes "\<And>a b. js_positive (cmp a b) \<longleftrightarrow> k b < k a" and "sorted (map k ys)"
  shows "filter (\<lambda>z. c = k z) (js_insort cmp x ys) = filter (\<lambda>z. c = k z) ys @ (if c = k x then [x] else [])"
  using assms(2)
proof (induction ys)
  case (Cons y ys)
  show ?case
  proof (cases "k x < k y")
    case True
    with Cons.prems have "\<forall>z\<in>set (y # ys). k x < k z" by auto
    then have "c = k x \<Longrightarrow> filter (\<lambda>z. c = k z) (y # ys) = []" by (auto simp: filter_empty_conv)
    with True show ?thesis by (auto simp: assms(1))
  next
    case False
    then have eq: "js_insort cmp x (y # ys) = y # js_insort cmp x ys" by (simp add: assms(1))
    have ih: "filter (\<lambda>z. c = k z) (js_insort cmp x ys) = filter (\<lambda>z. c = k z) ys @ (if c = k x then [x] else [])"
      using Cons by simp
    show ?thesis by (simp only: eq filter_Cons_append ih append_assoc)
  qed
qed simp

lemma js_sort_props:
  assumes "\<And>a b. js_positive (cmp a b) \<longleftrightarrow> k b < k a" and "sorted (map k acc)"
  shows "sorted (map k (foldl (\<lambda>acc x. js_insort cmp x acc) acc xs))
    \<and> filter (\<lambda>z. c = k z) (foldl (\<lambda>acc x. js_insort cmp x acc) acc xs)
        = filter (\<lambda>z. c = k z) acc @ filter (\<lambda>z. c = k z) xs"
  using assms(2)
proof (induction xs arbitrary: acc)
  case (Cons a xs)
  have s1: "sorted (map k (js_insort cmp a acc))" using Cons.prems by (rule sorted_js_insort [OF assms(1)])
  have f1: "filter (\<lambda>z. c = k z) (js_insort cmp a acc) = filter (\<lambda>z. c = k z) acc @ (if c = k a then [a] else [])"
    using Cons.prems by (rule filter_js_insort [OF assms(1)])
  from Cons.IH [OF s1] show ?case
    by (simp only: foldl_Cons f1 filter_Cons_append append_assoc)
qed simp

lemma js_sort_sort_key:
  assumes "\<And>a b. js_positive (cmp a b) \<longleftrightarrow> k b < k a"
  shows "js_sort cmp xs = sort_key k xs"
proof (rule properties_for_sort_key [symmetric])
  show "mset (js_sort cmp xs) = mset xs" by (rule mset_js_sort)
  show "sorted (map k (js_sort cmp xs))"
    using js_sort_props [OF assms, where acc = "[]" and xs = xs] by (simp add: js_sort_def)
  show "filter (\<lambda>x. k a = k x) (js_sort cmp xs) = filter (\<lambda>x. k a = k x) xs" for a
    using js_sort_props [OF assms, where acc = "[]" and xs = xs and c = "k a"] by (simp add: js_sort_def)
qed


lemma js_insort_cong:
  "(\<And>a b. a \<in> S \<Longrightarrow> b \<in> S \<Longrightarrow> cmp a b = cmp' a b) \<Longrightarrow> x \<in> S \<Longrightarrow> set ys \<subseteq> S \<Longrightarrow>
   js_insort cmp x ys = js_insort cmp' x ys"
  by (induction ys) auto

lemma js_sort_cong:
  assumes "\<And>a b. a \<in> set xs \<Longrightarrow> b \<in> set xs \<Longrightarrow> cmp a b = cmp' a b"
  shows "js_sort cmp xs = js_sort cmp' xs"
proof -
  have "set acc \<subseteq> set xs \<Longrightarrow> set ys \<subseteq> set xs \<Longrightarrow>
        foldl (\<lambda>acc x. js_insort cmp x acc) acc ys = foldl (\<lambda>acc x. js_insort cmp' x acc) acc ys" for acc ys
  proof (induction ys arbitrary: acc)
    case (Cons y ys)
    have "js_insort cmp y acc = js_insort cmp' y acc"
      using Cons.prems by (intro js_insort_cong [where S = "set xs"] assms) auto
    with Cons show ?case by simp
  qed simp
  then show ?thesis by (simp add: js_sort_def)
qed

text \<open>A comparator that subtracts finite keys sorts as \<open>sort_key\<close> on the key, ascending or,
  with its arguments swapped, descending.\<close>

lemma js_sort_finite_key:
  assumes "\<forall>p\<in>set xs. \<exists>r. f p = Num r"
  shows "js_sort (\<lambda>a b. js_sub (f a) (f b)) xs = sort_key (\<lambda>p. the (num_value (f p))) xs"
    and "js_sort (\<lambda>a b. js_sub (f b) (f a)) xs = sort_key (\<lambda>p. - the (num_value (f p))) xs"
proof -
  let ?v = "\<lambda>p. the (num_value (f p))"
  have sub: "js_sub (f a) (f b) = Num (?v a - ?v b)" if a: "a \<in> set xs" and b: "b \<in> set xs" for a b
  proof -
    obtain ra rb where "f a = Num ra" "f b = Num rb" using assms a b by blast
    then show ?thesis by (simp add: js_sub_def)
  qed
  have "js_sort (\<lambda>a b. js_sub (f a) (f b)) xs = js_sort (\<lambda>a b. Num (?v a - ?v b)) xs"
    by (rule js_sort_cong) (rule sub)
  also have "\<dots> = sort_key ?v xs" by (rule js_sort_sort_key) simp
  finally show "js_sort (\<lambda>a b. js_sub (f a) (f b)) xs = sort_key ?v xs" .
  have "js_sort (\<lambda>a b. js_sub (f b) (f a)) xs = js_sort (\<lambda>a b. Num ((- ?v a) - (- ?v b))) xs"
    by (rule js_sort_cong) (simp add: sub)
  also have "\<dots> = sort_key (\<lambda>p. - ?v p) xs" by (rule js_sort_sort_key) simp
  finally show "js_sort (\<lambda>a b. js_sub (f b) (f a)) xs = sort_key (\<lambda>p. - ?v p) xs" .
qed

lemma finite_keys:
  "list_all (\<lambda>p. js_finite (f p)) ps \<Longrightarrow> \<forall>p\<in>set (filter P ps). \<exists>r. f p = Num r"
  by (auto simp: list_all_iff elim!: js_finite.elims)

lemma matches_sortOption [simp]: "matches (fp\<lparr>sortOption := opt\<rparr>) = matches fp"
  by (simp add: matches_def fun_eq_iff)

lemma search_filter_eq:
  "search_filter q ps = filter (\<lambda>p. q = [] \<or> js_includes (js_lower (product_name p)) (js_lower q)
                                   \<or> js_includes (js_lower (description p)) (js_lower q)) ps"
  by (simp add: search_filter_def)

lemma bound_filter_eq:
  "bound_filter b rel f ps = filter (\<lambda>p. case b of None \<Rightarrow> True | Some v \<Rightarrow> rel (f p) v) ps"
  by (simp add: bound_filter_def split: option.split)

lemma filters_matches:
  "bound_filter (minRating fp) (\<lambda>x v. js_le v x) rating_of
     (bound_filter (maxPrice fp) js_le price_of
       (bound_filter (minPrice fp) (\<lambda>x v. js_le v x) price_of (search_filter (searchQuery fp) ps)))
   = filter (matches fp) ps"
  unfolding search_filter_eq bound_filter_eq filter_filter
  by (rule filter_cong) (simp_all add: matches_def conj_ac)

lemma filteredProducts_None [simp]: "filteredProducts collate fp None = []"
  by (simp add: filteredProducts_def)

lemma filteredProducts_sorted_or_not:
  "filteredProducts collate fp (Some ps) =
     (case sort_comparator collate (sortOption fp) of
        Some cmp \<Rightarrow> js_sort cmp (filter (matches fp) ps)
      | None \<Rightarrow> filter (matches fp) ps)"
  by (cases "ps = []") (simp_all add: filteredProducts_def filters_matches js_sort_def split: option.splits)

text \<open>
  C30. Sorting by ascending price is the library's stable sort by price: when every
  product's price parses to a finite number, the hook with \<open>price-asc\<close> returns the
  matching products sorted by \<open>sort_key\<close> on the price, ties in their original order,
  whatever algorithm the engine's stable sort uses.
\<close>

theorem price_sort_is_sort_key:
  assumes "sortOption fp = ''price-asc''"
    and "list_all (\<lambda>p. js_finite (price_of p)) ps"
  shows "filteredProducts collate fp (Some ps)
           = sort_key (\<lambda>p. the (num_value (price_of p))) (filter (matches fp) ps)"
  using assms(1) js_sort_finite_key(1) [OF finite_keys [OF assms(2)]]
  by (simp add: filteredProducts_sorted_or_not sort_comparator_def)

text \<open>
  C31. For every sort option the hook returns exactly the products that pass the
  search, price and rating filters, each as often as it was fetched: the result is a
  permutation of the filtered list. Without data it returns the empty list.
\<close>

theorem filteredProducts_mset:
  "mset (filteredProducts collate fp data) = mset (filter (matches fp) (case data of Some ps \<Rightarrow> ps | None \<Rightarrow> []))"
  by (cases data) (simp_all add: filteredProducts_sorted_or_not mset_js_sort split: option.split)


lemma set_js_sort [simp]: "set (js_sort cmp xs) = set xs"
  by (metis mset_js_sort set_mset_mset)

lemma set_filteredProducts:
  "set (filteredProducts collate fp data) = set (filter (matches fp) (case data of Some ps \<Rightarrow> ps | None \<Rightarrow> []))"
  by (cases data) (simp_all add: filteredProducts_sorted_or_not split: option.split)

text \<open>
  C32. The descending sorts are stable sorts on the negated key: when every fetched
  product's price and rating parse to finite numbers, \<open>price-desc\<close> returns the matching
  products by decreasing price and \<open>rating-desc\<close> by decreasing rating, products with equal
  keys in the order they were fetched (not in the reverse order, as reversing the
  ascending sort would give).
\<close>

theorem descending_sorts_stable:
  assumes "list_all (\<lambda>p. js_finite (price_of p) \<and> js_finite (rating_of p)) ps"
  shows "filteredProducts collate (fp\<lparr>sortOption := ''price-desc''\<rparr>) (Some ps)
           = sort_key (\<lambda>p. - the (num_value (price_of p))) (filter (matches fp) ps)
    \<and> filteredProducts collate (fp\<lparr>sortOption := ''rating-desc''\<rparr>) (Some ps)
           = sort_key (\<lambda>p. - the (num_value (rating_of p))) (filter (matches fp) ps)"
proof -
  have p: "list_all (\<lambda>p. js_finite (price_of p)) ps" and r: "list_all (\<lambda>p. js_finite (rating_of p)) ps"
    using assms by (simp_all add: list_all_iff)
  show ?thesis
    using js_sort_finite_key(2) [OF finite_keys [OF p]] js_sort_finite_key(2) [OF finite_keys [OF r]]
    by (simp add: filteredProducts_sorted_or_not sort_comparator_def)
qed

theorem descending_sorts_stable_witness:
  "map product_id (filteredProducts (\<lambda>a b. 0) (by_price\<lparr>sortOption := ''price-desc''\<rparr>) (Some catalog_example)) = [1, 3, 2]
   \<and> map product_id (filteredProducts (\<lambda>a b. 0) (by_price\<lparr>sortOption := ''rating-desc''\<rparr>) (Some catalog_example)) = [1, 3, 2]"
proof -
  have h: "list_all (\<lambda>p. js_finite (price_of p) \<and> js_finite (rating_of p)) catalog_example"
    by (simp add: catalog_example_def price_of_def rating_of_def parse_float_evals)
  from descending_sorts_stable [OF h, where collate = "\<lambda>a b. 0" and fp = by_price] show ?thesis
    by (simp add: by_price_def catalog_example_def matches_def price_of_def rating_of_def parse_float_evals)
qed

theorem price_sort_is_sort_key_witness:
  "map product_id (filteredProducts (\<lambda>a b. 0) by_price (Some catalog_example)) = [2, 3, 1]"
proof -
  have h1: "sortOption by_price = ''price-asc''" by (simp add: by_price_def)
  have h2: "list_all (\<lambda>p. js_finite (price_of p)) catalog_example"
    by (simp add: catalog_example_def price_of_def parse_float_evals)
  from price_sort_is_sort_key [OF h1 h2, where collate = "\<lambda>a b. 0"] show ?thesis
    by (simp add: by_price_def catalog_example_def matches_def price_of_def parse_float_evals)
qed

end
