(* ===== verification/Home.thy ===== *)
theory Home
  imports Catalog Http
begin

text \<open>
  The catalog page (\<open>src/client/src/pages/Home.tsx\<close>) and its two filter panels
  (\<open>FilterSidebar.tsx\<close> on wide screens, \<open>MobileFilters.tsx\<close> on narrow ones). The page
  state is the record \<open>home_state\<close> of its \<open>useState\<close> hooks; each handler is a case of
  \<open>home_step\<close>. The panels keep their inputs as strings and turn them into numbers on
  \<open>Apply\<close> (\<open>parseFloat\<close>, \<open>parseInt\<close>). What the grid shows is \<open>useFilteredProducts\<close>
  (theory \<open>Catalog\<close>) on the products fetched for the selected category, given as a
  function \<open>data\<close> from category to query result. \<open>desktop_step\<close> is the relation of
  the interactions a wide screen offers: search, sort, the sidebar's category buttons
  and price filter, and the grid's \<open>Reset Filters\<close> button, which the grid shows only
  when it has no products to show.
\<close>

subsection \<open>Page state and handlers\<close>

record home_state =
  hs_searchQuery :: string
  selectedCategory :: string
  hs_minPrice :: "jsnum option"
  hs_maxPrice :: "jsnum option"
  hs_minRating :: "jsnum option"
  hs_sortOption :: string
  isMobileFiltersOpen :: bool

definition initial_home :: home_state where
  "initial_home =
     \<lparr>hs_searchQuery = [], selectedCategory = ''all'', hs_minPrice = None, hs_maxPrice = None,
      hs_minRating = None, hs_sortOption = ''featured'', isMobileFiltersOpen = False\<rparr>"

datatype home_event =
    Search string
  | CategoryChange string
  | SortChange string
  | PriceFilterChange "jsnum option" "jsnum option"
  | RatingFilterChange "jsnum option"
  | ResetFilters
  | ToggleMobileFilters
  | CloseMobileFilters

fun home_step :: "home_state \<Rightarrow> home_event \<Rightarrow> home_state" where
  "home_step s (Search q) = s\<lparr>hs_searchQuery := q\<rparr>"
| "home_step s (CategoryChange c) = s\<lparr>selectedCategory := c\<rparr>"
| "home_step s (SortChange opt) = s\<lparr>hs_sortOption := opt\<rparr>"
| "home_step s (PriceFilterChange lo hi) = s\<lparr>hs_minPrice := lo, hs_maxPrice := hi\<rparr>"
| "home_step s (RatingFilterChange r) = s\<lparr>hs_minRating := r\<rparr>"
| "home_step s ResetFilters =
     s\<lparr>selectedCategory := ''all'', hs_minPrice := None, hs_maxPrice := None, hs_minRating := None,
       hs_sortOption := ''featured'', hs_searchQuery := []\<rparr>"
| "home_step s ToggleMobileFilters = s\<lparr>isMobileFiltersOpen := \<not> isMobileFiltersOpen s\<rparr>"
| "home_step s CloseMobileFilters = s\<lparr>isMobileFiltersOpen := False\<rparr>"

text \<open>The props the page passes to \<open>useFilteredProducts\<close>.\<close>

definition home_props :: "home_state \<Rightarrow> filter_props" where
  "home_props s =
     \<lparr>fp_category = selectedCategory s, searchQuery = hs_searchQuery s, minPrice = hs_minPrice s,
      maxPrice = hs_maxPrice s, minRating = hs_minRating s, sortOption = hs_sortOption s\<rparr>"

definition shown :: "(string \<Rightarrow> product list option) \<Rightarrow> (string \<Rightarrow> string \<Rightarrow> int) \<Rightarrow> home_state \<Rightarrow> product list" where
  "shown data collate s = filteredProducts collate (home_props s) (data (selectedCategory s))"

definition SORT_OPTIONS :: "string list" where
  "SORT_OPTIONS = [''featured'', ''price-asc'', ''price-desc'', ''name-asc'', ''name-desc'', ''rating-desc'']"

subsection \<open>The filter panels\<close>

text \<open>A number input on \<open>Apply\<close>: \<open>input ? parseFloat(input) : undefined\<close>.\<close>

definition input_number :: "string \<Rightarrow> jsnum option" where
  "input_number s = (if s = [] then None else Some (parse_float s))"

text \<open>\<open>handleApplyPriceFilter\<close> of the sidebar.\<close>

definition sidebar_apply :: "string \<Rightarrow> string \<Rightarrow> home_event" where
  "sidebar_apply minInput maxInput = PriceFilterChange (input_number minInput) (input_number maxInput)"

record mobile_state =
  localCategory :: string
  localMinPrice :: string
  localMaxPrice :: string
  localRating :: string

text \<open>The panel's initial state from the page's props: \<open>v?.toString() || default\<close>.\<close>

definition mobile_open :: "home_state \<Rightarrow> mobile_state" where
  "mobile_open s =
     \<lparr>localCategory = selectedCategory s,
      localMinPrice = (case hs_minPrice s of Some v \<Rightarrow> js_to_string v | None \<Rightarrow> []),
      localMaxPrice = (case hs_maxPrice s of Some v \<Rightarrow> js_to_string v | None \<Rightarrow> []),
      localRating = (case hs_minRating s of Some v \<Rightarrow> js_to_string v | None \<Rightarrow> ''0'')\<rparr>"

text \<open>\<open>parseInt(localRating)\<close> as a number (NaN when it does not parse).\<close>

definition rating_input :: "string \<Rightarrow> jsnum option" where
  "rating_input r = (if r \<noteq> ''0'' then Some (case js_parse_int r of Some i \<Rightarrow> Num (of_int i) | None \<Rightarrow> NaN) else None)"

text \<open>\<open>handleApply\<close>: the three callbacks in order, then \<open>onApply\<close>, which closes the panel.\<close>

definition mobile_apply :: "mobile_state \<Rightarrow> home_state \<Rightarrow> home_state" where
  "mobile_apply m s =
     foldl home_step s [CategoryChange (localCategory m),
                        PriceFilterChange (input_number (localMinPrice m)) (input_number (localMaxPrice m)),
                        RatingFilterChange (rating_input (localRating m)), CloseMobileFilters]"

text \<open>\<open>handleReset\<close>: the panel's own inputs cleared, and the page's \<open>handleResetFilters\<close>.\<close>

definition mobile_reset :: "mobile_state \<Rightarrow> home_state \<Rightarrow> mobile_state \<times> home_state" where
  "mobile_reset m s =
     (\<lparr>localCategory = ''all'', localMinPrice = [], localMaxPrice = [], localRating = ''0''\<rparr>,
      home_step s ResetFilters)"

subsection \<open>The interactions of the wide layout\<close>

inductive desktop_step ::
  "(string \<Rightarrow> product list option) \<Rightarrow> (string \<Rightarrow> string \<Rightarrow> int) \<Rightarrow> home_state \<Rightarrow> home_state \<Rightarrow> bool"
  for data collate where
  search: "desktop_step data collate s (home_step s (Search q))"
| category: "c \<in> set PRODUCT_CATEGORIES \<Longrightarrow> desktop_step data collate s (home_step s (CategoryChange c))"
| sort: "opt \<in> set SORT_OPTIONS \<Longrightarrow> desktop_step data collate s (home_step s (SortChange opt))"
| price: "desktop_step data collate s (home_step s (sidebar_apply lo hi))"
| reset: "shown data collate s = [] \<Longrightarrow> desktop_step data collate s (home_step s ResetFilters)"

subsection \<open>Properties of the page\<close>

lemma input_number_of_nat:
  assumes "n < 10 ^ 21"
  shows "input_number (js_to_string (Num (of_nat n))) = Some (Num (of_nat n))"
  using js_to_string_of_nat [OF assms]
  by (simp add: input_number_def nat_digits_ne parse_float_nat_digits del: js_to_string.simps)

lemma rating_input_of_int:
  assumes "0 < r" and "r < 10 ^ 21"
  shows "rating_input (js_to_string (Num (of_int r))) = Some (Num (of_int r))"
proof -
  have p: "js_parse_int (js_to_string (Num (of_int r))) = Some r" using assms by (rule js_parse_int_print)
  have "js_to_string (Num (of_int r)) \<noteq> ''0''"
  proof
    assume "js_to_string (Num (of_int r)) = ''0''"
    with p have "js_parse_int ''0'' = Some r" by simp
    then show False using assms(1) by (simp add: js_parse_int_def Let_def take_sign_def is_str_space_def
        char_code_def radix_digit_def hex_value_def radix_value_def)
  qed
  with p show ?thesis by (simp add: rating_input_def)
qed

inductive_cases desktop_stepE: "desktop_step data collate y z"

lemma desktop_step_to_all:
  assumes "desktop_step data collate y z" and "selectedCategory y \<noteq> ''all''" and "selectedCategory z = ''all''"
  shows "shown data collate y = []"
  using assms by (auto elim!: desktop_stepE simp: PRODUCT_CATEGORIES_def sidebar_apply_def)

text \<open>
  C33. On a wide screen, once a category is chosen the page can return to all products
  only through a state whose grid is empty: the sidebar lists only
  \<open>PRODUCT_CATEGORIES\<close>, which has no \<open>all\<close> entry, and the grid shows its
  \<open>Reset Filters\<close> button only when it has nothing to show.
\<close>

theorem desktop_all_needs_empty_grid:
  assumes "(desktop_step data collate)\<^sup>*\<^sup>* s s'"
    and "selectedCategory s \<noteq> ''all''" and "selectedCategory s' = ''all''"
  shows "\<exists>t. (desktop_step data collate)\<^sup>*\<^sup>* s t \<and> selectedCategory t \<noteq> ''all'' \<and> shown data collate t = []"
  using assms
proof (induction rule: rtranclp_induct)
  case base then show ?case by simp
next
  case (step y z)
  show ?case
  proof (cases "selectedCategory y = ''all''")
    case True with step show ?thesis by blast
  next
    case False
    have "shown data collate y = []" by (rule desktop_step_to_all [OF step.hyps(2) False step.prems(2)])
    with step.hyps(1) False show ?thesis by blast
  qed
qed

theorem desktop_all_needs_empty_grid_witness:
  "\<exists>t. (desktop_step (\<lambda>c. Some []) (\<lambda>a b. 0))\<^sup>*\<^sup>* (initial_home\<lparr>selectedCategory := ''hardware''\<rparr>) t
     \<and> selectedCategory t \<noteq> ''all'' \<and> shown (\<lambda>c. Some []) (\<lambda>a b. 0) t = []"
proof -
  let ?s = "initial_home\<lparr>selectedCategory := ''hardware''\<rparr>"
  have e: "shown (\<lambda>c. Some []) (\<lambda>a b. 0) ?s = []" by (simp add: shown_def filteredProducts_def)
  have h1: "(desktop_step (\<lambda>c. Some []) (\<lambda>a b. 0))\<^sup>*\<^sup>* ?s (home_step ?s ResetFilters)"
    by (rule r_into_rtranclp) (rule desktop_step.reset [OF e])
  have h2: "selectedCategory ?s \<noteq> ''all''" by simp
  have h3: "selectedCategory (home_step ?s ResetFilters) = ''all''" by simp
  show ?thesis by (rule desktop_all_needs_empty_grid [OF h1 h2 h3])
qed

text \<open>
  C34. Opening the mobile filter panel and pressing \<open>Apply\<close> without editing leaves the
  page's filters as they were and closes the panel, for whole-number price bounds and
  positive whole-number ratings below \<open>10^21\<close>: the panel prints them with
  \<open>toString\<close> and reads them back with \<open>parseFloat\<close> and \<open>parseInt\<close>.
\<close>

theorem mobile_apply_roundtrip:
  assumes "hs_minPrice s = None \<or> (\<exists>n::nat. n < 10 ^ 21 \<and> hs_minPrice s = Some (Num (of_nat n)))"
    and "hs_maxPrice s = None \<or> (\<exists>n::nat. n < 10 ^ 21 \<and> hs_maxPrice s = Some (Num (of_nat n)))"
    and "hs_minRating s = None \<or> (\<exists>r::int. 0 < r \<and> r < 10 ^ 21 \<and> hs_minRating s = Some (Num (of_int r)))"
  shows "home_props (mobile_apply (mobile_open s) s) = home_props s
    \<and> \<not> isMobileFiltersOpen (mobile_apply (mobile_open s) s)"
proof -
  have lo: "input_number (localMinPrice (mobile_open s)) = hs_minPrice s"
    using assms(1)
  proof (elim disjE exE conjE)
    fix n :: nat assume "n < 10 ^ 21" and "hs_minPrice s = Some (Num (of_nat n))"
    then show ?thesis by (simp add: mobile_open_def input_number_of_nat del: js_to_string.simps)
  qed (simp add: mobile_open_def input_number_def)
  have hi: "input_number (localMaxPrice (mobile_open s)) = hs_maxPrice s"
    using assms(2)
  proof (elim disjE exE conjE)
    fix n :: nat assume "n < 10 ^ 21" and "hs_maxPrice s = Some (Num (of_nat n))"
    then show ?thesis by (simp add: mobile_open_def input_number_of_nat del: js_to_string.simps)
  qed (simp add: mobile_open_def input_number_def)
  have r: "rating_input (localRating (mobile_open s)) = hs_minRating s"
    using assms(3)
  proof (elim disjE exE conjE)
    fix i :: int assume "0 < i" and "i < 10 ^ 21" and "hs_minRating s = Some (Num (of_int i))"
    then show ?thesis by (simp add: mobile_open_def rating_input_of_int del: js_to_string.simps)
  qed (simp add: mobile_open_def rating_input_def)
  show ?thesis using lo hi r by (simp add: mobile_apply_def home_props_def mobile_open_def)
qed

theorem mobile_apply_roundtrip_witness:
  "home_props (mobile_apply (mobile_open (initial_home\<lparr>hs_minPrice := Some (Num 50), hs_maxPrice := Some (Num 500),
       hs_minRating := Some (Num 4), isMobileFiltersOpen := True\<rparr>))
     (initial_home\<lparr>hs_minPrice := Some (Num 50), hs_maxPrice := Some (Num 500),
       hs_minRating := Some (Num 4), isMobileFiltersOpen := True\<rparr>))
   = home_props (initial_home\<lparr>hs_minPrice := Some (Num 50), hs_maxPrice := Some (Num 500),
       hs_minRating := Some (Num 4), isMobileFiltersOpen := True\<rparr>)"
proof -
  let ?s = "initial_home\<lparr>hs_minPrice := Some (Num 50), hs_maxPrice := Some (Num 500),
       hs_minRating := Some (Num 4), isMobileFiltersOpen := True\<rparr>"
  have h1: "hs_minPrice ?s = None \<or> (\<exists>n::nat. n < 10 ^ 21 \<and> hs_minPrice ?s = Some (Num (of_nat n)))"
    by (rule disjI2, rule exI [of _ 50]) simp
  have h2: "hs_maxPrice ?s = None \<or> (\<exists>n::nat. n < 10 ^ 21 \<and> hs_maxPrice ?s = Some (Num (of_nat n)))"
    by (rule disjI2, rule exI [of _ 500]) simp
  have h3: "hs_minRating ?s = None \<or> (\<exists>r::int. 0 < r \<and> r < 10 ^ 21 \<and> hs_minRating ?s = Some (Num (of_int r)))"
    by (rule disjI2, rule exI [of _ 4]) simp
  from mobile_apply_roundtrip [OF h1 h2 h3] show ?thesis by simp
qed

text \<open>
  C35. After \<open>Reset Filters\<close> the grid shows every product fetched for \<open>all\<close>, in the
  order the server returned them.
\<close>

theorem reset_shows_all:
  "shown data collate (home_step s ResetFilters) = (case data ''all'' of Some ps \<Rightarrow> ps | None \<Rightarrow> [])"
proof (cases "data ''all''")
  case (Some ps)
  have "filter (matches (home_props (home_step s ResetFilters))) ps = ps"
    by (simp add: matches_def home_props_def)
  with Some show ?thesis
    by (simp add: shown_def filteredProducts_sorted_or_not home_props_def sort_comparator_def)
qed (simp add: shown_def home_props_def)


end
