(* ===== verification/Storefront.thy ===== *)
theory Storefront
  imports Cart JsString
begin

text \<open>
  The storefront's client components that hold state or call the cart:
  the route guard (\<open>src/client/src/lib/protected-route.tsx\<close>), the cart badge and the
  cart drawer (\<open>CartIcon.tsx\<close>, \<open>CartDrawer.tsx\<close>), the product card
  (\<open>ProductCard.tsx\<close>) and the paginated product grid (\<open>ProductGrid.tsx\<close>). A component
  is the function from its props and state to what it shows, and its handlers are the
  cart operations (theory \<open>Cart\<close>) or state updates they make. The star rating's two
  \<open>for\<close> loops push onto one array, which \<open>push\<close> never lets grow past \<open>2^32 - 1\<close>
  elements (it throws a \<open>RangeError\<close>), so each loop ends. The
  grid's \<open>Load more\<close> button starts a timer; \<open>grid_step\<close> interleaves clicks and timer
  callbacks with props that the parent may change between any two steps.
\<close>

subsection \<open>The route guard\<close>

datatype route_view = RouteSpinner | RedirectToAuth | NotFoundPage | RoutePage

definition protected_route :: "bool \<Rightarrow> bool \<Rightarrow> user option \<Rightarrow> route_view" where
  "protected_route requireAdmin isLoading u =
     (if isLoading then RouteSpinner
      else case u of
        None \<Rightarrow> RedirectToAuth
      | Some usr \<Rightarrow> if requireAdmin \<and> user_isAdmin usr \<noteq> Some True then NotFoundPage else RoutePage)"

subsection \<open>The cart badge and the cart drawer\<close>

text \<open>The badge on the cart icon: hidden for no items, \<open>"99+"\<close> above 99.\<close>

definition cart_badge :: "int \<Rightarrow> string option" where
  "cart_badge n =
     (if 0 < n then Some (if 99 < n then ''99+'' else js_to_string (Num (of_int n))) else None)"

text \<open>\<open>formatPrice\<close>: \<open>parseFloat\<close> for a string, then \<open>toFixed(2)\<close>.\<close>

definition formatPrice :: "price_val \<Rightarrow> string" where
  "formatPrice p = to_fixed2 (case p of PriceStr s \<Rightarrow> parse_float s | PriceNum x \<Rightarrow> x)"

definition drawer_description :: "cart \<Rightarrow> string" where
  "drawer_description c =
     (let n = length (items c) in
      if n = 0 then ''Your cart is empty.''
      else ''You have '' @ js_to_string (Num (of_nat n)) @ '' item'' @ (if n \<noteq> 1 then ''s'' else '''')
           @ '' in your cart.'')"

text \<open>
  The drawer's buttons. Each line \<open>k\<close> of the list has a minus, a plus and a trash
  button whose handlers close over that line; the minus button is disabled at quantity 1
  or less. \<open>Clear Cart\<close> is shown only for a non-empty cart. \<open>drawer_op\<close> is the cart
  operation a click calls, \<open>None\<close> where the button is not there or is disabled.
\<close>

datatype drawer_event = Minus nat | Plus nat | Trash nat | ClearAll

fun drawer_op :: "cart \<Rightarrow> drawer_event \<Rightarrow> cart_op option" where
  "drawer_op c (Minus k) =
     (if k < length (items c) \<and> \<not> quantity (items c ! k) \<le> 1
      then Some (UpdateQuantity (item_id (items c ! k)) (quantity (items c ! k) - 1)) else None)"
| "drawer_op c (Plus k) =
     (if k < length (items c)
      then Some (UpdateQuantity (item_id (items c ! k)) (quantity (items c ! k) + 1)) else None)"
| "drawer_op c (Trash k) =
     (if k < length (items c) then Some (RemoveFromCart (item_id (items c ! k))) else None)"
| "drawer_op c ClearAll = (if items c \<noteq> [] then Some ClearCart else None)"

definition drawer_click :: "cart \<Rightarrow> drawer_event \<Rightarrow> cart" where
  "drawer_click c e = (case drawer_op c e of None \<Rightarrow> c | Some op \<Rightarrow> cart_step c op)"

subsection \<open>The product card\<close>

text \<open>
  \<open>renderStars\<close>: \<open>Math.floor(rating)\<close> full stars, a half star when
  \<open>rating % 1 >= 0.5\<close>, then \<open>5 - fullStars - half\<close> empty stars, each pushed onto the
  array \<open>stars\<close> by a loop \<open>for (let i = 0; i < n; i++)\<close>. \<open>Array.prototype.push\<close> throws a
  \<open>RangeError\<close> when the array would grow past the largest array length, \<open>2^32 - 1\<close>
  (ECMAScript 10.4.2.4, ArraySetLength); an engine may run out of memory earlier, which
  ends the call the same way. \<open>push_loop len i n\<close> is such a loop from counter \<open>i\<close> on an
  array of length \<open>len\<close>: the number of the counter on exit, or \<open>None\<close> for the
  \<open>RangeError\<close>. The counter never exceeds the array length, so it stays below
  \<open>2^53\<close> and counts exactly as a double does.
\<close>

datatype star = FullStar | HalfStar | EmptyStar

definition ARRAY_LENGTH_MAX :: nat where
  "ARRAY_LENGTH_MAX = 2 ^ 32 - 1"

function push_loop :: "nat \<Rightarrow> nat \<Rightarrow> jsnum \<Rightarrow> nat option" where
  "push_loop len i n =
     (if js_lt (Num (of_nat i)) n
      then (if ARRAY_LENGTH_MAX \<le> len then None else push_loop (Suc len) (Suc i) n)
      else Some i)"
  by pat_completeness auto
termination by (relation "measure (\<lambda>(len, i, n). ARRAY_LENGTH_MAX - len)") auto

declare push_loop.simps [simp del]

definition renderStars :: "string \<Rightarrow> star list option" where
  "renderStars r =
     (let ratingNum = parse_float r;
          fullStars = js_floor ratingNum;
          hasHalfStar = js_le (Num (1 / 2)) (js_rem ratingNum (Num 1))
      in case push_loop 0 0 fullStars of
           None \<Rightarrow> None
         | Some f \<Rightarrow>
             (if hasHalfStar \<and> ARRAY_LENGTH_MAX \<le> f then None
              else
                (let emptyStars = js_sub (js_sub (Num 5) fullStars) (Num (if hasHalfStar then 1 else 0))
                 in case push_loop (f + (if hasHalfStar then 1 else 0)) 0 emptyStars of
                      None \<Rightarrow> None
                    | Some e \<Rightarrow> Some (replicate f FullStar @ (if hasHalfStar then [HalfStar] else [])
                                     @ replicate e EmptyStar))))"

definition getBadgeColorClass :: "string option \<Rightarrow> string" where
  "getBadgeColorClass b =
     (if b = Some ''NEW'' then ''bg-secondary-500''
      else if b = Some ''SALE'' then ''bg-red-500''
      else if b = Some ''BESTSELLER'' then ''bg-secondary-500''
      else if b = Some ''POPULAR'' then ''bg-purple-500''
      else ''bg-gray-500'')"

text \<open>\<open>category.charAt(0).toUpperCase() + category.slice(1)\<close>.\<close>

fun category_label :: "string \<Rightarrow> string" where
  "category_label [] = []"
| "category_label (c # cs) = js_upper_char c # cs"

definition card_button_label :: "product \<Rightarrow> string" where
  "card_button_label p = (if product_isService p = Some True then ''Book Now'' else ''Add to Cart'')"

text \<open>\<open>handleAddToCart\<close>: \<open>addToCart(product)\<close>, quantity 1, at clock reading \<open>now\<close>.\<close>

definition handleAddToCart :: "product \<Rightarrow> int \<Rightarrow> cart_op" where
  "handleAddToCart p now = AddToCart p 1 now"

subsection \<open>The product grid\<close>

text \<open>
  The grid's state: \<open>visibleProducts\<close>, \<open>isLoadingMore\<close>, and the number of
  \<open>setTimeout\<close> callbacks that \<open>handleLoadMore\<close> has scheduled and that have not run.
\<close>

record grid_state =
  visibleProducts :: nat
  isLoadingMore :: bool
  pending_timers :: nat

definition initial_grid :: grid_state where
  "initial_grid = \<lparr>visibleProducts = 8, isLoadingMore = False, pending_timers = 0\<rparr>"

text \<open>What the grid renders: eight skeletons while loading, the error panel, the empty
  panel with \<open>Reset Filters\<close>, or the first \<open>visibleProducts\<close> cards with the number of
  extra skeletons and whether the \<open>Load more\<close> button is shown.\<close>

datatype grid_view = GridSkeletons nat | GridError | GridNoResults | GridCards "product list" nat bool

definition grid_view :: "product list \<Rightarrow> bool \<Rightarrow> bool \<Rightarrow> grid_state \<Rightarrow> grid_view" where
  "grid_view ps isLoading isError g =
     (if isLoading then GridSkeletons 8
      else if isError then GridError
      else if ps = [] then GridNoResults
      else GridCards (take (visibleProducts g) ps) (if isLoadingMore g then 4 else 0)
                     (visibleProducts g < length ps \<and> \<not> isLoadingMore g))"

definition handleLoadMore :: "grid_state \<Rightarrow> grid_state" where
  "handleLoadMore g = g\<lparr>isLoadingMore := True, pending_timers := Suc (pending_timers g)\<rparr>"

definition load_more_timeout :: "grid_state \<Rightarrow> grid_state" where
  "load_more_timeout g =
     g\<lparr>visibleProducts := visibleProducts g + 8, isLoadingMore := False,
       pending_timers := pending_timers g - 1\<rparr>"

text \<open>A click needs the button on screen for some props of the parent; a timer callback
  needs a scheduled timer.\<close>

inductive grid_step :: "grid_state \<Rightarrow> grid_state \<Rightarrow> bool" where
  click: "grid_view ps isLoading isError g = GridCards cs k True \<Longrightarrow> grid_step g (handleLoadMore g)"
| timeout: "0 < pending_timers g \<Longrightarrow> grid_step g (load_more_timeout g)"

definition grid_inv :: "grid_state \<Rightarrow> bool" where
  "grid_inv g \<longleftrightarrow> pending_timers g = (if isLoadingMore g then 1 else 0)
                  \<and> 8 \<le> visibleProducts g \<and> 8 dvd visibleProducts g"

subsection \<open>The star loop and the star rating\<close>

lemma js_lt_Num [simp]: "js_lt (Num x) (Num y) \<longleftrightarrow> x < y"
  by (auto simp: js_lt_def)

lemma of_nat_less_rat_iff: "(of_nat i < (r::rat)) \<longleftrightarrow> i < nat \<lceil>r\<rceil>"
proof -
  have "(of_nat i < r) \<longleftrightarrow> int i < \<lceil>r\<rceil>"
    using less_ceiling_iff [of "int i" r] by simp
  also have "\<dots> \<longleftrightarrow> i < nat \<lceil>r\<rceil>" by linarith
  finally show ?thesis .
qed

lemma push_loop_Num:
  "push_loop len i (Num r) =
     (if nat \<lceil>r\<rceil> \<le> i then Some i
      else if len + (nat \<lceil>r\<rceil> - i) \<le> ARRAY_LENGTH_MAX then Some (nat \<lceil>r\<rceil>) else None)"
proof (induction "nat \<lceil>r\<rceil> - i" arbitrary: len i)
  case 0
  then have "\<not> of_nat i < r" by (simp add: of_nat_less_rat_iff)
  with 0 show ?case by (subst push_loop.simps) simp
next
  case (Suc d)
  then have lt: "of_nat i < r" by (simp add: of_nat_less_rat_iff)
  show ?case
  proof (cases "ARRAY_LENGTH_MAX \<le> len")
    case True
    with lt Suc.hyps(2) show ?thesis by (subst push_loop.simps) (simp, linarith)
  next
    case False
    with lt Suc.hyps(1) [of "Suc i" "Suc len"] Suc.hyps(2) show ?thesis
      by (subst push_loop.simps) auto
  qed
qed

lemma push_loop_NaN [simp]: "push_loop len i NaN = Some i"
  by (subst push_loop.simps) (simp add: js_lt_def)

lemma push_loop_NegInf [simp]: "push_loop len i NegInf = Some i"
  by (subst push_loop.simps) (simp add: js_lt_def)

lemma push_loop_PosInf [simp]: "push_loop len i PosInf = None"
proof (induction len i PosInf rule: push_loop.induct)
  case (1 len i)
  then show ?case by (subst push_loop.simps) (simp add: js_lt_def)
qed

lemma js_sub_Num [simp]: "js_sub (Num x) (Num y) = Num (x - y)"
  by (simp add: js_sub_def)

text \<open>The number of elements \<open>renderStars\<close> pushes for a finite rating.\<close>

definition star_pushes :: "rat \<Rightarrow> nat" where
  "star_pushes r =
     (let h = 1 / 2 \<le> r - of_int (if 0 \<le> r then \<lfloor>r\<rfloor> else \<lceil>r\<rceil>)
      in nat \<lfloor>r\<rfloor> + (if h then 1 else 0) + nat (5 - \<lfloor>r\<rfloor> - (if h then 1 else 0)))"

lemma renderStars_Num:
  assumes "parse_float s = Num r"
  defines "h \<equiv> 1 / 2 \<le> r - of_int (if 0 \<le> r then \<lfloor>r\<rfloor> else \<lceil>r\<rceil>)"
  shows "renderStars s =
           (if star_pushes r \<le> ARRAY_LENGTH_MAX
            then Some (replicate (nat \<lfloor>r\<rfloor>) FullStar @ (if h then [HalfStar] else [])
                       @ replicate (nat (5 - \<lfloor>r\<rfloor> - (if h then 1 else 0))) EmptyStar)
            else None)"
proof -
  define f where "f = nat \<lfloor>r\<rfloor>"
  define e where "e = nat (5 - \<lfloor>r\<rfloor> - (if h then 1 else 0))"
  have hh: "js_le (Num (1 / 2)) (js_rem (Num r) (Num 1)) = h" by (simp add: h_def)
  have sp: "star_pushes r = f + (if h then 1 else 0) + e" by (simp add: star_pushes_def f_def e_def h_def Let_def)
  have cf: "nat \<lceil>of_int \<lfloor>r\<rfloor> :: rat\<rceil> = f" by (simp add: f_def)
  have ce: "nat \<lceil>of_int (5 - \<lfloor>r\<rfloor>) - (if h then 1 else 0) :: rat\<rceil> = e"
  proof -
    have "(of_int (5 - \<lfloor>r\<rfloor>) - (if h then 1 else 0) :: rat) = of_int (5 - \<lfloor>r\<rfloor> - (if h then 1 else 0))"
      by simp
    then show ?thesis unfolding e_def by (simp only: ceiling_of_int)
  qed
  have jf: "js_floor (Num r) = Num (of_int \<lfloor>r\<rfloor>)" by simp
  have p1: "push_loop 0 0 (js_floor (Num r)) = (if f \<le> ARRAY_LENGTH_MAX then Some f else None)"
    unfolding jf by (simp only: push_loop_Num cf) (auto simp: ARRAY_LENGTH_MAX_def)
  have je: "js_sub (js_sub (Num 5) (js_floor (Num r))) (Num (if h then 1 else 0))
             = Num (of_int (5 - \<lfloor>r\<rfloor>) - (if h then 1 else 0))" by simp
  have p2: "push_loop (f + (if h then 1 else 0)) 0
              (js_sub (js_sub (Num 5) (js_floor (Num r))) (Num (if h then 1 else 0)))
            = (if e = 0 then Some 0 else if f + (if h then 1 else 0) + e \<le> ARRAY_LENGTH_MAX then Some e else None)"
    unfolding je by (simp only: push_loop_Num ce) auto
  have rs: "renderStars s =
     (case push_loop 0 0 (js_floor (Num r)) of
        None \<Rightarrow> None
      | Some f' \<Rightarrow>
          (if h \<and> ARRAY_LENGTH_MAX \<le> f' then None
           else (case push_loop (f' + (if h then 1 else 0)) 0
                        (js_sub (js_sub (Num 5) (js_floor (Num r))) (Num (if h then 1 else 0))) of
                   None \<Rightarrow> None
                 | Some e' \<Rightarrow> Some (replicate f' FullStar @ (if h then [HalfStar] else [])
                                    @ replicate e' EmptyStar))))"
    unfolding renderStars_def Let_def assms(1) hh ..
  show ?thesis
  proof (cases "f \<le> ARRAY_LENGTH_MAX")
    case False
    then show ?thesis unfolding rs p1 sp by simp
  next
    case f: True
    show ?thesis
    proof (cases "h \<and> ARRAY_LENGTH_MAX \<le> f")
      case True
      then have "\<not> f + (if h then 1 else 0) + e \<le> ARRAY_LENGTH_MAX" by simp
      then show ?thesis using True f unfolding rs p1 sp by simp
    next
      case False
      then show ?thesis
        unfolding rs p1 sp if_P [OF f] option.case if_not_P [OF False] p2
        using f by (simp add: f_def [symmetric] e_def [symmetric]) linarith
    qed
  qed
qed

lemma renderStars_infinite:
  "parse_float s = PosInf \<or> parse_float s = NegInf \<Longrightarrow> renderStars s = None"
  by (auto simp: renderStars_def js_sub_def)

lemma renderStars_NaN: "parse_float s = NaN \<Longrightarrow> renderStars s = Some []"
  by (simp add: renderStars_def js_sub_def js_lt_def)

lemma renderStars_Num_None:
  "parse_float s = Num r \<Longrightarrow> renderStars s = None \<longleftrightarrow> ARRAY_LENGTH_MAX < star_pushes r"
  by (simp add: renderStars_Num not_le)

lemma pushes_nonneg_limit:
  "0 \<le> (z::int) \<Longrightarrow> ((4294967295::nat) < nat z + (if h then 1 else 0) + nat (5 - z - (if h then 1 else 0)))
     \<longleftrightarrow> 4294967295 < z + (if h then 1 else 0)"
  by (cases h) auto

lemma pushes_neg_limit: "(z::int) < 0 \<Longrightarrow> ((4294967295::nat) < nat z + nat (5 - z)) \<longleftrightarrow> z < - 4294967290"
  by auto

lemma star_pushes_limit:
  "ARRAY_LENGTH_MAX < star_pushes r \<longleftrightarrow>
     \<lfloor>r\<rfloor> < - 4294967290 \<or> 4294967295 < \<lfloor>r\<rfloor> + (if 1 / 2 \<le> r - of_int \<lfloor>r\<rfloor> then 1 else 0)"
proof (cases "0 \<le> r")
  case True
  define h where "h = (1 / 2 \<le> r - of_int \<lfloor>r\<rfloor>)"
  have z: "0 \<le> \<lfloor>r\<rfloor>" using True by simp
  have "star_pushes r = nat \<lfloor>r\<rfloor> + (if h then 1 else 0) + nat (5 - \<lfloor>r\<rfloor> - (if h then 1 else 0))"
    using True by (simp add: star_pushes_def h_def Let_def)
  then have "ARRAY_LENGTH_MAX < star_pushes r \<longleftrightarrow> 4294967295 < \<lfloor>r\<rfloor> + (if h then 1 else 0)"
    using pushes_nonneg_limit [OF z, of h] by (simp only: ARRAY_LENGTH_MAX_def) simp
  with z show ?thesis by (auto simp: h_def)
next
  case False
  then have neg: "\<lfloor>r\<rfloor> < 0" by simp
  have nh: "\<not> 1 / 2 \<le> r - of_int \<lceil>r\<rceil>"
  proof -
    have "r \<le> of_int \<lceil>r\<rceil>" by simp
    then show ?thesis by linarith
  qed
  have "star_pushes r = nat \<lfloor>r\<rfloor> + nat (5 - \<lfloor>r\<rfloor>)"
    using False nh by (simp add: star_pushes_def Let_def)
  then have "ARRAY_LENGTH_MAX < star_pushes r \<longleftrightarrow> \<lfloor>r\<rfloor> < - 4294967290"
    using pushes_neg_limit [OF neg] by (simp only: ARRAY_LENGTH_MAX_def) simp
  then show ?thesis using neg by auto
qed

lemma renderStars_out_of_range:
  "renderStars ''5.5'' = Some (replicate 5 FullStar @ [HalfStar])"
  "renderStars ''-1'' = Some (replicate 6 EmptyStar)"
proof -
  have p1: "parse_float ''5.5'' = Num (11 / 2)" by (simp add: parse_float_evals)
  have f1: "\<lfloor>11 / 2 :: rat\<rfloor> = 5" by simp
  have "renderStars ''5.5'' = Some (replicate (nat 5) FullStar @ [HalfStar] @ replicate (nat (- 1)) EmptyStar)"
    using renderStars_Num [OF p1] by (simp add: f1 star_pushes_def ARRAY_LENGTH_MAX_def)
  then show "renderStars ''5.5'' = Some (replicate 5 FullStar @ [HalfStar])" by simp
  have p2: "parse_float ''-1'' = Num (- 1)" by (simp add: parse_float_evals)
  have f2: "\<lfloor>- 1 :: rat\<rfloor> = - 1" by (rule floor_unique) simp_all
  have f3: "\<lceil>- 1 :: rat\<rceil> = - 1" by (rule ceiling_unique) simp_all
  have "renderStars ''-1'' = Some (replicate (nat (- 1)) FullStar @ [] @ replicate (nat 6) EmptyStar)"
    using renderStars_Num [OF p2] by (simp add: f2 f3 star_pushes_def ARRAY_LENGTH_MAX_def)
  then show "renderStars ''-1'' = Some (replicate 6 EmptyStar)" by simp
qed

subsection \<open>The grid and the drawer\<close>

lemma grid_view_button:
  "grid_view ps isLoading isError g = GridCards cs k True \<Longrightarrow> \<not> isLoadingMore g"
  by (simp add: grid_view_def split: if_splits)

lemma grid_step_inv [inv_intros]: "grid_step g g' \<Longrightarrow> grid_inv g \<Longrightarrow> grid_inv g'"
  by (induction rule: grid_step.induct)
     (auto simp: grid_inv_def handleLoadMore_def load_more_timeout_def dest: grid_view_button)

lemma initial_grid_inv [simp]: "grid_inv initial_grid"
  by (simp add: grid_inv_def initial_grid_def)

lemma grid_round:
  assumes "\<not> isLoadingMore g" "pending_timers g = 0" "(ps :: product list) \<noteq> []"
    "visibleProducts g < length ps"
  shows "grid_step\<^sup>*\<^sup>* g (g\<lparr>visibleProducts := visibleProducts g + 8\<rparr>)"
proof -
  have "grid_view ps False False g = GridCards (take (visibleProducts g) ps) 0 True"
    using assms by (simp add: grid_view_def)
  then have "grid_step g (handleLoadMore g)" by (rule grid_step.click)
  moreover have "grid_step (handleLoadMore g) (load_more_timeout (handleLoadMore g))"
    by (rule grid_step.timeout) (simp add: handleLoadMore_def)
  moreover have "load_more_timeout (handleLoadMore g) = g\<lparr>visibleProducts := visibleProducts g + 8\<rparr>"
    using assms by (simp add: handleLoadMore_def load_more_timeout_def)
  ultimately show ?thesis by (metis rtranclp.rtrancl_into_rtrancl rtranclp.rtrancl_refl)
qed

lemma grid_load_all:
  "\<not> isLoadingMore g \<Longrightarrow> pending_timers g = 0 \<Longrightarrow> (ps :: product list) \<noteq> [] \<Longrightarrow>
     \<exists>g'. grid_step\<^sup>*\<^sup>* g g' \<and> \<not> isLoadingMore g' \<and> pending_timers g' = 0 \<and> length ps \<le> visibleProducts g'"
proof (induction "length ps - visibleProducts g" arbitrary: g rule: less_induct)
  case less
  show ?case
  proof (cases "visibleProducts g < length ps")
    case True
    let ?g = "g\<lparr>visibleProducts := visibleProducts g + 8\<rparr>"
    have "length ps - visibleProducts ?g < length ps - visibleProducts g" using True by simp
    with less.hyps less.prems obtain g' where
      "grid_step\<^sup>*\<^sup>* ?g g'" "\<not> isLoadingMore g'" "pending_timers g' = 0" "length ps \<le> visibleProducts g'"
      by fastforce
    moreover have "grid_step\<^sup>*\<^sup>* g ?g" using grid_round less.prems True by blast
    ultimately show ?thesis by (meson rtranclp_trans)
  next
    case False
    then show ?thesis using less.prems by auto
  qed
qed

lemma drawer_click_line:
  assumes "distinct (map item_id (items c))" "quantities_positive c" "k < length (items c)"
  defines "it \<equiv> items c ! k"
  shows "items (drawer_click c (Plus k)) = (items c)[k := it\<lparr>quantity := quantity it + 1\<rparr>]"
    and "items (drawer_click c (Minus k)) =
           (if quantity it \<le> 1 then items c else (items c)[k := it\<lparr>quantity := quantity it - 1\<rparr>])"
proof -
  have q: "1 \<le> quantity it" using assms(2,3) by (simp add: quantities_positive_def it_def)
  have upd: "\<And>q'. map (\<lambda>i. if item_id i = item_id it then i\<lparr>quantity := q'\<rparr> else i) (items c)
                    = (items c)[k := it\<lparr>quantity := q'\<rparr>]"
    using map_update_distinct [OF assms(1,3)] by (simp add: it_def)
  show "items (drawer_click c (Plus k)) = (items c)[k := it\<lparr>quantity := quantity it + 1\<rparr>]"
    using assms(3) q upd by (simp add: drawer_click_def updateQuantity_def Let_def it_def [symmetric])
  show "items (drawer_click c (Minus k)) =
           (if quantity it \<le> 1 then items c else (items c)[k := it\<lparr>quantity := quantity it - 1\<rparr>])"
    using assms(3) upd by (simp add: drawer_click_def updateQuantity_def Let_def it_def [symmetric])
qed

lemma cart_badge_digits: "0 < n \<Longrightarrow> n \<le> 99 \<Longrightarrow> cart_badge n = Some (nat_digits (nat n))"
proof -
  assume n: "0 < n" "n \<le> 99"
  then have "Num (of_int n) = Num (of_nat (nat n))" by simp
  moreover have "js_to_string (Num (of_nat (nat n))) = nat_digits (nat n)"
    using n by (intro js_to_string_nat) simp_all
  ultimately show ?thesis using n by (simp add: cart_badge_def del: js_to_string.simps)
qed

subsection \<open>Properties of the storefront components\<close>

text \<open>
  C36: a rating that parses to a number between 0 and 5 renders exactly five stars:
  \<open>floor(rating)\<close> full stars, a half star when the fractional part is at least one half,
  and empty stars for the rest.
\<close>

theorem renderStars_five_stars:
  assumes "parse_float s = Num r" "0 \<le> r" "r \<le> 5"
  shows "\<exists>f h e. renderStars s = Some (replicate f FullStar @ (if h then [HalfStar] else [])
                                        @ replicate e EmptyStar)
                 \<and> f = nat \<lfloor>r\<rfloor> \<and> h = (1 / 2 \<le> r - of_int \<lfloor>r\<rfloor>)
                 \<and> f + (if h then 1 else 0) + e = 5"
proof -
  define h where "h = (1 / 2 \<le> r - of_int \<lfloor>r\<rfloor>)"
  have lo: "0 \<le> \<lfloor>r\<rfloor>" using assms(2) by simp
  have hi: "\<lfloor>r\<rfloor> \<le> 5" using assms(3) by (simp add: floor_le_iff)
  have half: "h \<Longrightarrow> \<lfloor>r\<rfloor> \<le> 4"
  proof -
    assume h
    then have "of_int \<lfloor>r\<rfloor> \<le> r - 1 / 2" by (simp add: h_def)
    with assms(3) have "of_int \<lfloor>r\<rfloor> < (5::rat)" by linarith
    then have "\<lfloor>r\<rfloor> < 5" by simp
    then show ?thesis by simp
  qed
  have five: "nat \<lfloor>r\<rfloor> + (if h then 1 else 0) + nat (5 - \<lfloor>r\<rfloor> - (if h then 1 else 0)) = 5"
  proof -
    have "\<And>z::int. 0 \<le> z \<Longrightarrow> z \<le> 5 \<Longrightarrow> (h \<Longrightarrow> z \<le> 4)
            \<Longrightarrow> nat z + (if h then 1 else 0) + nat (5 - z - (if h then 1 else 0)) = 5"
      by (cases h) auto
    then show ?thesis using lo hi half by blast
  qed
  then have "star_pushes r = 5" using assms(2) by (simp add: star_pushes_def h_def Let_def)
  then have "renderStars s = Some (replicate (nat \<lfloor>r\<rfloor>) FullStar @ (if h then [HalfStar] else [])
                              @ replicate (nat (5 - \<lfloor>r\<rfloor> - (if h then 1 else 0))) EmptyStar)"
    using renderStars_Num [OF assms(1)] assms(2) by (simp add: h_def ARRAY_LENGTH_MAX_def)
  moreover note five
  ultimately show ?thesis unfolding h_def by blast
qed

theorem renderStars_five_stars_witness:
  "renderStars ''4.5'' = Some [FullStar, FullStar, FullStar, FullStar, HalfStar]"
proof -
  have p: "parse_float ''4.5'' = Num (9 / 2)" by (simp add: parse_float_evals)
  have fl: "\<lfloor>9 / 2 :: rat\<rfloor> = 4" by simp
  from renderStars_five_stars [OF p] obtain f h e where
    "renderStars ''4.5'' = Some (replicate f FullStar @ (if h then [HalfStar] else []) @ replicate e EmptyStar)"
    "f = 4" "h" "e = 0"
    by (auto simp: fl)
  then show ?thesis by (simp add: numeral_eq_Suc)
qed

text \<open>
  C37: the star rating returns normally exactly when its pushes fit in one array: for a
  rating that parses to \<open>NaN\<close>, or to a finite number whose floor is at least
  \<open>-4294967290\<close> (so that the at most \<open>5 - floor\<close> empty stars fit) and whose full and
  half stars number at most \<open>2^32 - 1\<close>. For \<open>+Infinity\<close>, \<open>-Infinity\<close> and every finite
  rating beyond those bounds, such as \<open>"1e16"\<close>, \<open>push\<close> throws a \<open>RangeError\<close>.
\<close>

theorem renderStars_None_iff:
  "renderStars s = None \<longleftrightarrow>
     parse_float s = PosInf \<or> parse_float s = NegInf
     \<or> (\<exists>r. parse_float s = Num r \<and>
          (\<lfloor>r\<rfloor> < - 4294967290 \<or> 4294967295 < \<lfloor>r\<rfloor> + (if 1 / 2 \<le> r - of_int \<lfloor>r\<rfloor> then 1 else 0)))"
proof (cases "parse_float s")
  case (Num r)
  then show ?thesis by (simp add: renderStars_Num_None star_pushes_limit)
next
  case NaN
  then show ?thesis by (simp add: renderStars_NaN)
qed (simp_all add: renderStars_infinite)

text \<open>
  C38: in every state the grid reaches by clicks on \<open>Load more\<close> and timer callbacks,
  whatever products the parent passes, at most one timer is pending and exactly while the
  grid is loading more, and the number of visible products is a positive multiple of 8.
\<close>

theorem grid_one_timer:
  "grid_step\<^sup>*\<^sup>* initial_grid g \<Longrightarrow>
     pending_timers g = (if isLoadingMore g then 1 else 0) \<and> 8 \<le> visibleProducts g \<and> 8 dvd visibleProducts g"
proof (induction rule: rtranclp_induct)
  case base
  then show ?case by (simp add: initial_grid_def)
next
  case (step g g')
  then have "grid_inv g'" using grid_step_inv by (simp add: grid_inv_def)
  then show ?case by (simp add: grid_inv_def)
qed

theorem grid_one_timer_witness:
  "pending_timers (handleLoadMore initial_grid) = 1 \<and> isLoadingMore (handleLoadMore initial_grid)
   \<and> visibleProducts (handleLoadMore initial_grid) = 8"
proof -
  have "grid_view (replicate 9 example_product) False False initial_grid
          = GridCards (take 8 (replicate 9 example_product)) 0 True"
    by (simp add: grid_view_def initial_grid_def)
  then have "grid_step initial_grid (handleLoadMore initial_grid)" by (rule grid_step.click)
  then have "grid_step\<^sup>*\<^sup>* initial_grid (handleLoadMore initial_grid)" by simp
  from grid_one_timer [OF this] show ?thesis by (simp add: handleLoadMore_def initial_grid_def)
qed

text \<open>
  C39: for any non-empty product list, clicking \<open>Load more\<close> and letting each timer
  fire reaches a state in which the grid shows every product, in order, without skeletons
  and without the button.
\<close>

theorem grid_shows_all:
  "ps \<noteq> [] \<Longrightarrow> \<exists>g. grid_step\<^sup>*\<^sup>* initial_grid g \<and> grid_view ps False False g = GridCards ps 0 False"
proof -
  assume ps: "ps \<noteq> []"
  then obtain g where "grid_step\<^sup>*\<^sup>* initial_grid g" "\<not> isLoadingMore g" "pending_timers g = 0"
    "length ps \<le> visibleProducts g"
    using grid_load_all [of initial_grid ps] by (auto simp: initial_grid_def)
  then show ?thesis using ps by (auto simp: grid_view_def)
qed

theorem grid_shows_all_witness:
  "\<exists>g. grid_step\<^sup>*\<^sup>* initial_grid g
        \<and> grid_view (replicate 9 example_product) False False g = GridCards (replicate 9 example_product) 0 False"
  using grid_shows_all [of "replicate 9 example_product"] by simp

end
