(* ===== verification/Passwords.thy ===== *)
theory Passwords
  imports Http "HOL-Library.Word"
begin

text \<open>
  Password storage of \<open>src/server/auth.ts\<close>: \<open>hashPassword\<close> stores
  \<open>hex(scrypt(password, salt, 64)) + "." + salt\<close> with a salt of 16 random bytes in hex,
  and \<open>comparePasswords\<close> splits the stored string at \<open>"."\<close>, rejects a missing part,
  decodes the hash from hex and compares it with the scrypt digest of the supplied
  password under the stored salt. Bytes are \<open>8 word\<close>. The key derivation \<open>scrypt\<close> and the
  random bytes are arguments. \<open>Buffer.toString("hex")\<close> (\<open>hex_encode\<close>, lowercase) and
  \<open>Buffer.from(s, "hex")\<close> (\<open>hex_decode\<close>, which stops at the first pair that is not
  two hex digits) and \<open>String.prototype.split\<close> on one character are modelled from the
  Node.js and ECMAScript documentation. The lemmas: the hex codec round trip, and that
  \<open>comparePasswords\<close> accepts a stored hash exactly for the passwords with the same digest.
\<close>

unbundle bit_operations_syntax

type_synonym byte = "8 word"

subsection \<open>Hex strings and splitting\<close>

definition hex_digit :: "nat \<Rightarrow> char" where
  "hex_digit d = (if d < 10 then char_of (48 + d) else char_of (87 + d))"

definition byte_hex :: "byte \<Rightarrow> string" where
  "byte_hex b = [hex_digit (unat (drop_bit 4 b)), hex_digit (unat (b AND 15))]"

definition hex_encode :: "byte list \<Rightarrow> string" where
  "hex_encode bs = concat (map byte_hex bs)"

fun hex_decode :: "string \<Rightarrow> byte list" where
  "hex_decode (a # b # rest) =
     (case (hex_value a, hex_value b) of
        (Some x, Some y) \<Rightarrow> word_of_nat (16 * x + y) # hex_decode rest
      | _ \<Rightarrow> [])"
| "hex_decode _ = []"

fun js_split :: "char \<Rightarrow> string \<Rightarrow> string list" where
  "js_split c [] = [[]]"
| "js_split c (x # xs) = (let r = js_split c xs in if x = c then [] # r else (x # hd r) # tl r)"

subsection \<open>Hashing and checking\<close>

definition hashPassword :: "(string \<Rightarrow> string \<Rightarrow> byte list) \<Rightarrow> byte list \<Rightarrow> string \<Rightarrow> string" where
  "hashPassword scrypt rnd pw =
     (let salt = hex_encode rnd; buf = scrypt pw salt in hex_encode buf @ ''.'' @ salt)"

definition comparePasswords :: "(string \<Rightarrow> string \<Rightarrow> byte list) \<Rightarrow> string \<Rightarrow> string \<Rightarrow> bool" where
  "comparePasswords scrypt supplied stored =
     (case js_split (CHR ''.'') stored of
        hashed # salt # _ \<Rightarrow>
          if hashed = [] \<or> salt = [] then False
          else (let hashedBuf = hex_decode hashed; suppliedBuf = scrypt supplied salt
                in if length hashedBuf \<noteq> length suppliedBuf then False else hashedBuf = suppliedBuf)
      | _ \<Rightarrow> False)"


subsection \<open>Nibbles and the hex round trip\<close>

lemma unat_byte_less: "unat (b :: byte) < 256"
  by (rule order_less_le_trans [OF unsigned_less]) simp

lemma unat_hi_nibble: "unat (drop_bit 4 (b :: byte)) = unat b div 16"
  by (simp add: drop_bit_eq_div unat_div)

lemma unat_lo_nibble: "unat ((b :: byte) AND 15) = unat b mod 16"
proof -
  have "(15 :: byte) = mask 4" by (simp add: mask_eq_exp_minus_1)
  then have "b AND 15 = take_bit 4 b" by (simp add: take_bit_eq_mask)
  then have "b AND 15 = b mod 16" by (simp add: take_bit_eq_mod)
  then show ?thesis by (simp add: unat_mod)
qed

lemma nibbles: "16 * unat (drop_bit 4 b) + unat (b AND 15) = unat (b :: byte)"
  by (simp add: unat_hi_nibble unat_lo_nibble)

lemma nibble_bounds: "unat (drop_bit 4 (b :: byte)) < 16" "unat (b AND 15) < 16"
  using unat_byte_less [of b] by (simp_all add: unat_hi_nibble unat_lo_nibble)

lemma hex_value_hex_digit: "d < 16 \<Longrightarrow> hex_value (hex_digit d) = Some d"
  by (auto simp: hex_value_def hex_digit_def char_code_def Let_def)

lemma hex_decode_encode: "hex_decode (hex_encode bs) = bs"
proof (induction bs)
  case (Cons b bs)
  have "word_of_nat (16 * unat (drop_bit 4 b) + unat (b AND 15)) = b"
    by (simp only: nibbles) simp
  with Cons show ?case
    by (simp add: hex_encode_def byte_hex_def hex_value_hex_digit nibble_bounds)
qed (simp add: hex_encode_def)

subsection \<open>Checking a stored hash\<close>

lemma hex_digit_not_dot [simp]: "d < 16 \<Longrightarrow> (CHR ''.'' = hex_digit d) = False"
proof -
  assume "d < 16"
  then have "of_char (hex_digit d) \<noteq> (46 :: nat)" by (simp add: hex_digit_def of_char_of)
  moreover have "of_char (CHR ''.'') = (46 :: nat)" by simp
  ultimately show ?thesis by (metis)
qed

lemma dot_notin_hex_encode: "CHR ''.'' \<notin> set (hex_encode bs)"
  by (auto simp: hex_encode_def byte_hex_def nibble_bounds)

lemma hex_encode_Nil_iff [simp]: "hex_encode bs = [] \<longleftrightarrow> bs = []"
  by (cases bs) (simp_all add: hex_encode_def byte_hex_def)

lemma js_split_no_sep: "c \<notin> set xs \<Longrightarrow> js_split c xs = [xs]"
  by (induction xs) (auto simp: Let_def)

lemma js_split_append: "c \<notin> set xs \<Longrightarrow> js_split c (xs @ c # ys) = xs # js_split c ys"
  by (induction xs) (auto simp: Let_def)

lemma js_split_hashPassword:
  "js_split (CHR ''.'') (hashPassword scrypt rnd p) = [hex_encode (scrypt p (hex_encode rnd)), hex_encode rnd]"
  by (simp add: hashPassword_def Let_def js_split_append js_split_no_sep dot_notin_hex_encode)

lemma comparePasswords_hashPassword:
  assumes "rnd \<noteq> []"
  shows "comparePasswords scrypt q (hashPassword scrypt rnd p) \<longleftrightarrow>
           scrypt p (hex_encode rnd) \<noteq> [] \<and> scrypt q (hex_encode rnd) = scrypt p (hex_encode rnd)"
  using assms by (auto simp: comparePasswords_def Let_def js_split_hashPassword hex_decode_encode)

end
