(* ===== verification/CheckoutPage.thy ===== *)
theory CheckoutPage
  imports Checkout Passwords
begin

text \<open>
  The checkout page of \<open>src/client/src/pages/Checkout.tsx\<close> as a state machine. The
  state is the page's \<open>useState\<close> hooks (the form, the chosen file), the cart and the
  client state the order mutation touches (\<open>checkout_client\<close> of theory \<open>Checkout\<close>),
  the order request in flight (\<open>createOrderMutation.isPending\<close> holds exactly while it is
  there) and \<open>createOrderMutation.isSuccess\<close>. Each \<open>checkout_event\<close> is what a control of
  the page does, with its \<open>disabled\<close> condition as a guard: the text inputs, the file
  input, the document type and payment controls and the submit button are disabled while
  the order is pending, and the submit button also while auth loads or no user is
  logged in (a form whose submit button is disabled is not submitted by Enter). The
  supplier selects are never disabled. \<open>OrderResponse\<close> is the server's answer to the
  request in flight. The auth state is an argument of every step. Before \<open>onSubmit\<close> the
  browser's constraint validation checks the required inputs and the e-mail address.
\<close>

subsection \<open>Page state and events\<close>

record file_info =
  file_name :: string
  file_size :: nat

record checkout_page =
  cp_client :: checkout_client
  cp_form :: checkout_form
  cp_file :: "file_info option"
  cp_inflight :: "order_payload list"
  cp_success :: bool

definition initial_form :: checkout_form where
  "initial_form =
     \<lparr>firstName = [], lastName = [], email = [], address = [], city = [], state = [], zipCode = [],
      paymentMethod = Credit_card, documentName = None, documentType = None\<rparr>"

text \<open>\<open>handleInputChange\<close>: \<open>{...prev, [name]: value}\<close> for the input's \<open>name\<close>. The page's
  seven inputs carry the names of the seven text fields; another name would add a key that
  nothing reads, so the form is unchanged.\<close>

definition set_field :: "string \<Rightarrow> string \<Rightarrow> checkout_form \<Rightarrow> checkout_form" where
  "set_field name v f =
     (if name = ''firstName'' then f\<lparr>firstName := v\<rparr>
      else if name = ''lastName'' then f\<lparr>lastName := v\<rparr>
      else if name = ''email'' then f\<lparr>email := v\<rparr>
      else if name = ''address'' then f\<lparr>address := v\<rparr>
      else if name = ''city'' then f\<lparr>city := v\<rparr>
      else if name = ''state'' then f\<lparr>state := v\<rparr>
      else if name = ''zipCode'' then f\<lparr>zipCode := v\<rparr>
      else f)"

text \<open>\<open>handleSupplierChange(item.id, parseInt(value))\<close> for the \<open>SelectItem\<close> of a supplier,
  whose value is \<open>supplier.id.toString()\<close>. Those values always parse, so the branch where
  \<open>parseInt\<close> gives NaN is never taken (the cart is then left as it is).\<close>

definition handleSupplierChange :: "int \<Rightarrow> supplier \<Rightarrow> cart \<Rightarrow> cart" where
  "handleSupplierChange iid s c =
     (case js_parse_int (js_to_string (Num (of_int (supplier_id s)))) of
        Some sid \<Rightarrow> updateSupplier iid sid c
      | None \<Rightarrow> c)"

definition MAX_FILE_SIZE :: nat where
  "MAX_FILE_SIZE = 10 * 1024 * 1024"

datatype checkout_event =
    InputChange string string
  | SelectSupplier int supplier
  | ChooseFiles "file_info list"
  | RemoveFile
  | ChooseDocumentType document_type
  | ChoosePayment payment_method
  | SubmitForm
  | OrderResponse "string + order"

definition pending :: "checkout_page \<Rightarrow> bool" where
  "pending pg \<longleftrightarrow> cp_inflight pg \<noteq> []"

definition set_notice :: "string \<Rightarrow> checkout_page \<Rightarrow> checkout_page" where
  "set_notice msg pg = pg\<lparr>cp_client := (cp_client pg)\<lparr>notice := Some msg\<rparr>\<rparr>"

text \<open>\<open>handleFileChange\<close>: the first chosen file, refused above 10 MiB.\<close>

definition handleFileChange :: "file_info list \<Rightarrow> checkout_page \<Rightarrow> checkout_page" where
  "handleFileChange fs pg =
     (case fs of
        [] \<Rightarrow> pg
      | f # _ \<Rightarrow>
          if file_size f > MAX_FILE_SIZE then set_notice ''File too large'' pg
          else set_notice ''Document uploaded''
                 (pg\<lparr>cp_file := Some f, cp_form := (cp_form pg)\<lparr>documentName := Some (file_name f)\<rparr>\<rparr>))"

definition submit_env_of :: "bool \<Rightarrow> user option \<Rightarrow> checkout_page \<Rightarrow> submit_env" where
  "submit_env_of authLoading u pg =
     \<lparr>isAuthLoading = authLoading, auth_user = u, env_cart = cc_cart (cp_client pg),
      formData = cp_form pg, selectedFile = map_option file_name (cp_file pg)\<rparr>"

text \<open>The form's \<open>onSubmit\<close>: the guards of \<open>handleSubmit\<close> become notices; a payload is
  sent and joins the requests in flight, whose answers arrive in order.\<close>

definition submit :: "bool \<Rightarrow> user option \<Rightarrow> checkout_page \<Rightarrow> checkout_page" where
  "submit authLoading u pg =
     (case handleSubmit (submit_env_of authLoading u pg) of
        AuthError \<Rightarrow> set_notice ''Authentication Error'' pg
      | SupplierError \<Rightarrow> set_notice ''Please select suppliers'' pg
      | DocumentError \<Rightarrow> set_notice ''Document required'' pg
      | Mutate pl \<Rightarrow> pg\<lparr>cp_inflight := cp_inflight pg @ [pl]\<rparr>)"

text \<open>The browser's constraint validation of the form (HTML, 4.10.5): every text input is
  \<open>required\<close> (an empty value blocks submission), and the \<open>type="email"\<close> input must hold a
  valid e-mail address: a non-empty local part of the characters the standard allows, an
  \<open>@\<close>, and dot-separated labels of 1 to 63 letters, digits and hyphens, neither starting
  nor ending with a hyphen. While validation fails the form's \<open>onSubmit\<close> is not called.\<close>

definition is_alnum :: "char \<Rightarrow> bool" where
  "is_alnum c \<longleftrightarrow> (48 \<le> char_code c \<and> char_code c \<le> 57) \<or> (65 \<le> char_code c \<and> char_code c \<le> 90)
                   \<or> (97 \<le> char_code c \<and> char_code c \<le> 122)"

definition email_local_char :: "char \<Rightarrow> bool" where
  "email_local_char c \<longleftrightarrow>
     is_alnum c \<or> char_code c \<in> set [33, 35, 36, 37, 38, 39, 42, 43, 45, 46, 47, 61, 63, 94, 95, 96, 123, 124, 125, 126]"

definition valid_label :: "string \<Rightarrow> bool" where
  "valid_label l \<longleftrightarrow> l \<noteq> [] \<and> length l \<le> 63 \<and> list_all (\<lambda>c. is_alnum c \<or> c = CHR ''-'') l
                     \<and> is_alnum (hd l) \<and> is_alnum (last l)"

definition valid_email :: "string \<Rightarrow> bool" where
  "valid_email s =
     (case js_split (CHR ''@'') s of
        [l, d] \<Rightarrow> l \<noteq> [] \<and> list_all email_local_char l \<and> list_all valid_label (js_split (CHR ''.'') d)
      | _ \<Rightarrow> False)"

definition form_valid :: "checkout_form \<Rightarrow> bool" where
  "form_valid f \<longleftrightarrow>
     firstName f \<noteq> [] \<and> lastName f \<noteq> [] \<and> valid_email (email f) \<and> address f \<noteq> []
     \<and> city f \<noteq> [] \<and> state f \<noteq> [] \<and> zipCode f \<noteq> []"

fun page_step :: "bool \<Rightarrow> user option \<Rightarrow> checkout_page \<Rightarrow> checkout_event \<Rightarrow> checkout_page" where
  "page_step au u pg (InputChange name v) =
     (if pending pg then pg else pg\<lparr>cp_form := set_field name v (cp_form pg)\<rparr>)"
| "page_step au u pg (SelectSupplier iid s) =
     pg\<lparr>cp_client := (cp_client pg)\<lparr>cc_cart := handleSupplierChange iid s (cc_cart (cp_client pg))\<rparr>\<rparr>"
| "page_step au u pg (ChooseFiles fs) = (if pending pg then pg else handleFileChange fs pg)"
| "page_step au u pg RemoveFile =
     (if pending pg \<or> cp_file pg = None then pg
      else pg\<lparr>cp_file := None, cp_form := (cp_form pg)\<lparr>documentName := None\<rparr>\<rparr>)"
| "page_step au u pg (ChooseDocumentType dt) =
     (if pending pg then pg else pg\<lparr>cp_form := (cp_form pg)\<lparr>documentType := Some dt\<rparr>\<rparr>)"
| "page_step au u pg (ChoosePayment pm) =
     (if pending pg then pg else pg\<lparr>cp_form := (cp_form pg)\<lparr>paymentMethod := pm\<rparr>\<rparr>)"
| "page_step au u pg SubmitForm =
     (if pending pg \<or> au \<or> u = None then pg else if \<not> form_valid (cp_form pg) then pg else submit au u pg)"
| "page_step au u pg (OrderResponse r) =
     (if \<not> pending pg then pg
      else pg\<lparr>cp_inflight := tl (cp_inflight pg), cp_success := (case r of Inr _ \<Rightarrow> True | Inl _ \<Rightarrow> cp_success pg),
              cp_client := on_order_result (cp_client pg) r\<rparr>)"

fun page_run :: "bool \<Rightarrow> user option \<Rightarrow> checkout_page \<Rightarrow> checkout_event list \<Rightarrow> checkout_page" where
  "page_run au u pg [] = pg"
| "page_run au u pg (e # es) = page_run au u (page_step au u pg e) es"

text \<open>The page shows the empty-cart panel when the cart is empty and no order has
  succeeded yet, and the form otherwise.\<close>

definition shows_empty_cart :: "checkout_page \<Rightarrow> bool" where
  "shows_empty_cart pg \<longleftrightarrow> items (cc_cart (cp_client pg)) = [] \<and> \<not> cp_success pg"

definition initial_page :: "cart \<Rightarrow> checkout_page" where
  "initial_page c =
     \<lparr>cp_client = \<lparr>cc_cart = c, admin_orders_stale = False, location = ''/checkout'', notice = None\<rparr>,
      cp_form = initial_form, cp_file = None, cp_inflight = [], cp_success = False\<rparr>"

definition page_inv :: "checkout_page \<Rightarrow> bool" where
  "page_inv pg \<longleftrightarrow> length (cp_inflight pg) \<le> 1
                  \<and> (case cp_file pg of Some f \<Rightarrow> file_size f \<le> MAX_FILE_SIZE | None \<Rightarrow> True)"

subsection \<open>Lemmas\<close>

lemma set_notice_fields [simp]:
  "cp_inflight (set_notice m pg) = cp_inflight pg" "cp_file (set_notice m pg) = cp_file pg"
  "cp_form (set_notice m pg) = cp_form pg"
  by (simp_all add: set_notice_def)

lemma submit_fields:
  "cp_file (submit au u pg) = cp_file pg" "cp_form (submit au u pg) = cp_form pg"
  "cp_inflight (submit au u pg) = cp_inflight pg \<or>
     (\<exists>pl. handleSubmit (submit_env_of au u pg) = Mutate pl \<and> cp_inflight (submit au u pg) = cp_inflight pg @ [pl])"
  by (auto simp: submit_def split: submit_result.splits)

lemma handleFileChange_fields:
  "cp_inflight (handleFileChange fs pg) = cp_inflight pg"
  "documentType (cp_form (handleFileChange fs pg)) = documentType (cp_form pg)"
  by (auto simp: handleFileChange_def split: list.splits)

lemma handleFileChange_size:
  "cp_file (handleFileChange fs pg) = Some f \<Longrightarrow> cp_file pg = Some f \<or> file_size f \<le> MAX_FILE_SIZE"
  by (auto simp: handleFileChange_def split: list.splits if_splits)

lemma page_step_inv [inv_intros]: "page_inv pg \<Longrightarrow> page_inv (page_step au u pg e)"
proof (cases e)
  case SubmitForm
  assume inv: "page_inv pg"
  show ?thesis
  proof (cases "pending pg \<or> au \<or> u = None")
    case False
    then have "cp_inflight pg = []" by (simp add: pending_def)
    with inv show ?thesis using SubmitForm False submit_fields [of au u pg]
      by (auto simp: page_inv_def)
  qed (use inv SubmitForm in simp)
next
  case (ChooseFiles fs)
  assume inv: "page_inv pg"
  then show ?thesis using ChooseFiles handleFileChange_size [of fs pg] handleFileChange_fields(1) [of fs pg]
    by (auto simp: page_inv_def split: option.splits)
qed (auto simp: page_inv_def set_field_def split: option.splits)

lemma page_run_inv: "page_inv pg \<Longrightarrow> page_inv (page_run au u pg es)"
  by (induction es arbitrary: pg) (simp_all add: page_step_inv)

lemma page_step_documentType:
  "documentType (cp_form pg) \<noteq> None \<Longrightarrow> documentType (cp_form (page_step au u pg e)) \<noteq> None"
  by (cases e) (auto simp: set_field_def submit_fields handleFileChange_fields)

lemma page_run_documentType:
  "documentType (cp_form pg) \<noteq> None \<Longrightarrow> documentType (cp_form (page_run au u pg es)) \<noteq> None"
proof (induction es arbitrary: pg)
  case (Cons e es)
  show ?case
    by (simp only: page_run.simps) (rule Cons.IH [OF page_step_documentType [OF Cons.prems]])
qed simp

lemma handleSupplierChange_SUPPLIERS:
  "s \<in> set SUPPLIERS \<Longrightarrow> handleSupplierChange iid s c = updateSupplier iid (supplier_id s) c"
proof -
  assume "s \<in> set SUPPLIERS"
  then have "0 < supplier_id s" "supplier_id s < 10 ^ 21" by (auto simp: SUPPLIERS_def)
  then have "js_parse_int (js_to_string (Num (of_int (supplier_id s)))) = Some (supplier_id s)"
    by (rule js_parse_int_print)
  then show ?thesis by (simp add: handleSupplierChange_def del: js_to_string.simps)
qed

subsection \<open>Properties of the checkout page\<close>

text \<open>
  C10. From the page's first render, whatever the user does and whatever the server
  answers, at most one order request is in flight (the submit button and the inputs are
  disabled while it is), and a file larger than 10 MiB is never attached.
\<close>

theorem checkout_one_order_in_flight:
  "length (cp_inflight (page_run au u (initial_page c) es)) \<le> 1
   \<and> (case cp_file (page_run au u (initial_page c) es) of
        Some f \<Rightarrow> file_size f \<le> MAX_FILE_SIZE | None \<Rightarrow> True)"
proof -
  have "page_inv (initial_page c)" by (simp add: page_inv_def initial_page_def)
  then have "page_inv (page_run au u (initial_page c) es)" by (rule page_run_inv)
  then show ?thesis by (simp add: page_inv_def)
qed

text \<open>
  C3. A document type, once chosen, cannot be cleared: no control of the page sets it back
  (the select offers only the three types, and removing the file keeps it), so while no
  file is attached every submission is refused before any request, although the
  \<open>Document required\<close> notice asks to "deselect the document type".
\<close>

theorem document_type_cannot_be_cleared:
  assumes "documentType (cp_form pg) \<noteq> None"
  shows "documentType (cp_form (page_run au u pg es)) \<noteq> None
         \<and> (cp_file (page_run au u pg es) = None \<longrightarrow>
              (\<forall>pl. handleSubmit (submit_env_of au u (page_run au u pg es)) \<noteq> Mutate pl))"
  using page_run_documentType [OF assms]
  by (auto simp: handleSubmit_def submit_env_of_def split: option.splits bool.splits)

theorem document_type_cannot_be_cleared_witness:
  "documentType (cp_form ((initial_page defaultCart)\<lparr>cp_form := initial_form\<lparr>documentType := Some Other\<rparr>\<rparr>)) \<noteq> None
   \<and> documentType (cp_form (page_run False (Some example_user) ((initial_page defaultCart)\<lparr>cp_form := initial_form\<lparr>documentType := Some Other\<rparr>\<rparr>)
        [ChooseFiles [\<lparr>file_name = ''id.pdf'', file_size = 2000\<rparr>], RemoveFile, SubmitForm])) \<noteq> None
   \<and> cp_file (page_run False (Some example_user) ((initial_page defaultCart)\<lparr>cp_form := initial_form\<lparr>documentType := Some Other\<rparr>\<rparr>) [ChooseFiles [\<lparr>file_name = ''id.pdf'', file_size = 2000\<rparr>], RemoveFile, SubmitForm]) = None
   \<and> (\<forall>pl. handleSubmit (submit_env_of False (Some example_user)
        (page_run False (Some example_user) ((initial_page defaultCart)\<lparr>cp_form := initial_form\<lparr>documentType := Some Other\<rparr>\<rparr>) [ChooseFiles [\<lparr>file_name = ''id.pdf'', file_size = 2000\<rparr>], RemoveFile, SubmitForm])) \<noteq> Mutate pl)"
proof -
  have "cp_file (page_run False (Some example_user) ((initial_page defaultCart)\<lparr>cp_form := initial_form\<lparr>documentType := Some Other\<rparr>\<rparr>) [ChooseFiles [\<lparr>file_name = ''id.pdf'', file_size = 2000\<rparr>], RemoveFile, SubmitForm]) = None"
    by (simp add: handleFileChange_def MAX_FILE_SIZE_def submit_fields pending_def set_notice_def
        initial_page_def Let_def)
  then show ?thesis
    using document_type_cannot_be_cleared [of "((initial_page defaultCart)\<lparr>cp_form := initial_form\<lparr>documentType := Some Other\<rparr>\<rparr>)"
      False "Some example_user" "[ChooseFiles [\<lparr>file_name = ''id.pdf'', file_size = 2000\<rparr>], RemoveFile, SubmitForm]"]
    by simp
qed

subsection \<open>Constraint validation\<close>

lemma valid_email_examples:
  "valid_email ''jane@example.com'' \<and> valid_email ''a@localhost'' \<and> \<not> valid_email ''jane@''
   \<and> \<not> valid_email ''@example.com'' \<and> \<not> valid_email ''a@b@c.com'' \<and> \<not> valid_email ''a@-x.com''
   \<and> \<not> valid_email ''a b@c.com'' \<and> \<not> valid_email ''a@b..com''"
  by (simp add: valid_email_def valid_label_def email_local_char_def is_alnum_def char_code_def)

lemma page_step_appends:
  assumes "cp_inflight (page_step au u pg e) = cp_inflight pg @ [pl]"
  shows "e = SubmitForm \<and> form_valid (cp_form pg) \<and> handleSubmit (submit_env_of au u pg) = Mutate pl"
proof (cases e)
  case SubmitForm
  have "cp_inflight (page_step au u pg SubmitForm) \<noteq> cp_inflight pg" using assms SubmitForm by simp
  then have v: "\<not> (pending pg \<or> au \<or> u = None)" "form_valid (cp_form pg)"
    by (auto split: if_splits)
  then have "cp_inflight (submit au u pg) = cp_inflight pg @ [pl]" using assms SubmitForm by (auto split: if_splits)
  then have "handleSubmit (submit_env_of au u pg) = Mutate pl"
    using submit_fields(3) [of au u pg] by auto
  with v SubmitForm show ?thesis by simp
next
  case (OrderResponse r)
  then have "length (cp_inflight (page_step au u pg e)) \<le> length (cp_inflight pg)" by simp
  with assms show ?thesis by simp
qed (use assms in \<open>auto simp: handleFileChange_def set_notice_def split: if_splits list.splits\<close>)

text \<open>Every order request the page sends carries the form's address, which the browser
  has checked to be a valid e-mail address, and non-empty address fields.\<close>

lemma sent_order_valid_email:
  assumes "cp_inflight (page_step au u pg e) = cp_inflight pg @ [pl]"
  shows "valid_email (pl_customerEmail pl) \<and> pl_customerEmail pl = email (cp_form pg)"
proof -
  have "form_valid (cp_form pg)" and m: "handleSubmit (submit_env_of au u pg) = Mutate pl"
    using page_step_appends [OF assms] by simp_all
  moreover obtain usr where "pl = build_payload usr (env_cart (submit_env_of au u pg)) (formData (submit_env_of au u pg))"
    using handleSubmit_Mutate [OF m] by blast
  ultimately show ?thesis by (simp add: form_valid_def build_payload_def submit_env_of_def)
qed

end
