(* ===== verification/CheckoutView.thy ===== *)
theory CheckoutView
  imports CheckoutPage Storefront
begin

text \<open>
  What the checkout page of \<open>src/client/src/pages/Checkout.tsx\<close> shows: the order
  summary (\<open>formatPrice\<close> of \<open>calculateTotalWithShipping()\<close>), each cart line with its
  supplier select and the supplier options (\<open>SupplierRating\<close> with \<open>toFixed(1)\<close>), the
  chosen file with its size, and the submit button's state and label. The views are
  functions of the page state of theory \<open>CheckoutPage\<close>.
\<close>

subsection \<open>Number formatting\<close>

text \<open>The page's own \<open>formatPrice\<close>, a copy of the drawer's.\<close>

definition checkout_formatPrice :: "price_val \<Rightarrow> string" where
  "checkout_formatPrice p = to_fixed2 (case p of PriceStr s \<Rightarrow> parse_float s | PriceNum x \<Rightarrow> x)"

text \<open>\<open>Number.prototype.toFixed(1)\<close> (ECMAScript 21.1.3.3): below \<open>10^21\<close> the integer
  \<open>n\<close> nearest to \<open>10 x\<close>, the larger on a tie, printed with one decimal; a negative
  number prints its absolute value after a minus sign.\<close>

definition tenths_string :: "nat \<Rightarrow> char list" where
  "tenths_string n =
     (let m = nat_digits n; m' = replicate (2 - length m) (CHR ''0'') @ m
      in take (length m' - 1) m' @ ''.'' @ drop (length m' - 1) m')"

definition round_tenths :: "rat \<Rightarrow> nat" where
  "round_tenths x = nat \<lfloor>10 * x + 1 / 2\<rfloor>"

fun to_fixed1 :: "jsnum \<Rightarrow> char list" where
  "to_fixed1 (Num x) =
     (if 10 ^ 21 \<le> \<bar>x\<bar> then js_to_string (Num x)
      else if x < 0 then CHR ''-'' # tenths_string (round_tenths (- x))
      else tenths_string (round_tenths x))"
| "to_fixed1 y = js_to_string y"

subsection \<open>The order summary and the cart lines\<close>

record summary_view =
  sv_subtotal :: string
  sv_shipping :: string
  sv_total :: string

definition summary_view :: "cart \<Rightarrow> summary_view" where
  "summary_view c =
     (let t = calculateTotalWithShipping c
      in \<lparr>sv_subtotal = ''$'' @ checkout_formatPrice (PriceNum (subtotal t)),
          sv_shipping = ''$'' @ checkout_formatPrice (PriceNum (shipping t)),
          sv_total = ''$'' @ checkout_formatPrice (PriceNum (grand_total t))\<rparr>)"

record item_line_view =
  lv_name :: string
  lv_qty :: string
  lv_price :: string
  lv_select :: string

text \<open>A cart line: name, quantity, unit price, and the value of its supplier select,
  \<open>item.selectedSupplierId?.toString() || ""\<close> (a printed number is never empty).\<close>

definition select_value :: "cart_item \<Rightarrow> string" where
  "select_value i = (case selectedSupplierId i of Some sid \<Rightarrow> js_to_string (Num (of_int sid)) | None \<Rightarrow> [])"

definition item_line_view :: "cart_item \<Rightarrow> item_line_view" where
  "item_line_view i =
     \<lparr>lv_name = item_name i, lv_qty = ''Qty: '' @ js_to_string (Num (of_int (quantity i))),
      lv_price = ''$'' @ checkout_formatPrice (item_price i) @ '' each'', lv_select = select_value i\<rparr>"

text \<open>\<open>SupplierRating\<close>: five stars, the \<open>i\<close>-th filled when \<open>i < Math.floor(rating)\<close>, and
  the rating with one decimal.\<close>

definition supplier_stars :: "rat \<Rightarrow> bool list" where
  "supplier_stars r = map (\<lambda>i. int i < \<lfloor>r\<rfloor>) [0..<5]"

record supplier_option_view =
  ov_value :: string
  ov_name :: string
  ov_fee :: string
  ov_stars :: "bool list"
  ov_rating :: string
  ov_delivery :: string

definition supplier_option :: "supplier \<Rightarrow> supplier_option_view" where
  "supplier_option s =
     \<lparr>ov_value = js_to_string (Num (of_int (supplier_id s))), ov_name = supplier_name s,
      ov_fee = ''+$'' @ checkout_formatPrice (PriceNum (Num (shippingFee s))) @ '' shipping'',
      ov_stars = supplier_stars (supplier_rating s), ov_rating = to_fixed1 (Num (supplier_rating s)),
      ov_delivery = deliveryTime s\<rparr>"

subsection \<open>The file panel and the submit button\<close>

text \<open>With a chosen file, its name and \<open>(size / 1024 / 1024).toFixed(2)\<close> MB; without
  one, the upload prompt (\<open>None\<close>).\<close>

definition file_panel :: "file_info option \<Rightarrow> (string \<times> string) option" where
  "file_panel f =
     map_option (\<lambda>fi. (file_name fi, to_fixed2 (Num (of_nat (file_size fi) / 1024 / 1024)) @ '' MB'')) f"

definition submit_button :: "bool \<Rightarrow> user option \<Rightarrow> checkout_page \<Rightarrow> bool \<times> string" where
  "submit_button authLoading u pg =
     (pending pg \<or> authLoading \<or> u = None, if pending pg then ''Placing Order...'' else ''Place Order'')"

text \<open>The document type select and the payment radios: the value each option carries
  and its label. The alert under the file input shows while a document type is chosen
  and no file is.\<close>

definition document_type_options :: "(document_type \<times> string \<times> string) list" where
  "document_type_options =
     [(Id_verification, ''id_verification'', ''ID Verification''),
      (Proof_of_address, ''proof_of_address'', ''Proof of Address''), (Other, ''other'', ''Other Document'')]"

definition payment_options :: "(payment_method \<times> string \<times> string) list" where
  "payment_options =
     [(Credit_card, ''credit_card'', ''Credit Card''), (Cash, ''cash'', ''Cash''),
      (Bank_transfer, ''bank_transfer'', ''Bank Transfer'')]"

definition document_alert :: "checkout_page \<Rightarrow> bool" where
  "document_alert pg \<longleftrightarrow> documentType (cp_form pg) \<noteq> None \<and> cp_file pg = None"

subsection \<open>Lemmas\<close>

text \<open>The page's \<open>formatPrice\<close> is the drawer's.\<close>

lemma checkout_formatPrice_eq: "checkout_formatPrice = formatPrice"
  by (simp add: fun_eq_iff checkout_formatPrice_def formatPrice_def)

text \<open>The total the summary shows is the \<open>totalAmount\<close> of the order the page sends.\<close>

lemma summary_total_is_payload:
  assumes "handleSubmit (submit_env_of au u pg) = Mutate pl"
  shows "sv_total (summary_view (cc_cart (cp_client pg))) = ''$'' @ pl_totalAmount pl"
  using handleSubmit_Mutate [OF assms]
  by (auto simp: summary_view_def checkout_formatPrice_def build_payload_def submit_env_of_def Let_def)

text \<open>After a supplier is picked for a line, that line's select shows the picked option.\<close>

lemma select_shows_choice:
  assumes "s \<in> set SUPPLIERS" and "i \<in> set (items (handleSupplierChange iid s c))" and "item_id i = iid"
  shows "select_value i = ov_value (supplier_option s)"
proof -
  have "i \<in> (\<lambda>i. if item_id i = iid then i\<lparr>selectedSupplierId := Some (supplier_id s)\<rparr> else i) ` set (items c)"
    using assms(2) unfolding handleSupplierChange_SUPPLIERS [OF assms(1)] updateSupplier_def
    by (simp add: set_map del: image_iff)
  then obtain j where j: "i = (if item_id j = iid then j\<lparr>selectedSupplierId := Some (supplier_id s)\<rparr> else j)"
    by blast
  have "selectedSupplierId i = Some (supplier_id s)"
  proof (cases "item_id j = iid")
    case True
    then show ?thesis using j by simp
  next
    case False
    then show ?thesis using j assms(3) by simp
  qed
  moreover have "ov_value (supplier_option s) = js_to_string (Num (of_int (supplier_id s)))"
    by (simp only: supplier_option_def supplier_option_view.select_convs)
  ultimately show ?thesis by (simp only: select_value_def option.case)
qed

text \<open>The button's \<open>disabled\<close> and the browser's validation are the guards of the
  submit step.\<close>

lemma submit_button_guard:
  "page_step au u pg SubmitForm =
     (if fst (submit_button au u pg) \<or> \<not> form_valid (cp_form pg) then pg else submit au u pg)"
  by (simp add: submit_button_def)

lemma submit_button_pending_label:
  "pending pg \<Longrightarrow> submit_button au u pg = (True, ''Placing Order...'')"
  by (simp add: submit_button_def)

text \<open>Whole cents add up: the shown total of two cent amounts is the sum of the shown
  parts, with no rounding in between.\<close>

lemma round_cents_of_cents [simp]: "round_cents (of_nat a / 100) = a"
proof -
  have "100 * (of_nat a / 100) + 1 / 2 = (of_nat a :: rat) + 1 / 2" by simp
  moreover have "\<lfloor>(of_nat a :: rat) + 1 / 2\<rfloor> = int a" by (rule floor_unique) simp_all
  ultimately show ?thesis by (simp add: round_cents_def)
qed

lemma cents_add: "(of_nat a / 100 :: rat) + of_nat b / 100 = of_nat (a + b) / 100"
  by (simp add: add_divide_distrib)

lemma to_fixed2_cents_amount:
  assumes "a < 10 ^ 23"
  shows "to_fixed2 (Num (of_nat a / 100)) = cents_string a"
proof -
  have "(of_nat a :: rat) < 10 ^ 23" using assms by (metis of_nat_less_iff of_nat_numeral of_nat_power)
  then have lt: "of_nat a / 100 < (10 ^ 21 :: rat)" by simp
  have "to_fixed2 (Num (of_nat a / 100)) = cents_string (round_cents (of_nat a / 100))"
    by (rule to_fixed2_nonneg [OF _ lt]) simp
  then show ?thesis by simp
qed

lemma to_fixed1_nonneg:
  assumes "0 \<le> r" and "r < 10 ^ 21"
  shows "to_fixed1 (Num r) = tenths_string (round_tenths r)"
proof -
  have "\<not> 10 ^ 21 \<le> \<bar>r\<bar>" "\<not> r < 0" using assms by simp_all
  then show ?thesis by (simp only: to_fixed1.simps if_not_P if_False)
qed

lemma summary_view_cents:
  assumes "calculateTotalWithShipping c = \<lparr>subtotal = Num (of_nat a / 100), shipping = Num (of_nat b / 100),
             grand_total = Num (of_nat a / 100) + Num (of_nat b / 100)\<rparr>"
    and "a + b < 10 ^ 23"
  shows "summary_view c = \<lparr>sv_subtotal = ''$'' @ cents_string a, sv_shipping = ''$'' @ cents_string b,
                           sv_total = ''$'' @ cents_string (a + b)\<rparr>"
proof -
  have sum: "Num (of_nat a / 100) + Num (of_nat b / 100) = Num (of_nat (a + b) / 100)"
    by (simp add: plus_jsnum_def cents_add)
  have "a < 10 ^ 23" "b < 10 ^ 23" using assms(2) by simp_all
  with assms(2) show ?thesis
    unfolding summary_view_def checkout_formatPrice_def assms(1) sum Let_def
    by (simp only: totals.select_convs price_val.case to_fixed2_cents_amount)
qed

text \<open>The first supplier as the select lists it.\<close>

lemma fast_express_option:
  "supplier_option (hd SUPPLIERS) =
     \<lparr>ov_value = ''1'', ov_name = ''Fast Express'', ov_fee = ''+$5.99 shipping'',
      ov_stars = [True, True, True, True, False], ov_rating = ''4.5'', ov_delivery = ''1-2 days''\<rparr>"
proof -
  have "\<lfloor>(4.5 :: rat)\<rfloor> = 4" by (rule floor_unique) simp_all
  moreover have "round_tenths 4.5 = 45"
  proof -
    have "\<lfloor>10 * (4.5 :: rat) + 1 / 2\<rfloor> = 45" by (rule floor_unique) simp_all
    then show ?thesis by (simp add: round_tenths_def)
  qed
  moreover have "round_cents 5.99 = 599"
  proof -
    have "\<lfloor>100 * (5.99 :: rat) + 1 / 2\<rfloor> = 599" by (rule floor_unique) simp_all
    then show ?thesis by (simp add: round_cents_def)
  qed
  ultimately show ?thesis
    by (simp add: supplier_option_def SUPPLIERS_def supplier_stars_def checkout_formatPrice_def upt_rec
        tenths_string_def cents_string_def nat_digits.simps [of 45] nat_digits.simps [of 4]
        nat_digits.simps [of 599] nat_digits.simps [of 59] nat_digits.simps [of 5]
        js_to_string_of_nat [of 1, simplified] nat_digits.simps [of "Suc 0"] digit_char_def)
qed

text \<open>The largest accepted file shows as 10.00 MB.\<close>

lemma file_panel_max:
  "file_panel (Some \<lparr>file_name = n, file_size = MAX_FILE_SIZE\<rparr>) = Some (n, ''10.00 MB'')"
proof -
  have e: "(of_nat MAX_FILE_SIZE :: rat) / 1024 / 1024 = of_nat 1000 / 100" by (simp add: MAX_FILE_SIZE_def)
  have c: "cents_string 1000 = ''10.00''"
    by (simp add: cents_string_def nat_digits.simps [of 1000] nat_digits.simps [of 100]
        nat_digits.simps [of 10] nat_digits.simps [of "Suc 0"] digit_char_def)
  have "to_fixed2 (Num (of_nat MAX_FILE_SIZE / 1024 / 1024)) = ''10.00''"
  proof -
    have "(1000 :: nat) < 10 ^ 23" by simp
    then show ?thesis unfolding e by (simp only: to_fixed2_cents_amount c)
  qed
  then show ?thesis by (simp only: file_panel_def option.map file_info.select_convs) simp
qed

text \<open>Each payment radio carries the string the order payload sends for its method, and
  the radios cover every method.\<close>

lemma payment_options_complete:
  "list_all (\<lambda>(m, v, l). payment_method_str m = v) payment_options \<and> fst ` set payment_options = UNIV"
proof -
  have "m \<in> fst ` set payment_options" for m
    by (cases m) (force simp: payment_options_def)+
  then show ?thesis by (auto simp: payment_options_def)
qed

lemma document_type_options_complete: "fst ` set document_type_options = UNIV"
proof -
  have "d \<in> fst ` set document_type_options" for d
    by (cases d) (force simp: document_type_options_def)+
  then show ?thesis by auto
qed

text \<open>While the alert shows, no submission sends an order.\<close>

lemma document_alert_blocks_submit:
  "document_alert pg \<Longrightarrow> handleSubmit (submit_env_of au u pg) \<noteq> Mutate pl"
  by (auto simp: document_alert_def handleSubmit_def submit_env_of_def split: option.splits bool.splits)

end
