(* ===== verification/Layout.thy ===== *)
theory Layout
  imports Home Storefront
begin

text \<open>
  The page shell of the catalog on a narrow screen: the header
  (\<open>src/client/src/components/Header.tsx\<close>) with its search boxes, its mobile-search and
  filter toggles and its user links, and the mobile filter panel
  (\<open>MobileFilters.tsx\<close>) as a component that Home mounts while
  \<open>isMobileFiltersOpen\<close> holds. Mounting runs the panel's \<open>useState\<close> initialisers
  (\<open>mobile_open\<close> of theory \<open>Home\<close>), so each opening starts from the page's current
  filters; unmounting drops the panel's local state. The panel's controls change only
  that local state; \<open>Apply\<close>, \<open>Reset\<close> and the close button act on the page.
  The panel's radio groups can only emit their own values; its category radios are
  those of \<open>PRODUCT_CATEGORIES\<close>, which has no \<open>all\<close>. The grid's \<open>Reset Filters\<close>
  button (\<open>ProductGrid.tsx\<close>) resets the page when the grid is empty and the panel
  closed.
\<close>

subsection \<open>The header\<close>

text \<open>The user links: \<open>Login\<close> for a guest; for a user, the name, an \<open>Admin\<close> link when
  \<open>user.isAdmin\<close> is truthy, and the logout button.\<close>

datatype header_links = GuestLinks | UserLinks string bool

definition header_links :: "user option \<Rightarrow> header_links" where
  "header_links u =
     (case u of None \<Rightarrow> GuestLinks | Some usr \<Rightarrow> UserLinks (username usr) (user_isAdmin usr = Some True))"

text \<open>The page heading and the count under it.\<close>

definition category_heading :: "string \<Rightarrow> string" where
  "category_heading c = (if c = ''all'' then ''All Products'' else category_label c)"

definition showing_text :: "nat \<Rightarrow> string" where
  "showing_text n =
     ''Showing '' @ js_to_string (Num (of_nat n)) @ '' product'' @ (if n \<noteq> 1 then ''s'' else '''')"

text \<open>The desktop search box of the header: typing calls \<open>onSearch(e.target.value)\<close>, the
  button \<open>onSearch(searchQuery)\<close> with the query the page passed in.\<close>

definition desktop_search :: "home_state \<Rightarrow> string \<Rightarrow> home_state" where
  "desktop_search s q = home_step s (Search q)"

definition desktop_search_button :: "home_state \<Rightarrow> home_state" where
  "desktop_search_button s = home_step s (Search (hs_searchQuery s))"

text \<open>What the page renders from its state: the header's query, the sidebar's category,
  the heading, the count and the sort select above the grid, and the grid's products.\<close>

record home_view =
  hv_header_query :: string
  hv_sidebar_category :: string
  hv_heading :: string
  hv_count :: string
  hv_sort :: string
  hv_grid :: "product list"

definition home_view ::
  "(string \<Rightarrow> product list option) \<Rightarrow> (string \<Rightarrow> string \<Rightarrow> int) \<Rightarrow> home_state \<Rightarrow> home_view" where
  "home_view data collate s =
     (let ps = shown data collate s
      in \<lparr>hv_header_query = hs_searchQuery s, hv_sidebar_category = selectedCategory s,
          hv_heading = category_heading (selectedCategory s), hv_count = showing_text (length ps),
          hv_sort = hs_sortOption s, hv_grid = ps\<rparr>)"

subsection \<open>The narrow layout\<close>

record narrow_state =
  ns_home :: home_state
  isMobileSearchOpen :: bool
  panel :: "mobile_state option"
  body_overflow :: string

text \<open>The controls of the narrow layout. \<open>TypeSearch\<close> is the mobile search box (its
  \<open>onChange\<close> calls \<open>onSearch\<close>, that is \<open>handleSearch\<close>) and \<open>PressSearch\<close> its button
  (\<open>onSearch(searchQuery)\<close>), both shown while the mobile search is open; \<open>PickCategory\<close>, \<open>TypeMin\<close>, \<open>TypeMax\<close> and \<open>PickRating\<close> are the panel's radio
  groups and inputs.
  \<open>GridReset\<close> is the \<open>Reset Filters\<close> button of \<open>ProductGrid\<close> (its \<open>onResetFilters\<close>
  is \<open>handleResetFilters\<close>), which the grid renders only when it has no products to show;
  while the panel is mounted, its full-screen overlay (\<open>fixed inset-0\<close>) covers the grid.
  As for \<open>desktop_step\<close> of theory \<open>Home\<close>, the step takes the fetched products \<open>data\<close>
  and the collation \<open>collate\<close> that decide what the grid shows.\<close>

datatype narrow_event =
    ToggleMobileSearch
  | TypeSearch string
  | PressSearch
  | ToggleFilters
  | PickCategory string
  | TypeMin string
  | TypeMax string
  | PickRating string
  | PanelClose
  | PanelApply
  | PanelReset
  | GridReset

text \<open>The panel is there exactly when the page's flag says so; toggling the flag mounts it
  from the page's state or unmounts it. The panel's mount effect sets
  \<open>document.body.style.overflow\<close> to \<open>hidden\<close>, its cleanup on unmount to \<open>auto\<close>.\<close>

text \<open>The panel's rating radio group: value, filled stars of the label, label text.\<close>

definition mobile_rating_options :: "(string \<times> nat \<times> string) list" where
  "mobile_rating_options = [(''0'', 0, ''Any Rating''), (''4'', 4, ''& Up''), (''3'', 3, ''& Up'')]"

definition sync_panel :: "home_state \<Rightarrow> mobile_state option" where
  "sync_panel s = (if isMobileFiltersOpen s then Some (mobile_open s) else None)"

definition unmount_panel :: "narrow_state \<Rightarrow> narrow_state" where
  "unmount_panel n = n\<lparr>panel := None, body_overflow := ''auto''\<rparr>"

definition mount_sync :: "narrow_state \<Rightarrow> home_state \<Rightarrow> narrow_state" where
  "mount_sync n s =
     (if isMobileFiltersOpen s
      then (if panel n = None then n\<lparr>ns_home := s, panel := sync_panel s, body_overflow := ''hidden''\<rparr>
            else n\<lparr>ns_home := s\<rparr>)
      else (if panel n = None then n\<lparr>ns_home := s\<rparr> else unmount_panel (n\<lparr>ns_home := s\<rparr>)))"

fun narrow_step ::
  "(string \<Rightarrow> product list option) \<Rightarrow> (string \<Rightarrow> string \<Rightarrow> int) \<Rightarrow>
   narrow_state \<Rightarrow> narrow_event \<Rightarrow> narrow_state" where
  "narrow_step data collate n ToggleMobileSearch = n\<lparr>isMobileSearchOpen := \<not> isMobileSearchOpen n\<rparr>"
| "narrow_step data collate n (TypeSearch q) =
     (if isMobileSearchOpen n then n\<lparr>ns_home := home_step (ns_home n) (Search q)\<rparr> else n)"
| "narrow_step data collate n PressSearch =
     (if isMobileSearchOpen n
      then n\<lparr>ns_home := home_step (ns_home n) (Search (hs_searchQuery (ns_home n)))\<rparr> else n)"
| "narrow_step data collate n ToggleFilters = mount_sync n (home_step (ns_home n) ToggleMobileFilters)"
| "narrow_step data collate n (PickCategory c) =
     (case panel n of
        Some m \<Rightarrow> if c \<in> set PRODUCT_CATEGORIES then n\<lparr>panel := Some (m\<lparr>localCategory := c\<rparr>)\<rparr> else n
      | None \<Rightarrow> n)"
| "narrow_step data collate n (TypeMin v) =
     (case panel n of Some m \<Rightarrow> n\<lparr>panel := Some (m\<lparr>localMinPrice := v\<rparr>)\<rparr> | None \<Rightarrow> n)"
| "narrow_step data collate n (TypeMax v) =
     (case panel n of Some m \<Rightarrow> n\<lparr>panel := Some (m\<lparr>localMaxPrice := v\<rparr>)\<rparr> | None \<Rightarrow> n)"
| "narrow_step data collate n (PickRating r) =
     (case panel n of
        Some m \<Rightarrow> if r \<in> set (map fst mobile_rating_options) then n\<lparr>panel := Some (m\<lparr>localRating := r\<rparr>)\<rparr> else n
      | None \<Rightarrow> n)"
| "narrow_step data collate n PanelClose =
     (case panel n of Some m \<Rightarrow> mount_sync n (home_step (ns_home n) CloseMobileFilters) | None \<Rightarrow> n)"
| "narrow_step data collate n PanelApply =
     (case panel n of Some m \<Rightarrow> mount_sync n (mobile_apply m (ns_home n)) | None \<Rightarrow> n)"
| "narrow_step data collate n PanelReset =
     (case panel n of
        Some m \<Rightarrow> (let (m', s') = mobile_reset m (ns_home n) in mount_sync (n\<lparr>panel := Some m'\<rparr>) s')
      | None \<Rightarrow> n)"
| "narrow_step data collate n GridReset =
     (if panel n = None \<and> shown data collate (ns_home n) = []
      then n\<lparr>ns_home := home_step (ns_home n) ResetFilters\<rparr> else n)"

fun narrow_run ::
  "(string \<Rightarrow> product list option) \<Rightarrow> (string \<Rightarrow> string \<Rightarrow> int) \<Rightarrow>
   narrow_state \<Rightarrow> narrow_event list \<Rightarrow> narrow_state" where
  "narrow_run data collate n [] = n"
| "narrow_run data collate n (e # es) = narrow_run data collate (narrow_step data collate n e) es"

definition initial_narrow :: narrow_state where
  "initial_narrow = \<lparr>ns_home = initial_home, isMobileSearchOpen = False, panel = None, body_overflow = []\<rparr>"

text \<open>What the panel shows: one radio per entry of \<open>categories\<close> (Home passes
  \<open>PRODUCT_CATEGORIES\<close>), labelled as the page heading labels a category, checked when it is
  the local category; the two price inputs; the three rating radios.\<close>

record panel_view =
  pv_categories :: "(string \<times> string \<times> bool) list"
  pv_min :: string
  pv_max :: string
  pv_ratings :: "(string \<times> nat \<times> string \<times> bool) list"

definition panel_view :: "mobile_state \<Rightarrow> panel_view" where
  "panel_view m =
     \<lparr>pv_categories = map (\<lambda>c. (c, category_heading c, localCategory m = c)) PRODUCT_CATEGORIES,
      pv_min = localMinPrice m, pv_max = localMaxPrice m,
      pv_ratings = map (\<lambda>(v, k, l). (v, k, l, localRating m = v)) mobile_rating_options\<rparr>"

text \<open>The panel's local category is \<open>all\<close> only when the page's is.\<close>

definition local_all_inv :: "narrow_state \<Rightarrow> bool" where
  "local_all_inv n =
     (case panel n of
        None \<Rightarrow> True
      | Some m \<Rightarrow> localCategory m = ''all'' \<longrightarrow> selectedCategory (ns_home n) = ''all'')"

text \<open>An edit of the panel's local state.\<close>

fun panel_edit :: "narrow_event \<Rightarrow> bool" where
  "panel_edit (PickCategory c) = True"
| "panel_edit (TypeMin v) = True"
| "panel_edit (TypeMax v) = True"
| "panel_edit (PickRating r) = True"
| "panel_edit e = False"

definition panel_synced :: "narrow_state \<Rightarrow> bool" where
  "panel_synced n \<longleftrightarrow>
     (panel n \<noteq> None \<longleftrightarrow> isMobileFiltersOpen (ns_home n)) \<and>
     (panel n \<noteq> None \<longleftrightarrow> body_overflow n = ''hidden'')"

subsection \<open>Lemmas\<close>

lemma mobile_apply_closes [simp]: "isMobileFiltersOpen (mobile_apply m s) = False"
  by (simp add: mobile_apply_def)

lemma mobile_reset_open [simp]:
  "mobile_reset m s = (m', s') \<Longrightarrow> isMobileFiltersOpen s' = isMobileFiltersOpen s"
  by (auto simp: mobile_reset_def)

lemma ns_home_mount_sync [simp]: "ns_home (mount_sync n s) = s"
  by (simp add: mount_sync_def unmount_panel_def)

lemma mount_sync_synced:
  "(panel n \<noteq> None \<longleftrightarrow> body_overflow n = ''hidden'') \<Longrightarrow> panel_synced (mount_sync n s)"
  by (auto simp: mount_sync_def panel_synced_def sync_panel_def unmount_panel_def)

lemma mount_sync_opens:
  "panel n = None \<Longrightarrow> isMobileFiltersOpen s \<Longrightarrow> panel (mount_sync n s) = Some (mobile_open s)"
  by (simp add: mount_sync_def sync_panel_def)

lemma panel_synced_body:
  "panel_synced n \<Longrightarrow> (panel n \<noteq> None \<longleftrightarrow> body_overflow n = ''hidden'')"
  unfolding panel_synced_def by blast

lemma narrow_step_synced [inv_intros]: "panel_synced n \<Longrightarrow> panel_synced (narrow_step data collate n e)"
proof (cases e)
  case PanelReset
  assume syn: "panel_synced n"
  show ?thesis
  proof (cases "panel n")
    case (Some m)
    obtain m' s' where r: "mobile_reset m (ns_home n) = (m', s')" by fastforce
    have "body_overflow n = ''hidden''" using syn Some by (simp add: panel_synced_def)
    then have "panel_synced (mount_sync (n\<lparr>panel := Some m'\<rparr>) s')" by (simp add: mount_sync_synced)
    then show ?thesis using PanelReset Some r by simp
  qed (simp add: PanelReset syn)
next
  case ToggleFilters
  assume syn: "panel_synced n"
  note ms = mount_sync_synced [OF panel_synced_body [OF syn]]
  show ?thesis using ToggleFilters by (simp add: ms syn split: option.splits)
next
  case PanelClose
  assume syn: "panel_synced n"
  note ms = mount_sync_synced [OF panel_synced_body [OF syn]]
  show ?thesis using PanelClose by (simp add: ms syn split: option.splits)
next
  case PanelApply
  assume syn: "panel_synced n"
  note ms = mount_sync_synced [OF panel_synced_body [OF syn]]
  show ?thesis using PanelApply by (simp add: ms syn split: option.splits)
qed (auto simp: panel_synced_def split: option.splits)

lemma narrow_run_synced: "panel_synced n \<Longrightarrow> panel_synced (narrow_run data collate n es)"
  by (induction es arbitrary: n) (simp_all add: narrow_step_synced)

lemma initial_narrow_synced: "panel_synced initial_narrow"
  by (simp add: panel_synced_def initial_narrow_def initial_home_def)

lemma panel_edits_keep_page:
  "list_all panel_edit es \<Longrightarrow> ns_home (narrow_run data collate n es) = ns_home n"
proof (induction es arbitrary: n)
  case (Cons e es)
  then have "ns_home (narrow_step data collate n e) = ns_home n"
    by (cases e) (simp_all split: option.splits)
  with Cons show ?case by simp
qed simp

lemma panel_edits_keep_panel:
  "list_all panel_edit es \<Longrightarrow> panel n \<noteq> None \<Longrightarrow> panel (narrow_run data collate n es) \<noteq> None"
proof (induction es arbitrary: n)
  case (Cons e es)
  then have "panel (narrow_step data collate n e) \<noteq> None" by (cases e) (auto split: option.splits)
  with Cons show ?case by simp
qed simp

lemma narrow_run_append: "narrow_run data collate n (es @ fs) = narrow_run data collate (narrow_run data collate n es) fs"
  by (induction es arbitrary: n) simp_all

text \<open>Closing the panel discards its edits: the page's filters are those before the
  panel was touched, and reopening it starts again from them.\<close>

lemma panel_close_discards:
  assumes "panel n \<noteq> None" and "list_all panel_edit es"
  shows "ns_home (narrow_run data collate n (es @ [PanelClose])) = (ns_home n)\<lparr>isMobileFiltersOpen := False\<rparr>"
  using panel_edits_keep_panel [OF assms(2,1), of data collate] panel_edits_keep_page [OF assms(2), of data collate n]
  by (auto simp: narrow_run_append split: option.splits)

lemma reopen_starts_from_page:
  assumes "panel_synced n" and "panel n = None"
  shows "panel (narrow_step data collate n ToggleFilters) = Some (mobile_open (ns_home n))"
proof -
  have "\<not> isMobileFiltersOpen (ns_home n)" using assms by (simp add: panel_synced_def)
  then show ?thesis using assms(2) by (simp add: mount_sync_opens mobile_open_def)
qed

lemma showing_text_plural:
  "showing_text 1 = ''Showing 1 product'' \<and> showing_text 0 = ''Showing 0 products''
   \<and> showing_text 12 = ''Showing 12 products''"
  by (simp add: showing_text_def js_to_string_of_nat [of 1, simplified] js_to_string_of_nat [of 0, simplified] js_to_string_of_nat [of 12, simplified] nat_digits.simps [of "Suc 0"] nat_digits.simps [of 12] digit_char_def)

lemma reset_heading: "category_heading (selectedCategory (home_step s ResetFilters)) = ''All Products''"
  by (simp add: category_heading_def)

subsection \<open>The category radios of the panel\<close>

lemma all_not_category [simp]: "''all'' \<notin> set PRODUCT_CATEGORIES"
  by (simp add: PRODUCT_CATEGORIES_def)

lemma selectedCategory_mobile_apply [simp]: "selectedCategory (mobile_apply m s) = localCategory m"
  by (simp add: mobile_apply_def)

lemma mobile_reset_all:
  "mobile_reset m s = (m', s') \<Longrightarrow> localCategory m' = ''all'' \<and> selectedCategory s' = ''all''"
  by (auto simp: mobile_reset_def)

lemma mount_sync_local_all:
  assumes "\<And>m. panel n = Some m \<Longrightarrow> isMobileFiltersOpen s \<Longrightarrow> localCategory m = ''all'' \<Longrightarrow>
             selectedCategory s = ''all''"
  shows "local_all_inv (mount_sync n s)"
  using assms
  by (auto simp: mount_sync_def sync_panel_def mobile_open_def local_all_inv_def unmount_panel_def)

lemma narrow_step_local_all [inv_intros]: "local_all_inv n \<Longrightarrow> local_all_inv (narrow_step data collate n e)"
proof (cases e)
  case ToggleFilters
  assume inv: "local_all_inv n"
  show ?thesis unfolding ToggleFilters narrow_step.simps
    by (rule mount_sync_local_all) (use inv in \<open>simp add: local_all_inv_def\<close>)
next
  case PanelClose
  assume "local_all_inv n"
  then show ?thesis using PanelClose
    by (auto intro!: mount_sync_local_all split: option.splits)
next
  case PanelApply
  assume "local_all_inv n"
  then show ?thesis using PanelApply
    by (auto intro!: mount_sync_local_all split: option.splits)
next
  case PanelReset
  assume "local_all_inv n"
  show ?thesis
  proof (cases "panel n")
    case (Some m)
    obtain m' s' where r: "mobile_reset m (ns_home n) = (m', s')" by fastforce
    have "local_all_inv (mount_sync (n\<lparr>panel := Some m'\<rparr>) s')"
      using mobile_reset_all [OF r] by (intro mount_sync_local_all) simp
    then show ?thesis using PanelReset Some r by simp
  qed (simp add: PanelReset \<open>local_all_inv n\<close>)
qed (auto simp: local_all_inv_def split: option.splits)

lemma initial_local_all: "local_all_inv initial_narrow"
  by (simp add: local_all_inv_def initial_narrow_def)

lemma narrow_run_local_all: "local_all_inv n \<Longrightarrow> local_all_inv (narrow_run data collate n es)"
  by (induction es arbitrary: n) (simp_all add: narrow_step_local_all)

text \<open>The panel lists no \<open>all\<close> radio, so once the page shows one category, only a
  reset (the panel's, or the empty grid's while the panel is closed; both also clear the
  price, rating and search filters) brings back all categories on a narrow screen.\<close>

lemma narrow_all_only_by_reset:
  assumes "local_all_inv n" and "selectedCategory (ns_home n) \<noteq> ''all''"
    and "selectedCategory (ns_home (narrow_step data collate n e)) = ''all''"
  shows "e = PanelReset \<or> (e = GridReset \<and> panel n = None \<and> shown data collate (ns_home n) = [])"
proof (cases e)
  case PanelApply
  then obtain m where m: "panel n = Some m" using assms(2,3) by (auto split: option.splits)
  then have "localCategory m = ''all''" using assms(3) PanelApply by simp
  then show ?thesis using assms(1,2) m by (simp add: local_all_inv_def)
qed (use assms(2,3) in \<open>auto simp: mount_sync_def unmount_panel_def split: option.splits if_splits\<close>)

lemma reset_panel_unchecked:
  "mobile_reset m s = (m', s') \<Longrightarrow> list_all (\<lambda>(c, l, b). \<not> b) (pv_categories (panel_view m'))"
  using mobile_reset_all [of m s m' s']
  by (auto simp: panel_view_def list_all_iff)

lemma panel_category_labels:
  "map (\<lambda>(c, l, b). l) (pv_categories (panel_view m)) =
     [''Home'', ''Licenses'', ''Hardware'', ''Cloud services'', ''Client details'']"
  by (simp add: panel_view_def PRODUCT_CATEGORIES_def category_heading_def js_upper_char_def
      char_code_def char_of_def bit_Suc_0_iff)

subsection \<open>The search buttons and the rendered page\<close>

text \<open>Both search buttons send the query already in the box: they change nothing.\<close>

lemma desktop_search_button_noop: "desktop_search_button s = s"
  by (simp add: desktop_search_button_def)

lemma mobile_search_button_noop: "narrow_step data collate n PressSearch = n"
  by simp

lemma home_view_reset:
  "hv_heading (home_view data collate (home_step s ResetFilters)) = ''All Products''
   \<and> hv_sort (home_view data collate (home_step s ResetFilters)) = ''featured''
   \<and> hv_header_query (home_view data collate (home_step s ResetFilters)) = []"
  by (simp add: home_view_def Let_def category_heading_def)

lemma toggle_reopens:
  "panel n = None \<Longrightarrow> \<not> isMobileFiltersOpen (ns_home n) \<Longrightarrow>
   panel (narrow_step data collate n ToggleFilters) \<noteq> None
   \<and> selectedCategory (ns_home (narrow_step data collate n ToggleFilters)) = selectedCategory (ns_home n)"
  by (simp add: mount_sync_def sync_panel_def)

lemma reset_selects_all: "panel n \<noteq> None \<Longrightarrow> selectedCategory (ns_home (narrow_step data collate n PanelReset)) = ''all''"
  by (auto simp: mobile_reset_def split: option.splits)

text \<open>
  C7. On a narrow screen, from the catalog page's first render and under any sequence of
  header, filter-panel and grid controls, once the page shows a single category the only
  controls that bring back all categories are the panel's Reset button and the grid's
  \<open>Reset Filters\<close> button, the latter pressed while the panel is closed and the grid has
  no products to show: the panel lists the entries of \<open>PRODUCT_CATEGORIES\<close>, which has
  no \<open>all\<close>.
\<close>

theorem narrow_all_needs_reset:
  assumes "selectedCategory (ns_home (narrow_run data collate initial_narrow es)) \<noteq> ''all''"
    and "selectedCategory (ns_home (narrow_step data collate (narrow_run data collate initial_narrow es) e)) = ''all''"
  shows "e = PanelReset \<or> (e = GridReset \<and> panel (narrow_run data collate initial_narrow es) = None
           \<and> shown data collate (ns_home (narrow_run data collate initial_narrow es)) = [])"
  using narrow_all_only_by_reset [OF narrow_run_local_all [OF initial_local_all] assms] .

theorem narrow_all_needs_reset_witness:
  "selectedCategory (ns_home (narrow_run (\<lambda>c. Some []) (\<lambda>a b. 0) initial_narrow
      [ToggleFilters, PickCategory ''licenses'', PanelApply])) \<noteq> ''all''
   \<and> selectedCategory (ns_home (narrow_step (\<lambda>c. Some []) (\<lambda>a b. 0) (narrow_run (\<lambda>c. Some []) (\<lambda>a b. 0)
      initial_narrow [ToggleFilters, PickCategory ''licenses'', PanelApply]) GridReset)) = ''all''
   \<and> panel (narrow_run (\<lambda>c. Some []) (\<lambda>a b. 0) initial_narrow
      [ToggleFilters, PickCategory ''licenses'', PanelApply]) = None"
proof -
  have i: "\<not> isMobileFiltersOpen initial_home" by (simp add: initial_home_def)
  define n3 where "n3 = narrow_run (\<lambda>c. Some []) (\<lambda>a b. 0) initial_narrow
      [ToggleFilters, PickCategory ''licenses'', PanelApply]"
  have n3: "selectedCategory (ns_home n3) = ''licenses''" "panel n3 = None"
    unfolding n3_def
    by (simp_all add: i initial_narrow_def mount_sync_def sync_panel_def PRODUCT_CATEGORIES_def unmount_panel_def)
  have e: "shown (\<lambda>c. Some []) (\<lambda>a b. 0) (ns_home n3) = []" by (simp add: shown_def filteredProducts_def)
  have h1: "selectedCategory (ns_home n3) \<noteq> ''all''" using n3(1) by simp
  have h2: "selectedCategory (ns_home (narrow_step (\<lambda>c. Some []) (\<lambda>a b. 0) n3 GridReset)) = ''all''"
    using n3(2) e by simp
  have "GridReset = PanelReset \<or> (GridReset = GridReset \<and> panel n3 = None
      \<and> shown (\<lambda>c. Some []) (\<lambda>a b. 0) (ns_home n3) = [])"
    using narrow_all_needs_reset [OF h1 [unfolded n3_def] h2 [unfolded n3_def]] unfolding n3_def .
  then show ?thesis using h1 h2 unfolding n3_def by simp
qed

end
