(* ===== verification/AdminView.thy ===== *)
theory AdminView
  imports Admin Storefront Http
begin

text \<open>
  What the admin dashboard of \<open>src/client/src/pages/AdminDashboard.tsx\<close> renders around
  the cache of theory \<open>Admin\<close>: the order count, the order list with its loading, error
  and empty states and one card per matching order (highlighted when selected), and the
  body of the detail panel: the customer information and the status control, whose
  select lists the five statuses and is disabled while the status mutation is pending.
  \<open>formatDate\<close> (\<open>toLocaleString\<close>, locale-dependent) is left out of the cards.
\<close>

subsection \<open>The order list\<close>

text \<open>\<open>{orders?.length ?? 0} total\<close>.\<close>

definition order_count :: "order list option \<Rightarrow> string" where
  "order_count os =
     js_to_string (Num (of_nat (case os of Some xs \<Rightarrow> length xs | None \<Rightarrow> 0))) @ '' total''"

record order_card =
  card_key :: int
  card_title :: string
  card_selected :: bool
  card_variant :: badge_variant
  card_status :: string
  card_customer :: string
  card_total :: string

definition order_card :: "int option \<Rightarrow> order \<Rightarrow> order_card" where
  "order_card sel od =
     \<lparr>card_key = order_id od, card_title = ''Order #'' @ js_to_string (Num (of_int (order_id od))),
      card_selected = (sel = Some (order_id od)), card_variant = getStatusVariant (status od),
      card_status = status od, card_customer = customerName od @ '' ('' @ customerEmail od @ '')'',
      card_total = formatCurrency (Some (PriceStr (totalAmount od)))\<rparr>"

datatype list_panel = ListSpinner | ListFailed string | NoMatches | OrderCards "order_card list"

text \<open>The list's cascade: the spinner while the orders load, the error message, the empty
  text when no order matches the search, else the cards of \<open>filteredOrders\<close>.\<close>

definition list_panel :: "bool \<Rightarrow> string option \<Rightarrow> order list option \<Rightarrow> string \<Rightarrow> int option \<Rightarrow> list_panel" where
  "list_panel loading err os term sel =
     (if loading then ListSpinner
      else case err of
             Some m \<Rightarrow> ListFailed m
           | None \<Rightarrow> (let fo = filteredOrders os term
                      in if fo = [] then NoMatches else OrderCards (map (order_card sel) fo)))"

subsection \<open>The detail body\<close>

definition customer_info :: "order \<Rightarrow> (string \<times> string) list" where
  "customer_info od =
     [(''Name:'', customerName od), (''Email:'', customerEmail od),
      (''Shipping Addr:'', shippingAddress od), (''Payment Method:'', order_paymentMethod od)]"

text \<open>An option of the status select: the value, and the label
  \<open>status.charAt(0).toUpperCase() + status.slice(1)\<close>.\<close>

definition status_options :: "(string \<times> string) list" where
  "status_options = map (\<lambda>st. (st, category_label st)) ORDER_STATUSES"

record status_control =
  sc_variant :: badge_variant
  sc_current :: string
  sc_value :: string
  sc_options :: "(string \<times> string) list"
  sc_disabled :: bool
  sc_spinner :: bool

definition status_control :: "bool \<Rightarrow> order \<Rightarrow> status_control" where
  "status_control isPending od =
     \<lparr>sc_variant = getStatusVariant (status od), sc_current = status od, sc_value = status od,
      sc_options = status_options, sc_disabled = isPending, sc_spinner = isPending\<rparr>"

text \<open>\<open>onValueChange\<close> of the select: \<open>handleStatusChange(selectedOrderDetails.id, value)\<close>,
  for an option the user picks while the select is enabled. The select is controlled by
  the current status, and a controlled Radix \<open>Select\<close> reports a change only when the
  picked value differs from its \<open>value\<close>.\<close>

definition pick_status :: "bool \<Rightarrow> order \<Rightarrow> string \<Rightarrow> admin_action" where
  "pick_status isPending od v =
     (if sc_disabled (status_control isPending od) \<or> v \<notin> fst ` set (sc_options (status_control isPending od))
         \<or> v = sc_value (status_control isPending od)
      then NoRequest else handleStatusChange (order_id od) v)"

subsection \<open>Lemmas\<close>

lemma filter_key_le_1:
  "distinct (map g xs) \<Longrightarrow> length (filter (\<lambda>x. k = g x) xs) \<le> 1"
proof (induction xs)
  case (Cons x xs)
  show ?case
  proof (cases "k = g x")
    case True
    have "\<forall>y\<in>set xs. \<not> k = g y" using True Cons.prems by auto
    then have "filter (\<lambda>y. k = g y) (x # xs) = [x]"
      by (simp only: filter.simps(2) if_P [OF True] filter_False)
    then show ?thesis by simp
  next
    case False
    with Cons show ?thesis by simp
  qed
qed simp

lemma distinct_filteredOrders:
  "os = Some xs \<Longrightarrow> distinct (map order_id xs) \<Longrightarrow> distinct (map order_id (filteredOrders os t))"
  by (simp add: filteredOrders_def distinct_map_filter)

lemma filteredOrders_in: "od \<in> set (filteredOrders (Some ys) t) \<Longrightarrow> od \<in> set ys"
  by (simp add: filteredOrders_def)

lemma list_panel_cards:
  "list_panel False None os t sel = OrderCards cs \<longleftrightarrow>
     filteredOrders os t \<noteq> [] \<and> cs = map (order_card sel) (filteredOrders os t)"
  by (auto simp: list_panel_def Let_def)

lemma list_panel_OrderCards:
  "list_panel l e os t sel = OrderCards cs \<Longrightarrow> cs = map (order_card sel) (filteredOrders os t)"
  by (auto simp: list_panel_def Let_def split: if_splits option.splits)

lemma list_panel_NoMatches:
  "list_panel False None os t sel = NoMatches \<longleftrightarrow> filteredOrders os t = []"
  by (simp add: list_panel_def Let_def)

text \<open>With distinct order ids, at most one card of the list is highlighted.\<close>

lemma one_card_selected:
  assumes "distinct (map order_id xs)" and "list_panel l e (Some xs) t sel = OrderCards cs"
  shows "length (filter card_selected cs) \<le> 1"
proof -
  have cs: "cs = map (order_card sel) (filteredOrders (Some xs) t)"
    using assms(2) by (auto simp: list_panel_def Let_def split: if_splits option.splits)
  have "filter card_selected cs = map (order_card sel) (filter (\<lambda>od. sel = Some (order_id od)) (filteredOrders (Some xs) t))"
    unfolding cs by (simp add: filter_map comp_def order_card_def)
  moreover have "length (filter (\<lambda>od. sel = Some (order_id od)) (filteredOrders (Some xs) t)) \<le> 1"
  proof (cases sel)
    case (Some k)
    then show ?thesis
      using filter_key_le_1 [OF distinct_filteredOrders [OF refl assms(1)], of k] by simp
  qed simp
  ultimately show ?thesis by simp
qed

text \<open>After a successful status change every card of that order shows the new status and
  its badge.\<close>

lemma list_cache_on_status_success:
  "list_cache (on_status_success oid st upd c) =
     Some (case list_cache c of
             Some os \<Rightarrow> map (\<lambda>od. if order_id od = oid then od\<lparr>status := st\<rparr> else od) os
           | None \<Rightarrow> [])"
  by (simp add: on_status_success_def)

lemma status_after_success:
  assumes "od \<in> set (case list_cache c of
                       Some os \<Rightarrow> map (\<lambda>od. if order_id od = oid then od\<lparr>status := st\<rparr> else od) os
                     | None \<Rightarrow> [])"
    and "order_id od = oid"
  shows "status od = st"
proof (cases "list_cache c")
  case (Some os)
  then have "od \<in> (\<lambda>od. if order_id od = oid then od\<lparr>status := st\<rparr> else od) ` set os"
    using assms(1) by (simp only: option.case set_map)
  then obtain o' where o': "od = (if order_id o' = oid then o'\<lparr>status := st\<rparr> else o')" by blast
  show ?thesis
  proof (cases "order_id o' = oid")
    case True
    then show ?thesis using o' by simp
  next
    case False
    then show ?thesis using o' assms(2) by simp
  qed
qed (use assms(1) in simp)

lemma cards_after_status_success:
  assumes "list_panel l e (list_cache (on_status_success oid st upd c)) t sel = OrderCards cs"
    and "cd \<in> set cs" and "card_key cd = oid"
  shows "card_status cd = st \<and> card_variant cd = getStatusVariant st"
proof -
  have "cd \<in> order_card sel ` set (filteredOrders (list_cache (on_status_success oid st upd c)) t)"
    using assms(2) list_panel_OrderCards [OF assms(1)] by (simp only: set_map)
  then obtain od where od: "od \<in> set (filteredOrders (list_cache (on_status_success oid st upd c)) t)"
    and cd: "cd = order_card sel od" by blast
  have "order_id od = oid" using cd assms(3) by (simp add: order_card_def)
  moreover have "od \<in> set (case list_cache c of
                               Some os \<Rightarrow> map (\<lambda>od. if order_id od = oid then od\<lparr>status := st\<rparr> else od) os
                             | None \<Rightarrow> [])"
    using od unfolding list_cache_on_status_success by (rule filteredOrders_in)
  ultimately have "status od = st" by (intro status_after_success)
  then show ?thesis using cd by (simp add: order_card_def)
qed

lemma status_options_labels:
  "status_options = [(''pending'', ''Pending''), (''processing'', ''Processing''), (''shipped'', ''Shipped''),
                     (''delivered'', ''Delivered''), (''cancelled'', ''Cancelled'')]"
  by (simp add: status_options_def ORDER_STATUSES_def js_upper_char_def char_code_def char_of_def bit_Suc_0_iff)

text \<open>Picking a status sends a PATCH exactly for an enabled select and another of the five
  statuses.\<close>

lemma pick_status_request:
  "pick_status p od v =
     (if p \<or> v \<notin> set ORDER_STATUSES \<or> v = status od then NoRequest else SendPatch (order_id od) v)"
proof -
  have "fst ` set status_options = set ORDER_STATUSES"
    by (simp add: status_options_def image_image)
  then show ?thesis by (auto simp: pick_status_def status_control_def handleStatusChange_def)
qed

lemma order_count_loaded:
  "length xs < 10 ^ 21 \<Longrightarrow> order_count (Some xs) = nat_digits (length xs) @ '' total''"
  by (simp add: order_count_def js_to_string_of_nat del: js_to_string.simps)

end
