(* ===== verification/CardView.thy ===== *)
theory CardView
  imports Storefront
begin

text \<open>
  The product card as it renders (\<open>src/client/src/components/ProductCard.tsx\<close>) and the
  shopping session around the cart icon (\<open>CartIcon.tsx\<close>: \<open>isCartOpen\<close>) and its drawer
  (\<open>CartDrawer.tsx\<close>: the buttons of theory \<open>Storefront\<close>, \<open>handleCheckout\<close>, Continue
  Shopping and dismissing the sheet). The sheet is modal: while it is open the page
  behind it, the product cards included, takes no clicks.
\<close>

subsection \<open>The product card\<close>

text \<open>JavaScript truthiness of the nullable columns the card tests: a string is truthy
  when non-empty, \<open>isService\<close> when \<open>true\<close>.\<close>

definition str_truthy :: "string option \<Rightarrow> bool" where
  "str_truthy s \<longleftrightarrow> s \<noteq> None \<and> s \<noteq> Some []"

record product_card_view =
  pc_badge :: "(string \<times> string) option"
  pc_category :: string
  pc_stars :: "star list option"
  pc_rating :: string
  pc_name :: string
  pc_description :: string
  pc_price :: string
  pc_discount :: "string option"
  pc_button :: string

definition product_card_view :: "product \<Rightarrow> product_card_view" where
  "product_card_view p =
     \<lparr>pc_badge = (if str_truthy (badge p) then Some (the (badge p), getBadgeColorClass (badge p)) else None),
      pc_category = category_label (category p),
      pc_stars = renderStars (rating p), pc_rating = rating p,
      pc_name = product_name p, pc_description = description p,
      pc_price = ''$'' @ product_price p @ (if product_isService p = Some True then ''/hr'' else []),
      pc_discount = (if str_truthy (discountPrice p) then Some (''$'' @ the (discountPrice p)) else None),
      pc_button = card_button_label p\<rparr>"

subsection \<open>The shopping session\<close>

record shop_session =
  shop_cart :: cart
  isCartOpen :: bool
  shop_location :: string

datatype shop_event =
    CartIconClick
  | CardAdd product int
  | DrawerButton drawer_event
  | SheetClose
  | CheckoutClick
  | ContinueShopping

text \<open>\<open>handleCartClick\<close> opens the sheet; \<open>onClose\<close> (the sheet's \<open>onOpenChange\<close>) closes it.
  \<open>handleCheckout\<close> closes it and navigates to \<open>/checkout\<close>; its button, like the list,
  is shown only for a non-empty cart, and Continue Shopping only for an empty one.
  \<open>CardAdd p now\<close> is a card's button (\<open>handleAddToCart\<close> at clock reading \<open>now\<close>).\<close>

fun shop_step :: "shop_session \<Rightarrow> shop_event \<Rightarrow> shop_session" where
  "shop_step s CartIconClick = (if isCartOpen s then s else s\<lparr>isCartOpen := True\<rparr>)"
| "shop_step s (CardAdd p now) =
     (if isCartOpen s then s else s\<lparr>shop_cart := cart_step (shop_cart s) (handleAddToCart p now)\<rparr>)"
| "shop_step s (DrawerButton e) =
     (if isCartOpen s then s\<lparr>shop_cart := drawer_click (shop_cart s) e\<rparr> else s)"
| "shop_step s SheetClose = s\<lparr>isCartOpen := False\<rparr>"
| "shop_step s CheckoutClick =
     (if isCartOpen s \<and> items (shop_cart s) \<noteq> [] then s\<lparr>isCartOpen := False, shop_location := ''/checkout''\<rparr> else s)"
| "shop_step s ContinueShopping =
     (if isCartOpen s \<and> items (shop_cart s) = [] then s\<lparr>isCartOpen := False\<rparr> else s)"

fun shop_run :: "shop_session \<Rightarrow> shop_event list \<Rightarrow> shop_session" where
  "shop_run s [] = s"
| "shop_run s (e # es) = shop_run (shop_step s e) es"

definition cart_wf :: "cart \<Rightarrow> bool" where
  "cart_wf c \<longleftrightarrow> cart_consistent c \<and> lines_distinct c \<and> quantities_positive c"

subsection \<open>Lemmas\<close>

lemma drawer_op_positive: "drawer_op c e = Some op \<Longrightarrow> op_positive op"
  by (cases e) (auto split: if_splits)

lemma cart_wf_step [inv_intros]: "cart_wf c \<Longrightarrow> op_positive op \<Longrightarrow> cart_wf (cart_step c op)"
  by (simp add: cart_wf_def cart_step_consistent cart_step_lines_distinct cart_step_quantities_positive)

lemma cart_wf_add: "cart_wf c \<Longrightarrow> 1 \<le> q \<Longrightarrow> cart_wf (addToCart p q now c)"
  using cart_wf_step [of c "AddToCart p q now"] by simp

lemma cart_wf_drawer_click: "cart_wf c \<Longrightarrow> cart_wf (drawer_click c e)"
  by (auto simp: drawer_click_def intro: cart_wf_step drawer_op_positive split: option.splits)

text \<open>Every session step keeps the cart well formed: total in step with the lines, one
  line per product, positive quantities.\<close>

lemma shop_step_wf [inv_intros]: "cart_wf (shop_cart s) \<Longrightarrow> cart_wf (shop_cart (shop_step s e))"
  by (cases e) (simp_all add: cart_wf_add cart_wf_drawer_click handleAddToCart_def)

lemma shop_run_wf: "cart_wf (shop_cart s) \<Longrightarrow> cart_wf (shop_cart (shop_run s es))"
  by (induction es arbitrary: s) (simp_all add: shop_step_wf)

lemma defaultCart_wf: "cart_wf defaultCart"
  using defaultCart_consistent by (simp add: cart_wf_def lines_distinct_def quantities_positive_def defaultCart_def)

text \<open>The session leaves the page for \<open>/checkout\<close> only from the open drawer of a
  non-empty cart.\<close>

lemma checkout_only_nonempty:
  assumes "shop_location (shop_step s e) \<noteq> shop_location s"
  shows "e = CheckoutClick \<and> isCartOpen s \<and> items (shop_cart s) \<noteq> []
         \<and> shop_location (shop_step s e) = ''/checkout'' \<and> \<not> isCartOpen (shop_step s e)"
  using assms by (cases e) (auto split: if_splits)

text \<open>With the sheet closed only a card's button changes the cart, and it adds one unit.\<close>

lemma closed_sheet_cart_changes:
  assumes "\<not> isCartOpen s" and "shop_cart (shop_step s e) \<noteq> shop_cart s"
  shows "\<exists>p now. e = CardAdd p now
           \<and> itemCount (shop_cart (shop_step s e)) = itemCount (shop_cart s) + 1"
  using assms
  by (cases e) (auto simp: handleAddToCart_def itemCount_addToCart)

lemma example_product_card:
  "pc_badge (product_card_view example_product) = Some (''NEW'', ''bg-secondary-500'')
   \<and> pc_price (product_card_view example_product) = ''$999.99''
   \<and> pc_discount (product_card_view example_product) = None
   \<and> pc_button (product_card_view example_product) = ''Add to Cart''"
  by (simp add: product_card_view_def example_product_def str_truthy_def getBadgeColorClass_def
      card_button_label_def)

end
