(* ===== verification/Spec2Isabelle.thy ===== *)
theory Spec2Isabelle
  imports Checkout Routes Admin Home Storefront Passwords CheckoutView Layout AdminView CardView
begin

text \<open>
  \<^bold>\<open>A verification model of the Provising-System storefront.\<close>

  The repository is a React storefront over an Express API with an in-memory store.
  A customer browses the catalog (\<open>src/client/src/pages/Home.tsx\<close> with the hook
  \<open>src/client/src/hooks/useFilteredProducts.ts\<close> and the filter panels), fills the cart
  (\<open>src/client/src/contexts/CartContext.tsx\<close>) and checks out
  (\<open>src/client/src/pages/Checkout.tsx\<close>), which posts the order as JSON to
  \<open>POST /api/orders\<close>. The server (\<open>src/server/routes.ts\<close>, \<open>src/server/auth.ts\<close>)
  validates the body with the zod schemas of \<open>src/shared/schema.ts\<close> and writes it to
  \<open>MemStorage\<close> (\<open>src/server/storage.ts\<close>). The admin dashboard
  (\<open>src/client/src/pages/AdminDashboard.tsx\<close>) lists the orders, shows one with its
  items, and changes a status with \<open>PATCH /api/admin/orders/:id/status\<close>, patching its
  query cache with the response.

  \<^bold>\<open>Theories, in import order.\<close>
  \<^item> \<open>Prelude\<close>: the collections \<open>model_defs\<close> and \<open>inv_intros\<close>; a JavaScript \<open>Map\<close>
    as an insertion-ordered association list (\<open>jsmap\<close>, updated by \<open>AList.update\<close>, which
    keeps a key's position as \<open>Map.set\<close> does); shared lemmas on lists and rationals.
  \<^item> \<open>JsNumber\<close>: JavaScript numbers (\<open>jsnum\<close>): a finite number is an exact rational,
    NaN and the infinities are kept. Addition, multiplication, negation, subtraction, the
    relational comparison (\<open>js_le\<close>, false on NaN), \<open>parseFloat\<close>,
    \<open>Number.prototype.toString\<close> and \<open>toFixed(2)\<close>. IEEE-754 rounding is not modelled:
    \<open>(1.005).toFixed(2)\<close> is \<open>"1.01"\<close> here and \<open>"1.00"\<close> in a browser. Prices are
    \<open>numeric(10,2)\<close> strings, for which the exact model and the doubles agree after
    rounding to cents. \<open>toString\<close> has a fuel of 1100 decimal places, which covers every
    double (at most 1074 places); every integer \<open>0 < m < 10^21\<close> prints as its digits
    (\<open>js_to_string_nat\<close>), the range in which JavaScript prints integers without an
    exponent.
  \<^item> \<open>JsString\<close>: \<open>toLowerCase\<close> on ASCII and \<open>String.prototype.includes\<close>, proved to be
    \<open>sublist\<close> of HOL-Library; lowercasing a needle does not change whether it occurs in
    a haystack without ASCII letters.
  \<^item> \<open>Schema\<close>: the records and enumerations of \<open>src/shared/schema.ts\<close>, the cart types,
    the checkout form, \<open>PRODUCT_CATEGORIES\<close> and the five order statuses.
  \<^item> \<open>Cart\<close>: each cart operation is the updater it passes to \<open>setCart\<close>; \<open>cart_step\<close>
    and \<open>cart_run\<close> run a sequence of them; \<open>load_cart\<close>/\<open>save_cart\<close> over a codec
    standing for \<open>JSON.parse\<close>/\<open>JSON.stringify\<close>. \<open>Date.now()\<close> is an argument.
    Lemmas: the total invariant, one line per product, positive quantities, distinct line
    ids under a rising clock, each proved for one step and lifted to runs by induction.
  \<^item> \<open>Checkout\<close>: the shipping loop (a \<open>Set\<close> of seen suppliers), refined to a sum over
    the distinct supplier ids; the guards of \<open>handleSubmit\<close> as the values of
    \<open>submit_result\<close>; the order payload; the mutation's \<open>onSuccess\<close>/\<open>onError\<close>.
  \<^item> \<open>Storage\<close>: \<open>MemStorage\<close> as a record of maps and id counters, every method, the
    seeding of the constructor, and \<open>storage_step\<close> over a datatype of the writes.
    Lemmas: every write keeps each table well formed (\<open>storage_wf\<close>), the get/create
    round trips, the behaviour of \<open>updateOrderStatus\<close> on both branches.
  \<^item> \<open>Http\<close>: JSON values, truthiness, \<open>parseInt\<close> (radix 10 and 16 prefixes), the zod
    schemas used by the routes (\<open>insertOrderSchema\<close>, \<open>insertOrderItemSchema\<close>,
    \<open>insertProductSchema\<close>) as partial parsers, with drizzle-zod's int32 bounds on
    integer columns (\<open>z_int\<close>, \<open>int32\<close>); \<open>parseInt\<close> and \<open>parseFloat\<close> read back a
    printed whole number.
  \<^item> \<open>Auth\<close>: the server state (store and session user id), \<open>register\<close>, the
    \<open>LocalStrategy\<close> callback (\<open>local_strategy\<close>) and \<open>login\<close>,
    \<open>logout\<close> and \<open>GET /api/user\<close>; the scrypt hash and the password check are arguments.
  \<^item> \<open>Passwords\<close>: \<open>hashPassword\<close> and \<open>comparePasswords\<close> of \<open>auth.ts\<close> over bytes
    (\<open>8 word\<close>): the hex codec of \<open>Buffer\<close>, \<open>split(".")\<close>, and the scrypt function and the
    random salt bytes as arguments. Lemmas: the hex codec is a round trip, the stored
    string splits back into digest and salt, and a stored hash accepts exactly the
    passwords whose digest under its salt is the stored one.
  \<^item> \<open>Routes\<close>: every route handler as a function from store to response and store;
    \<open>handle\<close> runs the middleware (401, 403) and dispatches a \<open>request\<close>. Lemmas: the
    authorisation of each route, the ownership of a created order, the partial write of
    \<open>POST /api/orders\<close> when an item is rejected, that rejected requests change nothing.
  \<^item> \<open>Admin\<close>: the page guard, \<open>filteredOrders\<close>, \<open>getStatusVariant\<close>,
    \<open>handleStatusChange\<close>, and the cache (\<open>admin_cache\<close>: the order list and the detail
    entries) with the \<open>onSuccess\<close>/\<open>onError\<close> of the status mutation; \<open>formatCurrency\<close>
    and the order detail panel (\<open>detail_panel\<close>: prompt, spinner, error, missing, or the
    order with its item lines). Lemmas: the order search ignores the case of the term
    and narrows as the term grows; the status badge ignores case; the guard and the
    redirect agree.
  \<^item> \<open>AdminView\<close>: the rest of the dashboard's rendering: the order count, the order
    list (spinner, error, no match, or one card per order of \<open>filteredOrders\<close>), the
    customer information and the status control. Lemmas: with distinct ids at most one
    card is highlighted, after a successful status change every card of the order shows
    the new status and badge, and picking a status sends a PATCH exactly for an enabled
    select and another of the five statuses.
  \<^item> \<open>Catalog\<close>: \<open>useFilteredProducts\<close>: the search, category and bound filters and the
    sort. \<open>Array.prototype.sort\<close> is a stable insertion sort on the comparator's sign
    (\<open>js_sort\<close>; ECMAScript requires stability and treats NaN as 0). Lemmas: the result is
    a permutation of the products that pass the filters, and for finite prices and
    ratings each price and rating sort, ascending or descending, is \<open>sort_key\<close> on the key
    or its negation (stability by the Multiset library's \<open>properties_for_sort_key\<close>).
  \<^item> \<open>Home\<close>: the page's state and handlers (\<open>home_step\<close>), the two filter panels, and
    the inductive relation \<open>desktop_step\<close> of what a wide screen lets a user do, with
    reachability by rule induction.
  \<^item> \<open>CheckoutPage\<close>: the page of \<open>Checkout.tsx\<close> around \<open>handleSubmit\<close>: the form's
    inputs, the supplier select, the file input with its 10 MB limit, the document type
    and payment selects, submission and the server's answer, as \<open>page_step\<close> over a
    datatype of events; the list of requests in flight is part of the state, so the
    mutation's \<open>isPending\<close> is \<open>pending\<close>. Lemmas: at most one order request in flight and
    no oversized file in any run, a chosen document type is never cleared, and every
    order sent carries an address that passed the browser's e-mail validation (the
    HTML standard's valid e-mail address, modelled from the standard).
  \<^item> \<open>CheckoutView\<close>: what the checkout page shows: the order totals through the page's
    \<open>formatPrice\<close>, each cart line with the value of its supplier select, the supplier
    options (\<open>SupplierRating\<close>, with \<open>toFixed(1)\<close>), the chosen file's size and the submit
    button. Lemmas: the shown total is the \<open>totalAmount\<close> of the order sent, a picked
    supplier shows in its line's select, the button's \<open>disabled\<close> is the submit guard,
    and cent amounts add up on screen without rounding.
  \<^item> \<open>Storefront\<close>: the route guard (\<open>protected-route.tsx\<close>), the cart badge and
    the cart drawer (\<open>CartIcon.tsx\<close>, \<open>CartDrawer.tsx\<close>; each button is the cart operation it
    calls), the product card (\<open>ProductCard.tsx\<close>) and the paginated grid
    (\<open>ProductGrid.tsx\<close>). The star rating's loops push onto one array and end with a
    \<open>RangeError\<close> (\<open>None\<close>) at the array length limit \<open>2^32 - 1\<close>. Lemmas: five stars
    for a rating in \<open>[0, 5]\<close>, exactly which ratings render (\<open>\<plusminus>Infinity\<close> and finite
    ratings beyond the array bound throw), and for the grid's step relation (clicks and
    timer callbacks interleaved under changing props) at most one pending timer and
    reachability of the state that shows every product.
  \<^item> \<open>CardView\<close>: the product card as it renders, and the shopping session around
    the cart icon and its modal drawer (\<open>shop_step\<close>). Lemmas: every session step keeps
    the cart well formed, the session goes to \<open>/checkout\<close> only from the open drawer
    of a non-empty cart, and with the drawer closed only a card's button changes the cart.
  \<^item> \<open>Layout\<close>: the narrow layout of the catalog: the header (\<open>Header.tsx\<close>: the mobile
    search box and its toggle, the filter toggle, the user links) and the mobile filter
    panel as a component mounted from the page's state (\<open>narrow_step\<close>), with its
    scroll lock effect, and the grid's \<open>Reset Filters\<close> button (\<open>ProductGrid.tsx\<close>),
    shown only for an empty grid and covered by the panel's overlay; the step takes the
    fetched products and the collation that decide what the grid shows. Lemmas: the panel is mounted exactly while the page's flag is set
    and the body scroll is locked exactly then; the panel's edits change nothing on the
    page until applied, closing discards them, and reopening starts from the page; the
    panel has no radio for \<open>all\<close> (Home passes \<open>PRODUCT_CATEGORIES\<close>), so once a
    category is applied only a reset (the panel's, or the empty grid's) returns the page
    to all categories. The desktop search
    box and what the catalog page renders from its state (\<open>home_view\<close>); both search
    buttons re-send the query in the box and change nothing.
  \<^item> this theory: the compositions. The payload of \<open>handleSubmit\<close> sent as JSON
    (\<open>payload_json\<close>) is accepted by the order route; a status change runs the client's
    \<open>handleStatusChange\<close>, the PATCH route and the cache update in sequence
    (\<open>admin_status_change\<close>, \<open>admin_status_run\<close>), the list cache stays equal to
    the store, and no status change brings items into the detail cache or removes them
    from the server; a product posted without a session with rating \<open>"Infinity"\<close> is listed
    to every client and its card fails to render; registering, logging out and logging in again
    with \<open>hashPassword\<close>/\<open>comparePasswords\<close>, and login as the seeded admin; the total
    of a checkout as the dashboard prints it (\<open>toFixed(2)\<close> read back by
    \<open>parseFloat\<close> and printed again).

  \<^bold>\<open>Bounds and parameters.\<close> Ids that travel in URLs are below \<open>10^21\<close>, where
  \<open>toString\<close> prints digits and \<open>parseInt\<close> reads them back. Integers written to an
  integer column pass the schema only in the int32 range; the checkout theorem assumes
  it of the user id, the next order id and each line's ids and quantity. The mobile panel's round
  trip is stated for whole-number prices and positive ratings, since its inputs are
  \<open>parseFloat\<close> and \<open>parseInt\<close> of what it shows. \<open>localeCompare\<close> is an argument
  \<open>collate\<close> (it depends on the locale); the theorems about name sorts hold for every
  \<open>collate\<close>. No loop of the program needs fuel other than \<open>toString\<close>; the star loops of
  \<open>ProductCard\<close> are bounded by ECMAScript's array length limit \<open>2^32 - 1\<close> (their
  counter stays below \<open>2^53\<close>, so it counts exactly); every other loop is structural
  recursion over a list.

  \<^bold>\<open>Not modelled.\<close> Static markup: the Footer (links and text, no handler), the
  loading skeletons and the markup of the pages around the state modelled here.
  \<open>formatDate\<close> (\<open>toLocaleString\<close> depends on the locale). The scrypt function itself
  and \<open>randomBytes\<close> (arguments of the model), the \<open>passport\<close> session and cookie
  machinery (the session is the stored user id). Register bodies whose username or
  password is not a string. The upload of the chosen file (the code only logs it); the
  file input's \<open>accept\<close> list, which filters the browser's picker but is not enforced,
  so any file may be chosen. Toast notifications, except where a message is the value
  of an error path. The order in which a sort leaves elements whose comparator returns
  NaN relative to others (not the case for the finite prices of the theorems).
\<close>

section \<open>The components together\<close>

subsection \<open>The order request on the wire\<close>

text \<open>\<open>apiRequest(method, url, data)\<close> sends \<open>JSON.stringify(data)\<close>; an item whose
  \<open>supplierId\<close> is undefined loses the key.\<close>

definition item_json :: "payload_item \<Rightarrow> json" where
  "item_json p =
     JObj ([(''productId'', JNum (Num (of_int (pi_productId p)))), (''productName'', JStr (pi_productName p)),
            (''quantity'', JNum (Num (of_int (pi_quantity p)))), (''price'', JStr (pi_price p))]
           @ (case pi_supplierId p of Some sid \<Rightarrow> [(''supplierId'', JNum (Num (of_int sid)))] | None \<Rightarrow> []))"

definition payload_json :: "order_payload \<Rightarrow> json" where
  "payload_json pl =
     JObj [(''userId'', JNum (Num (of_int (pl_userId pl)))), (''totalAmount'', JStr (pl_totalAmount pl)),
           (''customerName'', JStr (pl_customerName pl)), (''customerEmail'', JStr (pl_customerEmail pl)),
           (''shippingAddress'', JStr (pl_shippingAddress pl)), (''paymentMethod'', JStr (pl_paymentMethod pl)),
           (''items'', JArr (map item_json (pl_items pl)))]"

subsection \<open>The admin status change, client and server\<close>

text \<open>The request \<open>handleStatusChange\<close> makes the mutation send:
  \<open>PATCH /api/admin/orders/${orderId}/status\<close> with body \<open>{status}\<close>.\<close>

definition admin_status_request :: "int \<Rightarrow> string \<Rightarrow> request option" where
  "admin_status_request oid st =
     (case handleStatusChange oid st of
        NoRequest \<Rightarrow> None
      | SendPatch i s \<Rightarrow> Some (PatchOrderStatus (js_to_string (Num (of_int i))) (JObj [(''status'', JStr s)])))"

text \<open>One status change from the dashboard: the request, the server's handling, and
  \<open>onSuccess\<close> when the response is ok (2xx) or \<open>onError\<close> with the message that
  \<open>apiRequest\<close> throws (\<open>msg\<close>) otherwise.\<close>

definition admin_status_change ::
  "(string \<Rightarrow> string) \<Rightarrow> (string \<Rightarrow> string \<Rightarrow> bool) \<Rightarrow> (response \<Rightarrow> string) \<Rightarrow> nat \<Rightarrow>
   server \<times> admin_cache \<Rightarrow> int \<times> string \<Rightarrow> server \<times> admin_cache" where
  "admin_status_change hash check msg now sc ch =
     (let (srv, c) = sc; (oid, st) = ch in
      case admin_status_request oid st of
        None \<Rightarrow> (srv, c)
      | Some rq \<Rightarrow>
          (let (r, srv') = handle hash check now srv rq in
           if 200 \<le> fst r \<and> fst r < 300
           then (case snd r of ROrder od \<Rightarrow> (srv', on_status_success oid st od c) | _ \<Rightarrow> (srv', c))
           else (srv', on_status_error (msg r) c)))"

definition admin_status_run ::
  "(string \<Rightarrow> string) \<Rightarrow> (string \<Rightarrow> string \<Rightarrow> bool) \<Rightarrow> (response \<Rightarrow> string) \<Rightarrow> nat \<Rightarrow>
   server \<times> admin_cache \<Rightarrow> (int \<times> string) list \<Rightarrow> server \<times> admin_cache" where
  "admin_status_run hash check msg now sc chs = foldl (admin_status_change hash check msg now) sc chs"

definition empty_admin_cache :: admin_cache where
  "empty_admin_cache = \<lparr>list_cache = None, detail_cache = Map.empty, toast = None\<rparr>"

text \<open>The cache after the list query and the detail query of one order have loaded.\<close>

definition loaded_cache :: "server \<Rightarrow> int \<Rightarrow> admin_cache" where
  "loaded_cache srv oid =
     empty_admin_cache\<lparr>list_cache := Some (getOrders (srv_store srv)),
       detail_cache := (case getOrderById (srv_store srv) oid of
                          Some od \<Rightarrow> [oid \<mapsto> (od, Some (getOrderItems (srv_store srv) oid))]
                        | None \<Rightarrow> Map.empty)\<rparr>"

definition statuses_valid :: "mem_storage \<Rightarrow> bool" where
  "statuses_valid s = list_all (\<lambda>od. status od \<in> set ORDER_STATUSES) (getOrders s)"

definition example_order_item :: insert_order_item where
  "example_order_item =
     \<lparr>ioi_orderId = 1, ioi_productId = 3, ioi_productName = ''Smartwatch X1'', ioi_quantity = 1,
      ioi_price = ''999.99'', ioi_supplierId = Some 3\<rparr>"

definition detail_server :: server where
  "detail_server = admin_server\<lparr>srv_store := snd (createOrderItem example_order_item 6 (srv_store admin_server))\<rparr>"

subsection \<open>A product posted without a session, rendered by every client\<close>

text \<open>\<open>POST /api/products\<close> has no middleware, and \<open>insertProductSchema\<close> takes the
  rating as any string; \<open>ProductCard\<close> renders every product that
  \<open>GET /api/products\<close> returns.\<close>

definition infinite_rating_body :: json where
  "infinite_rating_body =
     JObj [(''name'', JStr ''Widget''), (''description'', JStr ''A widget''), (''price'', JStr ''1.00''),
           (''category'', JStr ''electronics''), (''image'', JStr ''''), (''rating'', JStr ''Infinity'')]"

subsection \<open>Lemmas\<close>

lemma parse_payload_order:
  "int32 uid \<Longrightarrow> parse_insert_order (payload_json pl) uid =
     Some \<lparr>io_userId = uid, io_totalAmount = pl_totalAmount pl, io_customerName = pl_customerName pl,
           io_customerEmail = pl_customerEmail pl, io_shippingAddress = pl_shippingAddress pl,
           io_paymentMethod = pl_paymentMethod pl, io_status = None\<rparr>"
  by (simp add: parse_insert_order_def payload_json_def z_string_def z_optional_def)

lemma parse_item_json:
  "pi_supplierId p = Some sid \<Longrightarrow> int32 sid \<Longrightarrow> int32 (pi_productId p) \<Longrightarrow> int32 (pi_quantity p)
   \<Longrightarrow> int32 oid \<Longrightarrow> parse_insert_order_item (item_json p) oid =
     Some \<lparr>ioi_orderId = oid, ioi_productId = pi_productId p, ioi_productName = pi_productName p,
           ioi_quantity = pi_quantity p, ioi_price = pi_price p, ioi_supplierId = Some sid\<rparr>"
  by (simp add: parse_insert_order_item_def item_json_def z_string_def z_nullish_def)

lemma set_map_snd_update: "set (map snd (AList.update k v m)) \<subseteq> insert v (set (map snd m))"
  by (induction m) auto

lemma updateOrderStatus_statuses_valid:
  "statuses_valid s \<Longrightarrow> st \<in> set ORDER_STATUSES \<Longrightarrow> statuses_valid (snd (updateOrderStatus i st s))"
  using set_map_snd_update [of i _ "ordersData s"]
  by (fastforce simp: statuses_valid_def updateOrderStatus_def getOrders_def list_all_iff Let_def
      split: option.splits dest: map_of_SomeD)

lemma patch_store_cases:
  "srv_store (snd (handle hash check now srv (PatchOrderStatus p b))) = srv_store srv
   \<or> (\<exists>i st. obj_get b ''status'' = Some (JStr st)
        \<and> srv_store (snd (handle hash check now srv (PatchOrderStatus p b))) = snd (updateOrderStatus i st (srv_store srv)))"
  by (auto simp: admin_only_def on_store_def patch_order_status_def
      split: option.splits json.splits prod.splits) (metis snd_conv)+

lemma admin_status_change_valid:
  assumes "statuses_valid (srv_store (fst sc))"
  shows "statuses_valid (srv_store (fst (admin_status_change hash check msg now sc ch)))"
proof -
  obtain srv c oid st where sc: "sc = (srv, c)" and ch: "ch = (oid, st)" by (cases sc, cases ch)
  show ?thesis
  proof (cases "st \<in> set ORDER_STATUSES")
    case False
    then show ?thesis using assms
      by (simp add: admin_status_change_def admin_status_request_def handleStatusChange_def sc ch)
  next
    case True
    let ?b = "JObj [(''status'', JStr st)]"
    let ?rq = "PatchOrderStatus (js_to_string (Num (of_int oid))) ?b"
    have gen: "statuses_valid (srv_store (snd (handle hash check now srv (PatchOrderStatus p ?b))))" for p
      using patch_store_cases [of hash check now srv p ?b] assms True sc
      by (auto intro: updateOrderStatus_statuses_valid)
    obtain r srv' where hr: "handle hash check now srv ?rq = (r, srv')" by (cases "handle hash check now srv ?rq")
    have "statuses_valid (srv_store srv')" using gen [of "js_to_string (Num (of_int oid))"] hr by simp
    then show ?thesis using True hr
      by (simp add: admin_status_change_def admin_status_request_def handleStatusChange_def sc ch
          on_status_success_def on_status_error_def split: prod.splits resp_body.splits
          del: handle.simps js_to_string.simps)
  qed
qed

lemma patch_keeps_items:
  "orderItemsData (srv_store (snd (handle hash check now srv (PatchOrderStatus p b)))) = orderItemsData (srv_store srv)"
  using patch_store_cases [of hash check now srv p b]
  by (auto simp: updateOrderStatus_def Let_def split: option.splits)

lemma on_status_detail:
  "detail_cache (on_status_success oid st od c) i = detail_cache c i
   \<or> (\<exists>d. detail_cache (on_status_success oid st od c) i = Some (d, None))"
  by (simp add: on_status_success_def)

lemma admin_status_change_detail:
  "orderItemsData (srv_store (fst (admin_status_change hash check msg now sc ch))) = orderItemsData (srv_store (fst sc))
   \<and> (detail_cache (snd (admin_status_change hash check msg now sc ch)) i = detail_cache (snd sc) i
      \<or> (\<exists>d. detail_cache (snd (admin_status_change hash check msg now sc ch)) i = Some (d, None)))"
proof -
  obtain srv c oid st where sc: "sc = (srv, c)" and ch: "ch = (oid, st)" by (cases sc, cases ch)
  show ?thesis
  proof (cases "st \<in> set ORDER_STATUSES")
    case False
    then show ?thesis by (simp add: admin_status_change_def admin_status_request_def handleStatusChange_def sc ch)
  next
    case True
    let ?rq = "PatchOrderStatus (js_to_string (Num (of_int oid))) (JObj [(''status'', JStr st)])"
    obtain r srv' where hr: "handle hash check now srv ?rq = (r, srv')" by (cases "handle hash check now srv ?rq")
    have it: "orderItemsData (srv_store srv') = orderItemsData (srv_store srv)"
      using patch_keeps_items [of hash check now srv] hr by (metis snd_conv)
    show ?thesis using True hr it on_status_detail [of oid st _ c i]
      by (simp add: admin_status_change_def admin_status_request_def handleStatusChange_def sc ch
          on_status_error_def split: prod.splits resp_body.splits
          del: handle.simps js_to_string.simps)
  qed
qed

subsection \<open>Properties across the components\<close>

text \<open>
  C26. What checkout sends, the server stores: when \<open>handleSubmit\<close> fires the mutation
  with a payload, the client is logged in on a well-formed store, and every integer the
  request and the store put into an integer column (the user id, the next order id, each line's
  product id, quantity and supplier id) is in the int32 range that drizzle-zod's
  \<open>insertOrderSchema\<close> and \<open>insertOrderItemSchema\<close> enforce, \<open>POST /api/orders\<close>
  with that payload as JSON answers 201 with an order of the session user, the payload's
  total and status \<open>pending\<close>, and stores one item row per cart line, in order, with
  the line's product, name, quantity, price and supplier.
\<close>

theorem checkout_order_accepted:
  assumes "handleSubmit env = Mutate pl" and "session_user srv = Some u"
    and "storage_wf (srv_store srv)"
    and "int32 (user_id u)" and "int32 (currentOrderId (srv_store srv))"
    and "\<forall>p\<in>set (pl_items pl). int32 (pi_productId p) \<and> int32 (pi_quantity p) \<and> pred_option int32 (pi_supplierId p)"
  shows "\<exists>od. fst (handle hash check now srv (PostOrder (payload_json pl))) = (201, ROrder od)
     \<and> order_userId od = user_id u \<and> totalAmount od = pl_totalAmount pl \<and> status od = ''pending''
     \<and> map item_row (drop (length (orderItemsData (srv_store srv)))
           (map snd (orderItemsData (srv_store (snd (handle hash check now srv (PostOrder (payload_json pl))))))))
         = map (\<lambda>p. (order_id od, pi_productId p, pi_productName p, pi_quantity p, pi_price p, pi_supplierId p))
             (pl_items pl)"
proof -
  obtain cu where cu: "pl = build_payload cu (env_cart env) (formData env)"
    and sup: "list_all (\<lambda>i. supplier_truthy (selectedSupplierId i)) (items (env_cart env))"
    using handleSubmit_Mutate [OF assms(1)] by blast
  have sup': "\<forall>p\<in>set (pl_items pl). \<exists>sid. pi_supplierId p = Some sid \<and> sid \<noteq> 0"
    using sup cu by (auto simp: build_payload_def payload_of_item_def list_all_iff elim!: supplier_truthy.elims)
  let ?s = "srv_store srv"
  let ?io = "\<lparr>io_userId = user_id u, io_totalAmount = pl_totalAmount pl, io_customerName = pl_customerName pl,
           io_customerEmail = pl_customerEmail pl, io_shippingAddress = pl_shippingAddress pl,
           io_paymentMethod = pl_paymentMethod pl, io_status = None\<rparr>"
  obtain od s1 where co: "createOrder ?io now ?s = (od, s1)" by (cases "createOrder ?io now ?s")
  have od: "order_userId od = user_id u" "totalAmount od = pl_totalAmount pl" "status od = ''pending''"
    and s1: "orderItemsData s1 = orderItemsData ?s" "currentOrderItemId s1 = currentOrderItemId ?s"
    and oid: "int32 (order_id od)"
    using co assms(5) by (auto simp: createOrder_def Let_def)
  have i32: "\<forall>p\<in>set (pl_items pl). \<exists>sid. pi_supplierId p = Some sid \<and> sid \<noteq> 0 \<and> int32 sid
      \<and> int32 (pi_productId p) \<and> int32 (pi_quantity p)"
    using sup' assms(6) by fastforce
  let ?its = "map item_json (pl_items pl)"
  have ok: "list_all (\<lambda>it. parse_insert_order_item it (order_id od) \<noteq> None) ?its"
    using i32 oid by (auto simp: list_all_iff parse_item_json)
  have wf1: "table_wf oi_id (currentOrderItemId s1) (orderItemsData s1)"
    using assms(3) s1 by (simp add: storage_wf_def)
  have r: "fst (create_items (order_id od) now ?its s1) \<and>
      map item_row (map snd (orderItemsData (snd (create_items (order_id od) now ?its s1))))
        = map item_row (map snd (orderItemsData ?s))
          @ map (\<lambda>it. item_row (fst (createOrderItem (the (parse_insert_order_item it (order_id od))) now s1))) ?its"
    using create_items_rows [OF wf1 ok, where now = now] s1 by simp
  obtain s2 where ci: "create_items (order_id od) now ?its s1 = (True, s2)"
    using r by (cases "create_items (order_id od) now ?its s1") auto
  have rows: "map item_row (map snd (orderItemsData s2)) = map item_row (map snd (orderItemsData ?s))
        @ map (\<lambda>it. item_row (fst (createOrderItem (the (parse_insert_order_item it (order_id od))) now s1))) ?its"
    using r ci by simp
  have rows': "map (\<lambda>it. item_row (fst (createOrderItem (the (parse_insert_order_item it (order_id od))) now s1))) ?its
      = map (\<lambda>p. (order_id od, pi_productId p, pi_productName p, pi_quantity p, pi_price p, pi_supplierId p)) (pl_items pl)"
  unfolding map_map comp_def proof (rule map_cong [OF refl])
    fix p assume "p \<in> set (pl_items pl)"
    then obtain sid where "pi_supplierId p = Some sid" "sid \<noteq> 0" "int32 sid" "int32 (pi_productId p)" "int32 (pi_quantity p)"
      using i32 by blast
    then show "item_row (fst (createOrderItem (the (parse_insert_order_item (item_json p) (order_id od))) now s1))
        = (order_id od, pi_productId p, pi_productName p, pi_quantity p, pi_price p, pi_supplierId p)"
      using oid by (simp add: parse_item_json item_row_def createOrderItem_def Let_def)
  qed
  have h: "handle hash check now srv (PostOrder (payload_json pl)) = ((201, ROrder od), srv\<lparr>srv_store := s2\<rparr>)"
    using assms(2,4) co ci by (simp add: authenticated_def on_store_def post_order_def parse_payload_order,
        simp add: payload_json_def)
  show ?thesis using h od rows rows' by (simp add: drop_map [symmetric])
qed

theorem checkout_order_accepted_witness:
  "\<exists>od. fst (handle (\<lambda>p. p) (\<lambda>p h. False) 7 customer_server
          (PostOrder (payload_json (build_payload example_user
             (cart_run defaultCart [AddToCart example_product 1 100, UpdateSupplier 100 1]) example_form))))
        = (201, ROrder od) \<and> order_userId od = 1"
proof -
  have h1: "handleSubmit \<lparr>isAuthLoading = False, auth_user = Some example_user,
       env_cart = cart_run defaultCart [AddToCart example_product 1 100, UpdateSupplier 100 1],
       formData = example_form, selectedFile = None\<rparr>
     = Mutate (build_payload example_user
                 (cart_run defaultCart [AddToCart example_product 1 100, UpdateSupplier 100 1]) example_form)"
    by (simp add: handleSubmit_def addToCart_def updateSupplier_def defaultCart_def new_cart_item_def
        example_form_def Let_def)
  have h2: "session_user customer_server
      = Some \<lparr>user_id = 1, username = ''alice'', password = ''h'', user_isAdmin = Some False\<rparr>"
    by (simp add: model_defs)
  have h3: "storage_wf (srv_store customer_server)"
    by (simp add: customer_server_def createUser_wf)
  have h4: "int32 (user_id \<lparr>user_id = 1, username = ''alice'', password = ''h'', user_isAdmin = Some False\<rparr>)"
    by (simp add: int32_def)
  have h5: "int32 (currentOrderId (srv_store customer_server))"
    by (simp add: model_defs createUser_def emptyStorage_def)
  have h6: "\<forall>p\<in>set (pl_items (build_payload example_user
                 (cart_run defaultCart [AddToCart example_product 1 100, UpdateSupplier 100 1]) example_form)).
      int32 (pi_productId p) \<and> int32 (pi_quantity p) \<and> pred_option int32 (pi_supplierId p)"
    by (simp add: build_payload_def payload_of_item_def addToCart_def updateSupplier_def defaultCart_def
        new_cart_item_def example_product_def int32_def Let_def)
  from checkout_order_accepted [OF h1 h2 h3 h4 h5 h6, where hash = "\<lambda>p. p" and check = "\<lambda>p h. False" and now = 7]
  show ?thesis by auto
qed

text \<open>
  C27. The dashboard's list cache stays coherent with the server: if it holds the
  store's order list and an admin changes an existing order to one of the five statuses,
  then after the request and \<open>onSuccess\<close> the list cache again equals the store's order
  list, the store holds the order with the new status, and the detail cache holds that
  order with no items.
\<close>

theorem admin_list_cache_coherent:
  assumes "admin_session srv" and "storage_wf (srv_store srv)"
    and "list_cache c = Some (getOrders (srv_store srv))"
    and "getOrderById (srv_store srv) oid = Some od" and "oid < 10 ^ 21" and "st \<in> set ORDER_STATUSES"
  shows "list_cache (snd (admin_status_change hash check msg now (srv, c) (oid, st)))
           = Some (getOrders (srv_store (fst (admin_status_change hash check msg now (srv, c) (oid, st)))))
    \<and> getOrderById (srv_store (fst (admin_status_change hash check msg now (srv, c) (oid, st)))) oid
           = Some (od\<lparr>status := st\<rparr>)
    \<and> detail_cache (snd (admin_status_change hash check msg now (srv, c) (oid, st))) oid
           = Some (od\<lparr>status := st\<rparr>, None)"
proof -
  have "table_wf order_id (currentOrderId (srv_store srv)) (ordersData (srv_store srv))"
    using assms(2) by (simp add: storage_wf_def)
  then have "0 < oid" using assms(4) table_wf_lookup by (fastforce simp: getOrderById_def)
  then have pi: "js_parse_int (js_to_string (Num (of_int oid))) = Some oid"
    using assms(5) by (rule js_parse_int_print)
  have ne: "st \<noteq> []" using assms(6) by (auto simp: ORDER_STATUSES_def)
  have h: "handle hash check now srv (PatchOrderStatus (js_to_string (Num (of_int oid))) (JObj [(''status'', JStr st)]))
      = ((200, ROrder (od\<lparr>status := st\<rparr>)), srv\<lparr>srv_store := snd (updateOrderStatus oid st (srv_store srv))\<rparr>)"
    using handle_patch_ok [OF assms(1) pi _ ne assms(4)] by simp
  have step: "admin_status_change hash check msg now (srv, c) (oid, st)
      = (srv\<lparr>srv_store := snd (updateOrderStatus oid st (srv_store srv))\<rparr>, on_status_success oid st (od\<lparr>status := st\<rparr>) c)"
    using assms(6) h by (simp add: admin_status_change_def admin_status_request_def handleStatusChange_def
        del: handle.simps js_to_string.simps)
  have rd: "getOrderById (snd (updateOrderStatus oid st (srv_store srv))) oid = Some (od\<lparr>status := st\<rparr>)"
    using assms(4) by (simp add: updateOrderStatus_def getOrderById_def Let_def)
  show ?thesis
    using step rd assms(3) getOrders_updateOrderStatus [OF assms(2,4), of st]
    by (simp add: on_status_success_def)
qed

theorem admin_list_cache_coherent_witness:
  "list_cache (snd (admin_status_change (\<lambda>p. p) (\<lambda>p h. False) (\<lambda>r. ''error'') 9
       (admin_server, loaded_cache admin_server 1) (1, ''shipped'')))
     = Some (getOrders (srv_store (fst (admin_status_change (\<lambda>p. p) (\<lambda>p h. False) (\<lambda>r. ''error'') 9
       (admin_server, loaded_cache admin_server 1) (1, ''shipped'')))))"
proof -
  have h1: "admin_session admin_server" by (simp add: model_defs)
  have h2: "storage_wf (srv_store admin_server)"
    by (simp add: admin_server_def createOrder_wf createUser_wf)
  have h3: "list_cache (loaded_cache admin_server 1) = Some (getOrders (srv_store admin_server))"
    by (simp add: loaded_cache_def)
  have h4: "getOrderById (srv_store admin_server) 1 = Some (the (getOrderById (srv_store admin_server) 1))"
    by (simp add: model_defs)
  have h5: "(1::int) < 10 ^ 21" by simp
  have h6: "''shipped'' \<in> set ORDER_STATUSES" by (simp add: ORDER_STATUSES_def)
  from admin_list_cache_coherent [OF h1 h2 h3 h4 h5 h6] show ?thesis by simp
qed

text \<open>
  C28. Status changes made through the dashboard keep every stored status inside
  \<open>ORDER_STATUSES\<close>: from a store whose statuses are all valid, any sequence of changes
  requested through \<open>handleStatusChange\<close>, whatever strings are chosen and whatever the
  server answers, leaves them valid. (The server alone does not ensure this; see C18.)
\<close>

theorem admin_changes_keep_statuses:
  assumes "statuses_valid (srv_store srv)"
  shows "statuses_valid (srv_store (fst (admin_status_run hash check msg now (srv, c) chs)))"
proof -
  have "statuses_valid (srv_store (fst sc)) \<Longrightarrow>
        statuses_valid (srv_store (fst (foldl (admin_status_change hash check msg now) sc chs)))" for sc
    by (induction chs arbitrary: sc) (simp_all add: admin_status_change_valid)
  then show ?thesis using assms by (simp add: admin_status_run_def)
qed

theorem admin_changes_keep_statuses_witness:
  "statuses_valid (srv_store (fst (admin_status_run (\<lambda>p. p) (\<lambda>p h. False) (\<lambda>r. ''error'') 9
      (admin_server, empty_admin_cache) [(1, ''teleported''), (1, ''shipped'')])))"
proof -
  have h: "statuses_valid (srv_store admin_server)"
    by (simp add: model_defs statuses_valid_def ORDER_STATUSES_def)
  show ?thesis by (rule admin_changes_keep_statuses [OF h])
qed

text \<open>
  C29. Status changes never bring order items into the dashboard and never remove them
  from the server: after any sequence of status changes made through the dashboard,
  whatever the server answers, the server's order items are those it had before, and each
  order's detail-cache entry is either the one loaded before or an order without
  \<open>items\<close> (the PATCH response stored by \<open>onSuccess\<close>), for which the detail panel shows
  no item rows.
\<close>

theorem status_changes_drop_detail_items:
  "orderItemsData (srv_store (fst (admin_status_run hash check msg now (srv, c) chs))) = orderItemsData (srv_store srv)
   \<and> (detail_cache (snd (admin_status_run hash check msg now (srv, c) chs)) i = detail_cache c i
      \<or> (\<exists>d. detail_cache (snd (admin_status_run hash check msg now (srv, c) chs)) i = Some (d, None)
             \<and> shown_items (d, None) = []))"
proof -
  have "orderItemsData (srv_store (fst (foldl (admin_status_change hash check msg now) sc chs))) = orderItemsData (srv_store (fst sc))
     \<and> (detail_cache (snd (foldl (admin_status_change hash check msg now) sc chs)) i = detail_cache (snd sc) i
        \<or> (\<exists>d. detail_cache (snd (foldl (admin_status_change hash check msg now) sc chs)) i = Some (d, None)))" for sc
  proof (induction chs arbitrary: sc)
    case (Cons ch chs)
    note step = admin_status_change_detail [of hash check msg now sc ch i]
    note rest = Cons.IH [of "admin_status_change hash check msg now sc ch"]
    show ?case using step rest by (simp only: foldl_Cons) metis
  qed simp
  from this [of "(srv, c)"] show ?thesis by (simp add: admin_status_run_def shown_items_def)
qed

text \<open>An instance: with the details of an order with one item loaded, changing its status
  stores the update and keeps the item on the server, while the detail cache now holds
  the PATCH response and the panel shows no item rows.\<close>

lemma detail_items_dropped_example:
  "shown_items (the (detail_cache (snd (admin_status_change (\<lambda>p. p) (\<lambda>p h. False) (\<lambda>r. ''error'') 9
       (detail_server, loaded_cache detail_server 1) (1, ''shipped''))) 1)) = []
   \<and> shown_items (the (detail_cache (loaded_cache detail_server 1) 1)) \<noteq> []
   \<and> getOrderItems (srv_store (fst (admin_status_change (\<lambda>p. p) (\<lambda>p h. False) (\<lambda>r. ''error'') 9
       (detail_server, loaded_cache detail_server 1) (1, ''shipped'')))) 1 \<noteq> []"
proof -
  have p1: "pos_to_string 1 = ''1''"
    using js_to_string_nat [of 1] by (simp add: nat_digits.simps digit_char_def)
  show ?thesis
    by (simp add: model_defs admin_status_change_def admin_status_request_def handleStatusChange_def
        ORDER_STATUSES_def on_status_success_def shown_items_def loaded_cache_def empty_admin_cache_def
        detail_server_def example_order_item_def parse_float_evals p1)
qed

text \<open>
  C40. Anyone, logged in or not, can post a product whose rating is \<open>"Infinity"\<close>: the
  route answers 201, \<open>GET /api/products\<close> then lists the product, and its card's star
  rating never returns normally: the full-star loop pushes until the array length limit
  and throws (or the engine runs out of memory first), so the card fails to render in
  every browser that shows the catalog.
\<close>

theorem anonymous_product_hangs_cards:
  assumes "parse_insert_product b = Some ip" and "ins_rating ip = ''Infinity''"
  shows "\<exists>p srv' ps. handle hash check now srv (PostProduct b) = ((201, RProduct p), srv')
           \<and> fst (handle hash check now' srv' GetProducts) = (200, RProducts ps)
           \<and> p \<in> set ps \<and> renderStars (rating p) = None"
proof -
  obtain p s' where c: "createProduct ip now (srv_store srv) = (p, s')" by fastforce
  then have h: "handle hash check now srv (PostProduct b) = ((201, RProduct p), srv\<lparr>srv_store := s'\<rparr>)"
    using assms(1) by (simp add: on_store_def post_product_def)
  have listed: "p \<in> set (getProducts s')" and r: "rating p = ''Infinity''"
    using createProduct_listed [OF c] assms(2) by simp_all
  have "parse_float ''Infinity'' = PosInf" by (simp add: parse_float_evals)
  then have "renderStars (rating p) = None" using r renderStars_infinite by simp
  with h listed show ?thesis by fastforce
qed

theorem anonymous_product_hangs_cards_witness:
  "\<exists>p srv' ps. handle (\<lambda>pw. pw) (\<lambda>pw h. False) 0 \<lparr>srv_store = emptyStorage, srv_session = None\<rparr>
                   (PostProduct infinite_rating_body) = ((201, RProduct p), srv')
           \<and> fst (handle (\<lambda>pw. pw) (\<lambda>pw h. False) 1 srv' GetProducts) = (200, RProducts ps)
           \<and> p \<in> set ps \<and> renderStars (rating p) = None"
proof -
  obtain ip where "parse_insert_product infinite_rating_body = Some ip" "ins_rating ip = ''Infinity''"
    by (simp add: parse_insert_product_def infinite_rating_body_def z_string_def z_nullish_def)
  then show ?thesis by (rule anonymous_product_hangs_cards)
qed

text \<open>
  C24. Registration and login agree on the password: on a well-formed store, registering
  a new username with password \<open>p\<close> answers 201; after logout, logging in with \<open>q\<close>
  answers 200 exactly when \<open>q\<close> has the same scrypt digest as \<open>p\<close> under the salt that
  \<open>hashPassword\<close> drew (and the digest is not empty, which scrypt's 64-byte output ensures).
\<close>

theorem register_then_login:
  assumes "rnd \<noteq> []" "un \<noteq> []" "p \<noteq> []" "q \<noteq> []"
    and "storage_wf (srv_store srv)" and "getUserByUsername (srv_store srv) un = None"
  shows "let (r1, srv1) = register (hashPassword scrypt rnd)
                            \<lparr>rb_username = Some un, rb_password = Some p, rb_isAdmin = None\<rparr> srv;
             (r2, srv2) = logout srv1;
             (r3, srv3) = login (comparePasswords scrypt) (Some un) (Some q) srv2
         in fst r1 = 201 \<and> fst r2 = 200 \<and>
            (fst r3 = 200 \<longleftrightarrow> scrypt p (hex_encode rnd) \<noteq> [] \<and> scrypt q (hex_encode rnd) = scrypt p (hex_encode rnd))"
proof -
  define iu where "iu = \<lparr>iu_username = un, iu_password = hashPassword scrypt rnd p, iu_isAdmin = reg_isAdmin None\<rparr>"
  obtain u s' where c: "createUser iu (srv_store srv) = (u, s')" by fastforce
  have found: "getUserByUsername s' un = Some u"
    using getUserByUsername_createUser [OF assms(5), of iu] assms(6) c by (simp add: iu_def)
  have pw: "password u = hashPassword scrypt rnd p"
    using c by (auto simp: createUser_def Let_def iu_def)
  have reg: "register (hashPassword scrypt rnd) \<lparr>rb_username = Some un, rb_password = Some p, rb_isAdmin = None\<rparr> srv
             = ((201, public_user u), srv\<lparr>srv_store := s', srv_session := Some (user_id u)\<rparr>)"
    using register_new [OF assms(6,2,3)] c by (simp add: iu_def)
  let ?srv2 = "srv\<lparr>srv_store := s', srv_session := None\<rparr>"
  have lg: "login (comparePasswords scrypt) (Some un) (Some q) ?srv2 =
     (if comparePasswords scrypt q (password u) then ((200, public_user u), ?srv2\<lparr>srv_session := Some (user_id u)\<rparr>)
      else ((401, RMessage ''Invalid username or password''), ?srv2))"
    using login_found [of ?srv2 un u q] found assms(2,4) by simp
  show ?thesis
    using reg lg pw comparePasswords_hashPassword [OF assms(1)]
    by (simp add: logout_def)
qed

theorem register_then_login_witness:
  "let (r1, srv1) = register (hashPassword (\<lambda>pw s. map (\<lambda>c. word_of_nat (of_char c)) pw) [7])
                          \<lparr>rb_username = Some ''bob'', rb_password = Some ''pw'', rb_isAdmin = None\<rparr>
                          \<lparr>srv_store = emptyStorage, srv_session = None\<rparr>;
       (r2, srv2) = logout srv1;
       (r3, srv3) = login (comparePasswords (\<lambda>pw s. map (\<lambda>c. word_of_nat (of_char c)) pw))
                          (Some ''bob'') (Some ''pw'') srv2
   in fst r1 = 201 \<and> fst r2 = 200 \<and>
      (fst r3 = 200 \<longleftrightarrow> (\<lambda>pw s. map (\<lambda>c. word_of_nat (of_char c) :: byte) pw) ''pw'' (hex_encode [7]) \<noteq> []
        \<and> (\<lambda>pw s. map (\<lambda>c. word_of_nat (of_char c) :: byte) pw) ''pw'' (hex_encode [7])
          = (\<lambda>pw s. map (\<lambda>c. word_of_nat (of_char c) :: byte) pw) ''pw'' (hex_encode [7]))"
  by (rule register_then_login) (simp_all add: emptyStorage_def storage_wf_def table_wf_def getUserByUsername_def)

text \<open>
  C25. The seeded administrator: on the store that the \<open>MemStorage\<close> constructor builds,
  whose admin password is \<open>hashPassword("Coimbatore")\<close>, logging in as \<open>admin\<close> with
  \<open>q\<close> answers 200 exactly when \<open>q\<close> has the digest of \<open>"Coimbatore"\<close>, and the session it
  opens is an admin session.
\<close>

theorem seeded_admin_login:
  assumes "rnd \<noteq> []" and "q \<noteq> []"
  shows "let (r, srv') = login (comparePasswords scrypt) (Some ''admin'') (Some q)
                           \<lparr>srv_store = newMemStorage (hashPassword scrypt rnd ''Coimbatore'') now, srv_session = None\<rparr>
         in (fst r = 200 \<longleftrightarrow> scrypt ''Coimbatore'' (hex_encode rnd) \<noteq> []
                             \<and> scrypt q (hex_encode rnd) = scrypt ''Coimbatore'' (hex_encode rnd))
            \<and> (fst r = 200 \<longrightarrow> admin_session srv')"
proof -
  let ?h = "hashPassword scrypt rnd ''Coimbatore''"
  let ?srv = "\<lparr>srv_store = newMemStorage ?h now, srv_session = None\<rparr>"
  let ?adm = "\<lparr>user_id = 1, username = ''admin'', password = ?h, user_isAdmin = Some True\<rparr>"
  have found: "getUserByUsername (srv_store ?srv) ''admin'' = Some ?adm" by (simp add: newMemStorage_admin)
  have get: "getUser (newMemStorage ?h now) 1 = Some ?adm"
    using getUserByUsername_getUser [OF newMemStorage_wf found [simplified]] by simp
  show ?thesis
    using login_found [OF found _ assms(2)] comparePasswords_hashPassword [OF assms(1)] get
    by (simp add: admin_session_def session_user_def)
qed

theorem seeded_admin_login_witness:
  "let (r, srv') = login (comparePasswords (\<lambda>pw s. map (\<lambda>c. word_of_nat (of_char c)) pw)) (Some ''admin'')
                         (Some ''Coimbatore'')
                         \<lparr>srv_store = newMemStorage (hashPassword (\<lambda>pw s. map (\<lambda>c. word_of_nat (of_char c)) pw) [7]
                                                    ''Coimbatore'') 0, srv_session = None\<rparr>
   in (fst r = 200 \<longleftrightarrow> (\<lambda>pw s. map (\<lambda>c. word_of_nat (of_char c) :: byte) pw) ''Coimbatore'' (hex_encode [7]) \<noteq> []
         \<and> (\<lambda>pw s. map (\<lambda>c. word_of_nat (of_char c) :: byte) pw) ''Coimbatore'' (hex_encode [7])
           = (\<lambda>pw s. map (\<lambda>c. word_of_nat (of_char c) :: byte) pw) ''Coimbatore'' (hex_encode [7]))
      \<and> (fst r = 200 \<longrightarrow> admin_session srv')"
  by (rule seeded_admin_login) simp_all

text \<open>
  C13. The dashboard shows the total the customer saw: for a cart whose checkout total
  is a finite non-negative number (below \<open>10^20\<close>), the order payload carries
  \<open>total.toFixed(2)\<close>, and \<open>formatCurrency\<close> of that string in the admin dashboard is
  \<open>"$"\<close> followed by the same string, which is what the checkout page displays.
\<close>

theorem dashboard_shows_checkout_total:
  assumes "grand_total (calculateTotalWithShipping c) = Num r" and "0 \<le> r" and "r < 10 ^ 20"
  shows "formatCurrency (Some (PriceStr (pl_totalAmount (build_payload u c f))))
           = ''$'' @ to_fixed2 (grand_total (calculateTotalWithShipping c))"
proof -
  have rt: "to_fixed2 (parse_float (to_fixed2 (Num r))) = to_fixed2 (Num r)"
    using assms(2,3) by (rule to_fixed2_parse_roundtrip)
  have "parse_float (to_fixed2 (Num r)) \<noteq> NaN"
    using parse_float_to_fixed2 [of r] assms(2,3) by simp
  with rt assms(1) show ?thesis
    by (simp add: formatCurrency_def build_payload_def Let_def del: to_fixed2.simps)
qed

theorem dashboard_shows_checkout_total_witness:
  "formatCurrency (Some (PriceStr (pl_totalAmount (build_payload example_user (cart_run defaultCart
      [AddToCart (sample_product 1 ''Desk lamp'' ''10.00'') 2 1,
       AddToCart (sample_product 2 ''Mug'' ''5.00'') 1 2, UpdateSupplier 1 1, UpdateSupplier 2 1]) example_form))))
     = ''$'' @ to_fixed2 (grand_total (calculateTotalWithShipping (cart_run defaultCart
      [AddToCart (sample_product 1 ''Desk lamp'' ''10.00'') 2 1,
       AddToCart (sample_product 2 ''Mug'' ''5.00'') 1 2, UpdateSupplier 1 1, UpdateSupplier 2 1])))"
proof -
  have "grand_total (calculateTotalWithShipping (cart_run defaultCart
      [AddToCart (sample_product 1 ''Desk lamp'' ''10.00'') 2 1,
       AddToCart (sample_product 2 ''Mug'' ''5.00'') 1 2, UpdateSupplier 1 1, UpdateSupplier 2 1])) = Num 30.99"
    by (simp add: model_defs calculateTotal_def line_amount_def parse_float_evals SUPPLIERS_def)
  moreover have "0 \<le> (30.99 :: rat)" "(30.99 :: rat) < 10 ^ 20" by simp_all
  ultimately show ?thesis by (rule dashboard_shows_checkout_total)
qed

end
